(* ===== verification/Prelude.thy ===== *)
theory Prelude
  imports Main
begin

text \<open>
  Shared vocabulary of the NeurOPS booking model: the types that name the
  model's values (user ids, naive UTC instants, time zones), the Python
  errors the booking code can raise, the few Python built-ins the code leans
  on (truthiness of optional strings and ids, \<open>x or default\<close>,
  \<open>str.strip\<close>, \<open>str.replace\<close>, \<open>int(s)\<close>, negative list indexing) and
  generic lemmas on lists and options that the component theories share.
\<close>

named_theorems py_simps "equations of the Python built-ins used by the model"
named_theorems store_simps "equations of the store queries and updates"

type_synonym uid = int
  \<comment> \<open>primary keys of the relational store (Python \<open>int\<close>)\<close>
type_synonym instant = int
  \<comment> \<open>a naive \<open>datetime\<close>, as seconds since 1970-01-01T00:00:00\<close>
type_synonym zone = "instant \<Rightarrow> int"
  \<comment> \<open>a time zone: its UTC offset in seconds at a local wall-clock time\<close>

abbreviation day_seconds :: int where
  "day_seconds \<equiv> 86400"

datatype py_error =
    UnknownTimeZoneError
  | ValueError
  | IndexError
  | IntegrityError
  | AttributeError
  | NameError
  | AssertionError

text \<open>
  The library calls the booking code makes but does not define (\<open>pytz\<close>,
  \<open>datetime\<close>): they are parameters of the model, one record of them.
  \<^item> \<open>tz_lookup n\<close> is \<open>pytz.timezone(n)\<close>; \<open>None\<close> is \<open>UnknownTimeZoneError\<close>.
  \<^item> \<open>server_zone\<close> is the zone of the server process, which a naive
    \<open>datetime.timestamp()\<close> assumes.
  \<^item> \<open>isoformat t\<close> is \<open>t.isoformat()\<close> of a naive datetime.
  \<^item> \<open>fromisoformat s\<close> is \<open>datetime.fromisoformat(s)\<close>: the wall-clock time and
    the UTC offset the string carries, if any; \<open>None\<close> is \<open>ValueError\<close>.
\<close>

record pylib =
  tz_lookup :: "string \<Rightarrow> zone option"
  server_zone :: zone
  isoformat :: "instant \<Rightarrow> string"
  fromisoformat :: "string \<Rightarrow> (instant \<times> int option) option"

section \<open>Python built-ins\<close>

text \<open>\<open>x or d\<close> for an optional string: \<open>None\<close> and \<open>''\<close> are falsy.\<close>

definition str_or :: "string option \<Rightarrow> string \<Rightarrow> string" where
  [py_simps]: "str_or x d = (case x of None \<Rightarrow> d | Some s \<Rightarrow> if s = [] then d else s)"

definition truthy_str :: "string option \<Rightarrow> bool" where
  [py_simps]: "truthy_str x = (case x of None \<Rightarrow> False | Some s \<Rightarrow> s \<noteq> [])"

text \<open>\<open>if user_id:\<close> for an optional integer: \<open>None\<close> and \<open>0\<close> are falsy.\<close>

definition truthy_id :: "int option \<Rightarrow> bool" where
  [py_simps]: "truthy_id x = (case x of None \<Rightarrow> False | Some n \<Rightarrow> n \<noteq> 0)"

definition py_isspace :: "char \<Rightarrow> bool" where
  [py_simps]: "py_isspace c \<longleftrightarrow> c = CHR '' '' \<or> ((9::nat) \<le> of_char c \<and> of_char c \<le> (13::nat))"

definition py_strip :: "string \<Rightarrow> string" where
  [py_simps]: "py_strip s = rev (dropWhile py_isspace (rev (dropWhile py_isspace s)))"

text \<open>An f-string field of an optional value: \<open>None\<close> prints as \<open>None\<close>.\<close>

definition py_fmt :: "string option \<Rightarrow> string" where
  [py_simps]: "py_fmt x = (case x of None \<Rightarrow> ''None'' | Some s \<Rightarrow> s)"

text \<open>\<open>s.replace(old, new)\<close>: every non-overlapping occurrence, left to right.\<close>

fun py_replace :: "string \<Rightarrow> string \<Rightarrow> string \<Rightarrow> string" where
  "py_replace old new [] = []"
| "py_replace old new (c # cs) =
     (if old \<noteq> [] \<and> take (length old) (c # cs) = old
      then new @ py_replace old new (drop (length old) (c # cs))
      else c # py_replace old new cs)"

text \<open>
  \<open>int(s)\<close> on a form field: optional surrounding blanks, an optional sign, a
  non-empty run of ASCII digits; anything else raises \<open>ValueError\<close> (\<open>None\<close>).
\<close>

definition digit_val :: "char \<Rightarrow> int" where
  "digit_val c = int (of_char c) - 48"

definition is_digit :: "char \<Rightarrow> bool" where
  "is_digit c \<longleftrightarrow> (48::nat) \<le> of_char c \<and> of_char c \<le> (57::nat)"

definition digits_val :: "string \<Rightarrow> int" where
  "digits_val ds = foldl (\<lambda>n c. 10 * n + digit_val c) 0 ds"

definition py_int :: "string \<Rightarrow> int option" where
  "py_int s =
     (let t = py_strip s in
      case t of
        [] \<Rightarrow> None
      | c # ds \<Rightarrow>
          if c = CHR ''-'' \<or> c = CHR ''+'' then
            (if ds \<noteq> [] \<and> list_all is_digit ds
             then Some (if c = CHR ''-'' then - digits_val ds else digits_val ds) else None)
          else if list_all is_digit t then Some (digits_val t) else None)"

text \<open>\<open>xs[i]\<close> with Python's negative indices and \<open>IndexError\<close>.\<close>

definition py_nth :: "'a list \<Rightarrow> int \<Rightarrow> py_error + 'a" where
  [py_simps]: "py_nth xs i =
     (if i \<ge> 0 then (if nat i < length xs then Inr (xs ! nat i) else Inl IndexError)
      else if nat (- i) \<le> length xs then Inr (xs ! (length xs - nat (- i))) else Inl IndexError)"

text \<open>\<open>str(n)\<close> of a non-negative integer.\<close>

fun dec_str :: "nat \<Rightarrow> string" where
  "dec_str n = (if n < 10 then [char_of (48 + n)] else dec_str (n div 10) @ [char_of (48 + n mod 10)])"

declare dec_str.simps [simp del]

section \<open>Generic lemmas\<close>

lemma find_SomeD [dest]: "List.find P xs = Some x \<Longrightarrow> x \<in> set xs \<and> P x"
  by (induction xs) (auto split: if_splits)

lemma find_append_new [simp]:
  "List.find P (xs @ [x]) = (case List.find P xs of None \<Rightarrow> (if P x then Some x else None) | Some y \<Rightarrow> Some y)"
  by (induction xs) auto

lemma truthy_id_Some [simp]: "truthy_id (Some n) \<longleftrightarrow> n \<noteq> 0"
  by (simp add: truthy_id_def)

lemma truthy_id_None [simp]: "\<not> truthy_id None"
  by (simp add: truthy_id_def)

lemma truthy_str_Some [simp]: "truthy_str (Some s) \<longleftrightarrow> s \<noteq> []"
  by (simp add: truthy_str_def)

lemma truthy_str_None [simp]: "\<not> truthy_str None"
  by (simp add: truthy_str_def)

lemma py_nth_in_range [simp]:
  "0 \<le> i \<Longrightarrow> i < int (length xs) \<Longrightarrow> py_nth xs i = Inr (xs ! nat i)"
  by (simp add: py_nth_def)

lemma filter_key_single:
  "distinct (map f xs) \<Longrightarrow> x \<in> set xs \<Longrightarrow> filter (\<lambda>y. f y = f x) xs = [x]"
proof (induction xs)
  case Nil
  then show ?case by simp
next
  case (Cons y ys)
  then show ?case
    by (cases "x = y") (auto simp: filter_empty_conv image_iff)
qed

lemma find_map_same:
  "(\<And>x. P (f x) = P x) \<Longrightarrow> List.find P (map f xs) = map_option f (List.find P xs)"
  by (induction xs) auto

lemma py_replace_no_occurrence:
  "old \<noteq> [] \<Longrightarrow> \<not> (\<exists>k. take (length old) (drop k s) = old) \<Longrightarrow> py_replace old new s = s"
proof (induction s)
  case Nil
  then show ?case by simp
next
  case (Cons c cs)
  have "take (length old) (c # cs) \<noteq> old"
    using Cons.prems(2) by (metis drop0)
  moreover have "\<not> (\<exists>k. take (length old) (drop k cs) = old)"
    using Cons.prems(2) by (metis drop_Suc_Cons)
  ultimately show ?case using Cons by simp
qed

lemma dropWhile_hd_not:
  "xs \<noteq> [] \<Longrightarrow> \<not> P (hd xs) \<Longrightarrow> dropWhile P xs = xs"
  by (cases xs) simp_all

text \<open>\<open>str.strip()\<close> leaves a string alone whose ends are not blank.\<close>

lemma py_strip_id:
  assumes "s \<noteq> []" and "\<not> py_isspace (hd s)" and "\<not> py_isspace (last s)"
  shows "py_strip s = s"
proof -
  have "dropWhile py_isspace s = s" using assms(1,2) by (rule dropWhile_hd_not)
  moreover have "dropWhile py_isspace (rev s) = rev s"
    using assms(1,3) by (intro dropWhile_hd_not) (simp_all add: hd_rev)
  ultimately show ?thesis by (simp add: py_strip_def)
qed

end
