(* ===== verification/Store.thy ===== *)
theory Store
  imports Prelude
begin

text \<open>
  The relational store the booking blueprint reads and writes through
  SQLAlchemy (\<open>app.models\<close>, not part of the sources: its rows are modelled
  from the spec's data model, section 3). Each table is a list of rows in
  insertion order (the order \<open>.first()\<close> and \<open>.all()\<close> return), with one
  autoincrement counter per table. The queries of \<open>booking/routes.py\<close> are
  \<open>List.find\<close> and \<open>filter\<close> over these lists. The appointment insert is the
  one write with a store-level guard: the spec's unique constraint on
  \<open>(closer_id, start_time)\<close> among non-canceled rows, present when the
  schema flag \<open>unique_slot_index\<close> is set.
\<close>

datatype appt_status = Scheduled | Canceled | Completed | PendingSurvey

record user =
  u_id :: uid
  username :: string
  email :: string
  role :: string
  timezone :: "string option"
  password_set :: bool

record lead_profile =
  lp_user :: uid
  phone :: "string option"
  instagram :: "string option"
  utm_source :: string
  lp_status :: string

record appointment =
  appt_id :: uid
  closer_id :: uid
  lead_id :: "uid option"
  start_time :: instant
  status :: appt_status
  event_id :: "uid option"

record survey_answer =
  ans_id :: uid
  ans_lead :: "uid option"
  question_id :: uid
  answer :: string
  ans_appt :: "uid option"

record survey_question =
  q_id :: uid
  q_active :: bool
  q_step :: string
  q_event :: "uid option"
  q_group :: "uid option"
  q_order :: int

record event =
  ev_id :: uid
  ev_utm :: string
  ev_group :: "uid option"

record availability =
  av_closer :: uid
  av_date :: int  \<comment> \<open>a \<open>date\<close>, as days since 1970-01-01\<close>
  av_start :: int \<comment> \<open>a \<open>time\<close>, as seconds since midnight\<close>

record db =
  users :: "user list"
  profiles :: "lead_profile list"
  appointments :: "appointment list"
  answers :: "survey_answer list"
  questions :: "survey_question list"
  events :: "event list"
  availabilities :: "availability list"
  next_user :: uid
  next_appt :: uid
  next_answer :: uid
  unique_slot_index :: bool

section \<open>Queries\<close>

definition get_user :: "db \<Rightarrow> uid \<Rightarrow> user option" where
  [store_simps]: "get_user d i = List.find (\<lambda>u. u_id u = i) (users d)"

definition user_by_email :: "db \<Rightarrow> string \<Rightarrow> user option" where
  [store_simps]: "user_by_email d e = List.find (\<lambda>u. email u = e) (users d)"

definition user_by_username :: "db \<Rightarrow> string \<Rightarrow> user option" where
  [store_simps]: "user_by_username d n = List.find (\<lambda>u. username u = n) (users d)"

definition profile_of :: "db \<Rightarrow> uid \<Rightarrow> lead_profile option" where
  [store_simps]: "profile_of d i = List.find (\<lambda>p. lp_user p = i) (profiles d)"

definition event_by_utm :: "db \<Rightarrow> string \<Rightarrow> event option" where
  [store_simps]: "event_by_utm d s = List.find (\<lambda>e. ev_utm e = s) (events d)"

definition get_event :: "db \<Rightarrow> uid \<Rightarrow> event option" where
  [store_simps]: "get_event d i = List.find (\<lambda>e. ev_id e = i) (events d)"

definition active :: "appointment \<Rightarrow> bool" where
  "active a \<longleftrightarrow> status a \<noteq> Canceled"

text \<open>
  \<open>Appointment.query.filter_by(closer_id=c, start_time=t)
   .filter(Appointment.status != 'canceled').first()\<close>
\<close>

definition active_appt_at :: "db \<Rightarrow> uid \<Rightarrow> instant \<Rightarrow> appointment option" where
  [store_simps]: "active_appt_at d c t =
     List.find (\<lambda>a. closer_id a = c \<and> start_time a = t \<and> active a) (appointments d)"

section \<open>The appointment insert\<close>

text \<open>
  \<open>db.session.add(Appointment(...)); db.session.commit()\<close>: the row gets the
  next id; with the unique index, a second non-canceled row for the same
  closer and instant makes the commit raise \<open>IntegrityError\<close> and roll back.
\<close>

definition insert_appointment ::
  "db \<Rightarrow> uid \<Rightarrow> uid option \<Rightarrow> instant \<Rightarrow> appt_status \<Rightarrow> uid option \<Rightarrow> py_error + (uid \<times> db)" where
  "insert_appointment d c l t st ev =
     (let a = \<lparr>appt_id = next_appt d, closer_id = c, lead_id = l, start_time = t,
               status = st, event_id = ev\<rparr>
      in if unique_slot_index d \<and> active a \<and> active_appt_at d c t \<noteq> None then Inl IntegrityError
         else Inr (next_appt d, d\<lparr>appointments := appointments d @ [a], next_appt := next_appt d + 1\<rparr>))"

section \<open>The store invariant\<close>

text \<open>
  No two non-canceled appointments share a closer and a start instant
  (spec section 3; property P1).
\<close>

definition slot_key :: "appointment \<Rightarrow> uid \<times> instant" where
  "slot_key a = (closer_id a, start_time a)"

definition no_double_booking :: "db \<Rightarrow> bool" where
  "no_double_booking d \<longleftrightarrow> distinct (map slot_key (filter active (appointments d)))"

lemma active_appt_at_None_iff:
  "active_appt_at d c t = None \<longleftrightarrow> (c, t) \<notin> set (map slot_key (filter active (appointments d)))"
  by (auto simp: active_appt_at_def find_None_iff slot_key_def)

lemma active_appt_at_SomeD:
  "active_appt_at d c t = Some a \<Longrightarrow>
     a \<in> set (appointments d) \<and> closer_id a = c \<and> start_time a = t \<and> active a"
  by (auto simp: active_appt_at_def)

lemma insert_appointment_Inr:
  "insert_appointment d c l t st ev = Inr (i, d') \<Longrightarrow>
     i = next_appt d \<and>
     appointments d' = appointments d @ [\<lparr>appt_id = i, closer_id = c, lead_id = l, start_time = t,
                                         status = st, event_id = ev\<rparr>] \<and>
     d' = d\<lparr>appointments := appointments d', next_appt := next_appt d + 1\<rparr>"
  by (auto simp: insert_appointment_def Let_def split: if_splits)

lemma insert_appointment_Inl:
  "insert_appointment d c l t st ev = Inl e \<Longrightarrow> e = IntegrityError"
  by (auto simp: insert_appointment_def Let_def split: if_splits)

lemma insert_appointment_frame:
  "insert_appointment d c l t st ev = Inr (i, d') \<Longrightarrow>
     users d' = users d \<and> profiles d' = profiles d \<and> answers d' = answers d \<and>
     questions d' = questions d \<and> events d' = events d \<and>
     availabilities d' = availabilities d \<and> next_user d' = next_user d \<and>
     next_answer d' = next_answer d \<and> unique_slot_index d' = unique_slot_index d"
  by (auto simp: insert_appointment_def Let_def split: if_splits)

text \<open>
  A new row keeps the invariant whenever it is canceled or its slot is free:
  the fact behind both the code's pre-check and the store's index.
\<close>

lemma no_double_booking_snoc:
  assumes "no_double_booking d"
    and "\<not> active a \<or> active_appt_at d (closer_id a) (start_time a) = None"
  shows "no_double_booking (d\<lparr>appointments := appointments d @ [a], next_appt := n\<rparr>)"
  using assms unfolding no_double_booking_def active_appt_at_None_iff
  by (auto simp: slot_key_def)

lemma insert_appointment_keeps_no_double_booking:
  assumes "no_double_booking d"
    and "insert_appointment d c l t st ev = Inr (i, d')"
    and "unique_slot_index d \<or> active_appt_at d c t = None"
  shows "no_double_booking d'"
proof -
  define a where "a = \<lparr>appt_id = next_appt d, closer_id = c, lead_id = l, start_time = t,
                      status = st, event_id = ev\<rparr>"
  have d': "d' = d\<lparr>appointments := appointments d @ [a], next_appt := next_appt d + 1\<rparr>"
    and free: "\<not> active a \<or> active_appt_at d (closer_id a) (start_time a) = None"
    using assms(2,3) by (auto simp: insert_appointment_def a_def Let_def split: if_splits)
  show ?thesis
    unfolding d' by (rule no_double_booking_snoc [OF assms(1) free])
qed

end
