(* ===== verification/Session.thy ===== *)
theory Session
  imports Store
begin

text \<open>
  The per-visitor Flask session the booking blueprint reads and writes, as an
  explicit record passed into every handler, together with the world a
  request acts on: the shared store, this visitor's session, and the log of
  calls to the external collaborators (the calendar webhook and the lead
  status recomputation). Each session key of \<open>booking/routes.py\<close> is a field;
  a key that is absent is \<open>None\<close>. \<open>booking_data\<close> is read everywhere with
  \<open>session.get('booking_data', {})\<close>, so its absence is the empty staging
  area. \<open>login_user\<close> stands for the unrelated data other blueprints keep in the
  same session (the staff login), and \<open>flashes\<close> for Flask's flash queue.
\<close>

datatype flash_msg =
    EmailRequired
  | WelcomeBack string
  | SessionError
  | SlotSelectionError
  | SlotTaken

record staged_slot =
  ss_utc_iso :: string
  ss_closer :: uid

record staged_answer =
  sa_question :: uid
  sa_answer :: string

record bdata =
  bd_slot :: "staged_slot option"
  bd_answers :: "staged_answer list"

definition empty_bdata :: bdata where
  "empty_bdata = \<lparr>bd_slot = None, bd_answers = []\<rparr>"

record session =
  booking_data :: bdata
  booking_event_id :: "uid option"
  funnel_steps :: "string list option"
  funnel_index :: "int option"
  booking_user_id :: "uid option"
  current_appt_id :: "uid option"
  booking_email_input :: "string option"
  booking_utm :: "string option"
  preferred_closer_id :: "uid option"
  login_user :: "uid option"
  flashes :: "flash_msg list"

datatype effect = Webhook uid string | Recompute uid

record world =
  wdb :: db
  sess :: session
  effects :: "effect list"

text \<open>The routes a handler redirects to.\<close>

datatype endpoint =
    StartBooking
  | HandleFlow
  | NextStep
  | IdentifyView
  | ContactDetailsView
  | CalendarView
  | SelectSlot
  | SurveyView
  | ThankYou

definition flash :: "flash_msg \<Rightarrow> world \<Rightarrow> world" where
  "flash m w = w\<lparr>sess := (sess w)\<lparr>flashes := flashes (sess w) @ [m]\<rparr>\<rparr>"

text \<open>\<open>user = User.query.get(user_id); if user: user.update_status_based_on_debt()\<close>\<close>

definition recompute_if_user :: "db \<Rightarrow> uid option \<Rightarrow> effect list" where
  "recompute_if_user d u =
     (case u of None \<Rightarrow> [] | Some i \<Rightarrow> if get_user d i \<noteq> None then [Recompute i] else [])"

lemma flash_wdb [simp]: "wdb (flash m w) = wdb w"
  by (simp add: flash_def)

end
