(* ===== verification/Claim.thy ===== *)
theory Claim
  imports Session
begin

text \<open>
  Slot claim and staged-data flush: \<open>select_slot\<close> and
  \<open>_flush_session_data\<close> of \<open>src/app/booking/routes.py\<close>. A claim re-checks
  the chosen \<open>(closer, instant)\<close> against the non-canceled appointments; an
  identified visitor's appointment is created at once, an anonymous visitor's
  choice is staged in the session and then passed to the flush, which, as the
  code stands, creates the appointment with no lead. The flush turns a staged
  slot into an appointment (unless one exists already) and staged answers into
  answer rows, and clears both from the session.
\<close>

text \<open>
  \<open>datetime.fromisoformat(utc_iso.replace('Z', '+00:00')).replace(tzinfo=None)\<close>:
  the wall-clock part, whatever offset the string carried.
\<close>

definition parse_utc_iso :: "pylib \<Rightarrow> string \<Rightarrow> instant option" where
  "parse_utc_iso lib s = map_option fst (fromisoformat lib (py_replace ''Z'' ''+00:00'' s))"

text \<open>Step 1 of the flush: the staged slot becomes an appointment.\<close>

definition flush_slot :: "pylib \<Rightarrow> uid option \<Rightarrow> world \<Rightarrow> py_error + world" where
  "flush_slot lib u w =
     (let s = sess w; bd = booking_data s in
      case bd_slot bd of
        None \<Rightarrow> Inr w
      | Some sl \<Rightarrow>
          if ss_utc_iso sl = [] then Inr w
          else (case parse_utc_iso lib (ss_utc_iso sl) of
                  None \<Rightarrow> Inl ValueError
                | Some t \<Rightarrow>
                    if active_appt_at (wdb w) (ss_closer sl) t = None then
                      (case insert_appointment (wdb w) (ss_closer sl) u t Scheduled (booking_event_id s) of
                         Inl e \<Rightarrow> Inl e
                       | Inr (aid, d') \<Rightarrow>
                           Inr (w\<lparr>wdb := d',
                                  sess := s\<lparr>current_appt_id := Some aid,
                                            booking_data := bd\<lparr>bd_slot := None\<rparr>\<rparr>,
                                  effects := effects w @ [Webhook aid ''created''] @
                                             recompute_if_user d' u\<rparr>))
                    else Inr (w\<lparr>sess := s\<lparr>booking_data := bd\<lparr>bd_slot := None\<rparr>\<rparr>\<rparr>)))"

text \<open>\<open>SurveyAnswer(lead_id=user_id, question_id=..., answer=..., appointment_id=appt_id)\<close>\<close>

definition add_answer :: "uid option \<Rightarrow> uid option \<Rightarrow> db \<Rightarrow> staged_answer \<Rightarrow> db" where
  "add_answer u appt d a =
     d\<lparr>answers := answers d @ [\<lparr>ans_id = next_answer d, ans_lead = u, question_id = sa_question a,
                                 answer = sa_answer a, ans_appt = appt\<rparr>],
       next_answer := next_answer d + 1\<rparr>"

text \<open>Step 2 of the flush: the staged answers become answer rows.\<close>

definition flush_answers :: "uid option \<Rightarrow> world \<Rightarrow> world" where
  "flush_answers u w =
     (let s = sess w; bd = booking_data s in
      if bd_answers bd = [] then w
      else w\<lparr>wdb := foldl (add_answer u (current_appt_id s)) (wdb w) (bd_answers bd),
             sess := s\<lparr>booking_data := bd\<lparr>bd_answers := []\<rparr>\<rparr>\<rparr>)"

definition flush_session_data :: "pylib \<Rightarrow> uid option \<Rightarrow> world \<Rightarrow> py_error + world" where
  "flush_session_data lib u w =
     (case flush_slot lib u w of Inl e \<Rightarrow> Inl e | Inr w' \<Rightarrow> Inr (flush_answers u w'))"

text \<open>
  \<open>select_slot\<close>: the form's \<open>utc_iso\<close> and \<open>closer_id\<close> fields (\<open>None\<close> when
  absent); the result is the route the handler redirects to.
\<close>

definition select_slot ::
  "pylib \<Rightarrow> string option \<Rightarrow> string option \<Rightarrow> world \<Rightarrow> py_error + (endpoint \<times> world)" where
  "select_slot lib f_iso f_closer w =
     (case (f_iso, f_closer) of
        (Some iso_s, Some cstr) \<Rightarrow>
          if iso_s = [] \<or> cstr = [] then Inr (CalendarView, flash SlotSelectionError w)
          else (case parse_utc_iso lib iso_s of
                  None \<Rightarrow> Inl ValueError
                | Some t \<Rightarrow>
                    (case py_int cstr of
                       None \<Rightarrow> Inl ValueError
                     | Some c \<Rightarrow>
                         let s = sess w; u = booking_user_id s in
                         if active_appt_at (wdb w) c t \<noteq> None then Inr (CalendarView, flash SlotTaken w)
                         else if truthy_id u then
                           (case insert_appointment (wdb w) c u t Scheduled (booking_event_id s) of
                              Inl e \<Rightarrow> Inl e
                            | Inr (aid, d') \<Rightarrow>
                                Inr (NextStep,
                                     w\<lparr>wdb := d', sess := s\<lparr>current_appt_id := Some aid\<rparr>,
                                       effects := effects w @ recompute_if_user d' u @
                                                  [Webhook aid ''created'']\<rparr>))
                         else
                           (let w1 = w\<lparr>sess := s\<lparr>booking_data :=
                                        (booking_data s)\<lparr>bd_slot := Some \<lparr>ss_utc_iso = iso_s, ss_closer = c\<rparr>\<rparr>\<rparr>\<rparr>
                            in case flush_session_data lib u w1 of
                                 Inl e \<Rightarrow> Inl e
                               | Inr w2 \<Rightarrow> Inr (NextStep, w2))))
      | _ \<Rightarrow> Inr (CalendarView, flash SlotSelectionError w))"

section \<open>Example inputs\<close>

text \<open>
  Fixtures for the witnesses (not code): a library whose \<open>fromisoformat\<close>
  reads the one string the examples use, an empty session, and a store with
  one lead (id 5) and no appointments.
\<close>

definition claim_lib :: pylib where
  "claim_lib = \<lparr>tz_lookup = (\<lambda>_. None), server_zone = (\<lambda>_. 0), isoformat = (\<lambda>_. ''''),
     fromisoformat = (\<lambda>s. if s = ''2024-06-01T13:00:00+00:00'' then Some (1717246800, Some 0) else None)\<rparr>"

definition empty_session :: session where
  "empty_session = \<lparr>booking_data = empty_bdata, booking_event_id = None, funnel_steps = None,
     funnel_index = None, booking_user_id = None, current_appt_id = None, booking_email_input = None,
     booking_utm = None, preferred_closer_id = None, login_user = None, flashes = []\<rparr>"

definition claim_db :: db where
  "claim_db = \<lparr>users = [\<lparr>u_id = 5, username = ''ana'', email = ''ana@example.com'', role = ''lead'',
                          timezone = None, password_set = True\<rparr>],
     profiles = [], appointments = [], answers = [], questions = [], events = [], availabilities = [],
     next_user = 6, next_appt = 1, next_answer = 1, unique_slot_index = True\<rparr>"

definition claim_world :: "session \<Rightarrow> world" where
  "claim_world s = \<lparr>wdb = claim_db, sess = s, effects = []\<rparr>"

definition staged_session :: session where
  "staged_session = empty_session\<lparr>booking_data :=
     \<lparr>bd_slot = Some \<lparr>ss_utc_iso = ''2024-06-01T13:00:00Z'', ss_closer = 1\<rparr>,
      bd_answers = [\<lparr>sa_question = 3, sa_answer = ''yes''\<rparr>]\<rparr>\<rparr>"

definition flushed_world :: world where
  "flushed_world =
     \<lparr>wdb = claim_db\<lparr>appointments := [\<lparr>appt_id = 1, closer_id = 1, lead_id = Some 5,
              start_time = 1717246800, status = Scheduled, event_id = None\<rparr>], next_appt := 2,
              answers := [\<lparr>ans_id = 1, ans_lead = Some 5, question_id = 3, answer = ''yes'',
                           ans_appt = Some 1\<rparr>],
              next_answer := 2\<rparr>,
      sess = empty_session\<lparr>current_appt_id := Some 1\<rparr>,
      effects = [Webhook 1 ''created'', Recompute 5]\<rparr>"

text \<open>The staged slot is settled: absent, or with an empty instant string.\<close>

definition slot_settled :: "world \<Rightarrow> bool" where
  "slot_settled w = (case bd_slot (booking_data (sess w)) of None \<Rightarrow> True | Some sl \<Rightarrow> ss_utc_iso sl = [])"

section \<open>Frame and invariant lemmas\<close>

lemma foldl_add_answer_appointments [simp]:
  "appointments (foldl (add_answer u appt) d xs) = appointments d"
  by (induction xs arbitrary: d) (simp_all add: add_answer_def)

lemma flush_answers_appointments [simp]:
  "appointments (wdb (flush_answers u w)) = appointments (wdb w)"
  by (simp add: flush_answers_def Let_def)

lemma flush_slot_keeps_no_double_booking:
  assumes "no_double_booking (wdb w)" and "flush_slot lib u w = Inr w'"
  shows "no_double_booking (wdb w')"
  using assms
  by (auto simp: flush_slot_def Let_def split: option.splits if_splits sum.splits
           intro: insert_appointment_keeps_no_double_booking)

lemma flush_session_data_keeps_no_double_booking:
  assumes "no_double_booking (wdb w)" and "flush_session_data lib u w = Inr w'"
  shows "no_double_booking (wdb w')"
proof -
  obtain w1 where w1: "flush_slot lib u w = Inr w1" and w': "w' = flush_answers u w1"
    using assms(2) by (auto simp: flush_session_data_def split: sum.splits)
  have "no_double_booking (wdb w1)"
    by (rule flush_slot_keeps_no_double_booking [OF assms(1) w1])
  then show ?thesis by (simp add: w' no_double_booking_def)
qed

text \<open>
  C1 (P1, single request): a claim never creates a second non-canceled
  appointment for a closer and instant, with or without the store's index:
  both the identified path and the flush re-check the slot first.
\<close>

theorem select_slot_no_double_booking:
  assumes "no_double_booking (wdb w)" and "select_slot lib f_iso f_closer w = Inr (r, w')"
  shows "no_double_booking (wdb w')"
proof -
  have anon: "no_double_booking (wdb w2)"
    if "flush_session_data lib u (w\<lparr>sess := s\<rparr>) = Inr w2" for u s w2
    using flush_session_data_keeps_no_double_booking [OF _ that] assms(1) by simp
  show ?thesis
    using assms
    by (auto simp: select_slot_def Let_def split: option.splits if_splits sum.splits prod.splits
             intro: insert_appointment_keeps_no_double_booking anon)
qed


theorem select_slot_no_double_booking_witness:
  "no_double_booking (wdb (claim_world (empty_session\<lparr>booking_user_id := Some 5\<rparr>))) \<and>
   select_slot claim_lib (Some ''2024-06-01T13:00:00Z'') (Some ''1'')
      (claim_world (empty_session\<lparr>booking_user_id := Some 5\<rparr>)) =
     Inr (NextStep, \<lparr>wdb = claim_db\<lparr>appointments := [\<lparr>appt_id = 1, closer_id = 1, lead_id = Some 5,
            start_time = 1717246800, status = Scheduled, event_id = None\<rparr>], next_appt := 2\<rparr>,
          sess = empty_session\<lparr>booking_user_id := Some 5, current_appt_id := Some 1\<rparr>,
          effects = [Recompute 5, Webhook 1 ''created'']\<rparr>) \<and>
   no_double_booking (claim_db\<lparr>appointments := [\<lparr>appt_id = 1, closer_id = 1, lead_id = Some 5,
            start_time = 1717246800, status = Scheduled, event_id = None\<rparr>], next_appt := 2\<rparr>)"
proof -
  have h: "no_double_booking (wdb (claim_world (empty_session\<lparr>booking_user_id := Some 5\<rparr>)))"
    by code_simp
  have ev: "select_slot claim_lib (Some ''2024-06-01T13:00:00Z'') (Some ''1'')
      (claim_world (empty_session\<lparr>booking_user_id := Some 5\<rparr>)) =
     Inr (NextStep, \<lparr>wdb = claim_db\<lparr>appointments := [\<lparr>appt_id = 1, closer_id = 1, lead_id = Some 5,
            start_time = 1717246800, status = Scheduled, event_id = None\<rparr>], next_appt := 2\<rparr>,
          sess = empty_session\<lparr>booking_user_id := Some 5, current_appt_id := Some 1\<rparr>,
          effects = [Recompute 5, Webhook 1 ''created'']\<rparr>)"
    by code_simp
  show ?thesis using select_slot_no_double_booking [OF h ev] h ev by simp
qed

lemma flush_slot_creates:
  assumes "bd_slot (booking_data (sess w)) = Some sl" and "ss_utc_iso sl \<noteq> []"
    and "parse_utc_iso lib (ss_utc_iso sl) = Some t" and "active_appt_at (wdb w) (ss_closer sl) t = None"
  shows "\<exists>w'. flush_slot lib u w = Inr w' \<and>
           appointments (wdb w') = appointments (wdb w) @
             [\<lparr>appt_id = next_appt (wdb w), closer_id = ss_closer sl, lead_id = u, start_time = t,
               status = Scheduled, event_id = booking_event_id (sess w)\<rparr>]"
  using assms by (simp add: flush_slot_def insert_appointment_def active_def Let_def)

lemma flush_slot_settles: "flush_slot lib u w = Inr w' \<Longrightarrow> slot_settled w'"
  by (auto simp: flush_slot_def slot_settled_def Let_def split: option.splits if_splits sum.splits)

lemma settled_flush_slot: "slot_settled w \<Longrightarrow> flush_slot lib u w = Inr w"
  by (auto simp: flush_slot_def slot_settled_def split: option.splits)

lemma flush_answers_settled: "slot_settled w \<Longrightarrow> slot_settled (flush_answers u w)"
  by (simp add: flush_answers_def slot_settled_def Let_def)

lemma flush_answers_twice: "flush_answers u (flush_answers u w) = flush_answers u w"
  by (simp add: flush_answers_def Let_def)

text \<open>
  C2: an anonymous claim does create a row. \<open>select_slot\<close> stages the slot
  and then calls \<open>_flush_session_data(None)\<close>, whose comment says it "won't
  flush if user_id None"; it does: the slot is free, so the flush inserts an
  appointment whose lead is \<open>None\<close> (spec 4.5 says no row is ever created for
  an anonymous actor).
\<close>

theorem select_slot_anonymous_creates_orphan:
  assumes "booking_user_id (sess w) = None"
    and "select_slot lib (Some i) (Some cs) w = Inr (r, w')"
    and "i \<noteq> []" and "cs \<noteq> []" and "parse_utc_iso lib i = Some t" and "py_int cs = Some c"
    and "active_appt_at (wdb w) c t = None"
  shows "\<exists>a \<in> set (appointments (wdb w')). closer_id a = c \<and> start_time a = t \<and>
           lead_id a = None \<and> active a"
proof -
  let ?w1 = "w\<lparr>sess := (sess w)\<lparr>booking_data :=
               (booking_data (sess w))\<lparr>bd_slot := Some \<lparr>ss_utc_iso = i, ss_closer = c\<rparr>\<rparr>\<rparr>\<rparr>"
  obtain w1' where f: "flush_slot lib None ?w1 = Inr w1'"
    and ap: "appointments (wdb w1') = appointments (wdb w) @
             [\<lparr>appt_id = next_appt (wdb w), closer_id = c, lead_id = None, start_time = t,
               status = Scheduled, event_id = booking_event_id (sess w)\<rparr>]"
    using flush_slot_creates [of ?w1 "\<lparr>ss_utc_iso = i, ss_closer = c\<rparr>" lib t None] assms(3,5,7)
    by auto
  have "select_slot lib (Some i) (Some cs) w = Inr (NextStep, flush_answers None w1')"
    using assms(1,3-7) f by (simp add: select_slot_def flush_session_data_def)
  then have "appointments (wdb w') = appointments (wdb w1')" using assms(2) by simp
  then show ?thesis using ap by (simp add: active_def)
qed

theorem select_slot_anonymous_creates_orphan_witness:
  "select_slot claim_lib (Some ''2024-06-01T13:00:00Z'') (Some ''1'') (claim_world empty_session) =
     Inr (NextStep, \<lparr>wdb = claim_db\<lparr>appointments := [\<lparr>appt_id = 1, closer_id = 1, lead_id = None,
            start_time = 1717246800, status = Scheduled, event_id = None\<rparr>], next_appt := 2\<rparr>,
          sess = empty_session\<lparr>current_appt_id := Some 1\<rparr>,
          effects = [Webhook 1 ''created'']\<rparr>) \<and>
   (\<exists>a \<in> set [\<lparr>appt_id = 1, closer_id = 1, lead_id = None, start_time = 1717246800,
                 status = Scheduled, event_id = (None::uid option)\<rparr>].
      closer_id a = 1 \<and> start_time a = 1717246800 \<and> lead_id a = None \<and> active a)"
proof -
  have ev: "select_slot claim_lib (Some ''2024-06-01T13:00:00Z'') (Some ''1'') (claim_world empty_session) =
     Inr (NextStep, \<lparr>wdb = claim_db\<lparr>appointments := [\<lparr>appt_id = 1, closer_id = 1, lead_id = None,
            start_time = 1717246800, status = Scheduled, event_id = None\<rparr>], next_appt := 2\<rparr>,
          sess = empty_session\<lparr>current_appt_id := Some 1\<rparr>,
          effects = [Webhook 1 ''created'']\<rparr>)"
    by code_simp
  have h: "parse_utc_iso claim_lib ''2024-06-01T13:00:00Z'' = Some 1717246800"
    "py_int ''1'' = Some 1" "active_appt_at (wdb (claim_world empty_session)) 1 1717246800 = None"
    "booking_user_id (sess (claim_world empty_session)) = None"
    by code_simp+
  show ?thesis
    using select_slot_anonymous_creates_orphan [OF h(4) ev _ _ h(1) h(2) h(3)] ev by simp
qed

text \<open>
  C11 (P4): the flush is idempotent: run again on the session it leaves
  behind, it inserts nothing and changes nothing, so a replayed flush never
  duplicates an appointment or an answer.
\<close>

theorem flush_session_data_idempotent:
  assumes "flush_session_data lib u w = Inr w'"
  shows "flush_session_data lib u w' = Inr w'"
proof -
  obtain w1 where w1: "flush_slot lib u w = Inr w1" and w': "w' = flush_answers u w1"
    using assms by (auto simp: flush_session_data_def split: sum.splits)
  have "slot_settled w'"
    using flush_slot_settles [OF w1] by (simp add: w' flush_answers_settled)
  then have "flush_slot lib u w' = Inr w'" by (rule settled_flush_slot)
  then show ?thesis by (simp add: flush_session_data_def w' flush_answers_twice)
qed

theorem flush_session_data_idempotent_witness:
  "flush_session_data claim_lib (Some 5) (claim_world staged_session) = Inr flushed_world \<and>
   flush_session_data claim_lib (Some 5) flushed_world = Inr flushed_world"
proof -
  have ev: "flush_session_data claim_lib (Some 5) (claim_world staged_session) = Inr flushed_world"
    by code_simp
  show ?thesis using flush_session_data_idempotent [OF ev] ev by simp
qed

end
