(* ===== verification/Concurrency.thy ===== *)
theory Concurrency
  imports Claim
begin

text \<open>
  Cross-visitor contention for a slot. Each request of \<open>select_slot\<close> by an
  identified visitor is two store interactions: the conflict query (line 361,
  \<open>claim_check\<close>) and, later, the insert and commit (lines 372-380,
  \<open>claim_commit\<close>). Requests of different visitors interleave between the two,
  so the system is a relation: any visitor may check, any visitor with a
  checked claim may commit, and an appointment may be canceled by the external
  workflow. The check is an optimisation; whether two commits can both land
  depends on the store's unique index alone.
\<close>

record cstate =
  cdb :: db
  pending :: "nat \<Rightarrow> (uid \<times> instant \<times> uid \<times> uid option) option"
    \<comment> \<open>per visitor: the closer, instant, lead and event of a checked, uncommitted claim\<close>

text \<open>The conflict query: a free slot becomes this visitor's pending claim.\<close>

definition claim_check :: "nat \<Rightarrow> uid \<Rightarrow> instant \<Rightarrow> uid \<Rightarrow> uid option \<Rightarrow> cstate \<Rightarrow> cstate option" where
  "claim_check v c t u ev s =
     (if pending s v = None \<and> active_appt_at (cdb s) c t = None
      then Some (s\<lparr>pending := (pending s)(v := Some (c, t, u, ev))\<rparr>) else None)"

text \<open>The insert and commit; an \<open>IntegrityError\<close> rolls the request back.\<close>

definition claim_commit :: "nat \<Rightarrow> cstate \<Rightarrow> cstate option" where
  "claim_commit v s =
     (case pending s v of
        None \<Rightarrow> None
      | Some (c, t, u, ev) \<Rightarrow>
          (case insert_appointment (cdb s) c (Some u) t Scheduled ev of
             Inl _ \<Rightarrow> Some (s\<lparr>pending := (pending s)(v := None)\<rparr>)
           | Inr (_, d') \<Rightarrow> Some (s\<lparr>cdb := d', pending := (pending s)(v := None)\<rparr>)))"

text \<open>Cancellation by the external status workflow (spec section 3).\<close>

definition cancel_appt :: "uid \<Rightarrow> db \<Rightarrow> db" where
  "cancel_appt i d =
     d\<lparr>appointments := map (\<lambda>a. if appt_id a = i then a\<lparr>status := Canceled\<rparr> else a) (appointments d)\<rparr>"

inductive conc_step :: "cstate \<Rightarrow> cstate \<Rightarrow> bool" where
  check: "claim_check v c t u ev s = Some s' \<Longrightarrow> conc_step s s'"
| commit: "claim_commit v s = Some s' \<Longrightarrow> conc_step s s'"
| cancel: "conc_step s (s\<lparr>cdb := cancel_appt i (cdb s)\<rparr>)"

inductive conc_reach :: "db \<Rightarrow> cstate \<Rightarrow> bool" for d0 where
  start: "conc_reach d0 \<lparr>cdb = d0, pending = (\<lambda>_. None)\<rparr>"
| step: "conc_reach d0 s \<Longrightarrow> conc_step s s' \<Longrightarrow> conc_reach d0 s'"

inductive_cases conc_stepE: "conc_step s s'"

definition race_db :: "bool \<Rightarrow> db" where
  "race_db ix = \<lparr>users = [], profiles = [], appointments = [], answers = [], questions = [],
     events = [], availabilities = [], next_user = 1, next_appt = 1, next_answer = 1,
     unique_slot_index = ix\<rparr>"

text \<open>A schedule: one interleaving of the visitors' requests, run in order.\<close>

datatype sched_op = Chk nat uid instant uid "uid option" | Com nat

fun run_sched :: "sched_op list \<Rightarrow> cstate \<Rightarrow> cstate option" where
  "run_sched [] s = Some s"
| "run_sched (Chk v c t u ev # ops) s =
     (case claim_check v c t u ev s of None \<Rightarrow> None | Some s' \<Rightarrow> run_sched ops s')"
| "run_sched (Com v # ops) s =
     (case claim_commit v s of None \<Rightarrow> None | Some s' \<Rightarrow> run_sched ops s')"

text \<open>Scenario E: two visitors check the same free slot, then both commit.\<close>

definition race :: "sched_op list" where
  "race = [Chk 0 1 1717246800 5 None, Chk 1 1 1717246800 6 None, Com 0, Com 1]"

definition race_start :: "bool \<Rightarrow> cstate" where
  "race_start ix = \<lparr>cdb = race_db ix, pending = (\<lambda>_. None)\<rparr>"

section \<open>The invariant under interleaving\<close>

lemma filter_active_cancel:
  "filter active (map (\<lambda>a. if appt_id a = i then a\<lparr>status := Canceled\<rparr> else a) xs) =
   filter (\<lambda>a. active a \<and> appt_id a \<noteq> i) xs"
  by (induction xs) (auto simp: active_def)

lemma cancel_appt_keeps_no_double_booking:
  "no_double_booking d \<Longrightarrow> no_double_booking (cancel_appt i d)"
proof -
  assume "no_double_booking d"
  then have "distinct (map slot_key (filter (\<lambda>a. appt_id a \<noteq> i) (filter active (appointments d))))"
    unfolding no_double_booking_def by (rule distinct_map_filter)
  moreover have "filter (\<lambda>a. appt_id a \<noteq> i) (filter active (appointments d)) =
                 filter (\<lambda>a. active a \<and> appt_id a \<noteq> i) (appointments d)"
    by (simp add: conj_commute)
  ultimately show ?thesis
    by (simp add: no_double_booking_def cancel_appt_def filter_active_cancel)
qed

lemma claim_check_db: "claim_check v c t u ev s = Some s' \<Longrightarrow> cdb s' = cdb s"
  by (auto simp: claim_check_def split: if_splits)

lemma claim_commit_inv:
  assumes "unique_slot_index (cdb s)" and "no_double_booking (cdb s)"
    and "claim_commit v s = Some s'"
  shows "unique_slot_index (cdb s') \<and> no_double_booking (cdb s')"
  using assms
  by (auto simp: claim_commit_def insert_appointment_frame
           split: option.splits sum.splits prod.splits
           intro: insert_appointment_keeps_no_double_booking)

lemma conc_step_inv:
  "conc_step s s' \<Longrightarrow> unique_slot_index (cdb s) \<and> no_double_booking (cdb s) \<Longrightarrow>
   unique_slot_index (cdb s') \<and> no_double_booking (cdb s')"
proof (induction rule: conc_step.induct)
  case (check v c t u ev s s')
  then show ?case by (simp add: claim_check_db)
next
  case (commit v s s')
  then show ?case using claim_commit_inv by blast
next
  case (cancel s i)
  then show ?case by (simp add: cancel_appt_def cancel_appt_keeps_no_double_booking [unfolded cancel_appt_def])
qed

lemma conc_reach_inv:
  "conc_reach d0 s \<Longrightarrow> unique_slot_index d0 \<Longrightarrow> no_double_booking d0 \<Longrightarrow>
   unique_slot_index (cdb s) \<and> no_double_booking (cdb s)"
proof (induction rule: conc_reach.induct)
  case start
  then show ?case by simp
next
  case (step s s')
  then show ?case using conc_step_inv by blast
qed

text \<open>
  P1 under concurrency: with the store's unique index, no interleaving
  of checks, commits and cancellations by any number of visitors ever leaves
  two non-canceled appointments on one closer's instant.
\<close>

theorem concurrent_claims_no_double_booking:
  assumes "conc_reach d0 s" and "unique_slot_index d0" and "no_double_booking d0"
  shows "no_double_booking (cdb s)"
  using conc_reach_inv [OF assms] by blast


lemma run_sched_reach:
  "run_sched ops s = Some s' \<Longrightarrow> conc_reach d0 s \<Longrightarrow> conc_reach d0 s'"
proof (induction ops s rule: run_sched.induct)
  case (1 s)
  then show ?case by simp
next
  case (2 v c t u ev ops s)
  then show ?case
    by (auto split: option.splits intro: conc_reach.step conc_step.check)
next
  case (3 v ops s)
  then show ?case
    by (auto split: option.splits intro: conc_reach.step conc_step.commit)
qed

lemmas race_simps = race_def race_start_def race_db_def claim_check_def claim_commit_def
  insert_appointment_def active_appt_at_def active_def no_double_booking_def slot_key_def

lemma race_reach: "run_sched race (race_start ix) = Some s' \<Longrightarrow> conc_reach (race_db ix) s'"
  using run_sched_reach conc_reach.start by (metis race_start_def)

theorem concurrent_claims_no_double_booking_witness:
  "conc_reach (race_db True) (the (run_sched race (race_start True))) \<and>
   unique_slot_index (race_db True) \<and> no_double_booking (race_db True) \<and>
   no_double_booking (cdb (the (run_sched race (race_start True)))) \<and>
   length (appointments (cdb (the (run_sched race (race_start True))))) = 1"
proof -
  have ev: "run_sched race (race_start True) = Some (the (run_sched race (race_start True)))"
    by (simp add: race_simps)
  have h: "unique_slot_index (race_db True)" "no_double_booking (race_db True)"
    by (simp_all add: race_simps)
  have len: "length (appointments (cdb (the (run_sched race (race_start True))))) = 1"
    by (simp add: race_simps)
  show ?thesis
    using concurrent_claims_no_double_booking [OF race_reach [OF ev] h] race_reach [OF ev] h len
    by simp
qed

text \<open>
  Without the index, the pre-check alone does not exclude double booking:
  in Scenario E both visitors pass the check before either commits, and both
  commits land on the same closer and instant.
\<close>

theorem race_without_index_double_books:
  "\<exists>s. conc_reach (race_db False) s \<and> \<not> no_double_booking (cdb s)"
proof -
  have ev: "run_sched race (race_start False) = Some (the (run_sched race (race_start False)))"
    by (simp add: race_simps)
  have "\<not> no_double_booking (cdb (the (run_sched race (race_start False))))"
    by (simp add: race_simps)
  then show ?thesis using race_reach [OF ev] by blast
qed

end
