(* ===== verification/Resolver.thy ===== *)
theory Resolver
  imports Store
begin

text \<open>
  The slot resolver: the computation of \<open>calendar_view\<close> in
  \<open>src/app/booking/routes.py\<close>. It loads the closers' availability for the
  next fourteen days and the non-canceled appointments of the next fifteen,
  converts each availability (a local date and start time) to a naive UTC
  instant in the closer's zone (falling back to \<open>America/La_Paz\<close>), drops past
  and booked instants, de-duplicates by instant (first seen wins, the
  preferred closer overwrites), and sorts by \<open>timestamp()\<close>.
  The dictionary \<open>unique_slots\<close> is an insertion-ordered list of slots keyed by
  their instant; the loop is \<open>slot_loop\<close>, its body \<open>slot_step\<close>.
\<close>

record cslot =
  s_utc :: instant  \<comment> \<open>the key of \<open>unique_slots\<close>\<close>
  s_iso :: string
  s_closer :: uid
  s_ts :: int

definition default_tz :: string where
  "default_tz = ''America/La_Paz''"

text \<open>
  \<open>try: pytz.timezone(closer.timezone or 'America/La_Paz')
   except UnknownTimeZoneError: pytz.timezone('America/La_Paz')\<close>
\<close>

definition closer_tz :: "pylib \<Rightarrow> string option \<Rightarrow> zone option" where
  "closer_tz lib tz =
     (case tz_lookup lib (str_or tz default_tz) of
        Some z \<Rightarrow> Some z
      | None \<Rightarrow> tz_lookup lib default_tz)"

text \<open>\<open>closer_tz.localize(datetime.combine(date, time)).astimezone(UTC)\<close>, naive.\<close>

definition localize_utc :: "zone \<Rightarrow> int \<Rightarrow> int \<Rightarrow> instant" where
  "localize_utc z dte tm = (let local = dte * day_seconds + tm in local - z local)"

text \<open>The availability query: dates in \<open>[today, today + 14]\<close>, closers only.\<close>

definition avail_query :: "db \<Rightarrow> int \<Rightarrow> availability list" where
  "avail_query d today =
     filter (\<lambda>av. today \<le> av_date av \<and> av_date av \<le> today + 14 \<and>
                 (case get_user d (av_closer av) of None \<Rightarrow> False | Some u \<Rightarrow> role u = ''closer''))
            (availabilities d)"

text \<open>The appointment query: \<open>[utcnow(), utcnow() + 15 days]\<close>, non-canceled.\<close>

definition booked_query :: "db \<Rightarrow> instant \<Rightarrow> (uid \<times> instant) list" where
  "booked_query d now =
     map slot_key (filter (\<lambda>a. now \<le> start_time a \<and> start_time a \<le> now + 15 * day_seconds \<and> active a)
                          (appointments d))"

text \<open>
  The instant of one availability row: no closer is \<open>continue\<close> (\<open>Inr None\<close>),
  a failing fallback zone is the exception (\<open>Inl\<close>).
\<close>

definition av_utc :: "pylib \<Rightarrow> db \<Rightarrow> availability \<Rightarrow> py_error + instant option" where
  "av_utc lib d av =
     (case get_user d (av_closer av) of
        None \<Rightarrow> Inr None
      | Some closer \<Rightarrow>
          (case closer_tz lib (timezone closer) of
             None \<Rightarrow> Inl UnknownTimeZoneError
           | Some z \<Rightarrow> Inr (Some (localize_utc z (av_date av) (av_start av)))))"

text \<open>The update of \<open>unique_slots\<close> for a bookable instant.\<close>

definition merge_slot :: "pylib \<Rightarrow> uid option \<Rightarrow> uid \<Rightarrow> instant \<Rightarrow> cslot list \<Rightarrow> cslot list" where
  "merge_slot lib pref c utc us =
     (if utc \<notin> set (map s_utc us)
      then us @ [\<lparr>s_utc = utc, s_iso = isoformat lib utc @ ''Z'', s_closer = c,
                  s_ts = utc - server_zone lib utc\<rparr>]
      else if truthy_id pref \<and> Some c = pref
      then map (\<lambda>s. if s_utc s = utc then s\<lparr>s_closer := c\<rparr> else s) us
      else us)"

definition slot_step ::
  "pylib \<Rightarrow> db \<Rightarrow> instant \<Rightarrow> uid option \<Rightarrow> (uid \<times> instant) list \<Rightarrow> availability \<Rightarrow>
   cslot list \<Rightarrow> py_error + cslot list" where
  "slot_step lib d now pref booked av us =
     (case av_utc lib d av of
        Inl e \<Rightarrow> Inl e
      | Inr None \<Rightarrow> Inr us
      | Inr (Some utc) \<Rightarrow>
          if utc < now then Inr us
          else if (av_closer av, utc) \<notin> set booked then Inr (merge_slot lib pref (av_closer av) utc us)
          else Inr us)"

fun slot_loop ::
  "pylib \<Rightarrow> db \<Rightarrow> instant \<Rightarrow> uid option \<Rightarrow> (uid \<times> instant) list \<Rightarrow> availability list \<Rightarrow>
   cslot list \<Rightarrow> py_error + cslot list" where
  "slot_loop lib d now pref booked [] us = Inr us"
| "slot_loop lib d now pref booked (av # avs) us =
     (case slot_step lib d now pref booked av us of
        Inl e \<Rightarrow> Inl e
      | Inr us' \<Rightarrow> slot_loop lib d now pref booked avs us')"

text \<open>
  The whole resolver: \<open>now\<close> is \<open>datetime.utcnow()\<close>, \<open>today\<close> is
  \<open>date.today()\<close> (the server's local date), \<open>pref\<close> the session's
  \<open>preferred_closer_id\<close>.
\<close>

definition resolve_slots :: "pylib \<Rightarrow> db \<Rightarrow> instant \<Rightarrow> int \<Rightarrow> uid option \<Rightarrow> py_error + cslot list" where
  "resolve_slots lib d now today pref =
     (case slot_loop lib d now pref (booked_query d now) (avail_query d today) [] of
        Inl e \<Rightarrow> Inl e
      | Inr us \<Rightarrow> Inr (sort_key s_ts us))"

section \<open>Abstract specification\<close>

text \<open>
  What the resolver promises, independent of the dictionary loop: the bookable
  \<open>(closer, instant)\<close> pairs in load order (\<open>cands\<close>, erroring where the
  loop would), and for each distinct instant in order of first appearance the
  preferred closer if it has the instant, else the closer seen first.
\<close>

fun cands :: "pylib \<Rightarrow> db \<Rightarrow> instant \<Rightarrow> (uid \<times> instant) list \<Rightarrow> availability list \<Rightarrow>
              py_error + (uid \<times> instant) list" where
  "cands lib d now booked [] = Inr []"
| "cands lib d now booked (av # avs) =
     (case av_utc lib d av of
        Inl e \<Rightarrow> Inl e
      | Inr None \<Rightarrow> cands lib d now booked avs
      | Inr (Some t) \<Rightarrow>
          if t < now \<or> (av_closer av, t) \<in> set booked then cands lib d now booked avs
          else (case cands lib d now booked avs of
                  Inl e \<Rightarrow> Inl e
                | Inr cs \<Rightarrow> Inr ((av_closer av, t) # cs)))"

definition first_occ :: "'a list \<Rightarrow> 'a list" where
  "first_occ xs = rev (remdups (rev xs))"

definition first_closer :: "(uid \<times> instant) list \<Rightarrow> instant \<Rightarrow> uid" where
  "first_closer cs t = fst (hd (filter (\<lambda>p. snd p = t) cs))"

definition spec_closer :: "uid option \<Rightarrow> (uid \<times> instant) list \<Rightarrow> instant \<Rightarrow> uid" where
  "spec_closer pref cs t =
     (case pref of
        Some p \<Rightarrow> if p \<noteq> 0 \<and> (p, t) \<in> set cs then p else first_closer cs t
      | None \<Rightarrow> first_closer cs t)"

definition spec_slots :: "uid option \<Rightarrow> (uid \<times> instant) list \<Rightarrow> (instant \<times> uid) list" where
  "spec_slots pref cs = map (\<lambda>t. (t, spec_closer pref cs t)) (first_occ (map snd cs))"

definition slot_pairs :: "cslot list \<Rightarrow> (instant \<times> uid) list" where
  "slot_pairs us = map (\<lambda>s. (s_utc s, s_closer s)) us"

definition merge_all :: "pylib \<Rightarrow> uid option \<Rightarrow> (uid \<times> instant) list \<Rightarrow> cslot list \<Rightarrow> cslot list" where
  "merge_all lib pref cs us = foldl (\<lambda>us (c, t). merge_slot lib pref c t us) us cs"

section \<open>Example inputs\<close>

text \<open>
  Fixtures for the examples and witnesses below (not code): a library with two
  fixed-offset zones (UTC-4, also the fallback, and UTC-3) and a store with
  two closers, X (id 1, UTC-4) and Y (id 2, UTC-3). Day 19875 is 2024-06-01;
  09:00 at UTC-4 and 10:00 at UTC-3 are both 2024-06-01T13:00Z, instant
  1717246800.
\<close>

definition demo_lib :: pylib where
  "demo_lib = \<lparr>tz_lookup = (\<lambda>n. if n = ''America/La_Paz'' \<or> n = ''Etc/GMT+4'' then Some (\<lambda>_. -14400)
                               else if n = ''Etc/GMT+3'' then Some (\<lambda>_. -10800) else None),
               server_zone = (\<lambda>_. 0), isoformat = (\<lambda>_. ''''), fromisoformat = (\<lambda>_. None)\<rparr>"

definition closer_x :: user where
  "closer_x = \<lparr>u_id = 1, username = ''x'', email = ''x@example.com'', role = ''closer'',
               timezone = Some ''Etc/GMT+4'', password_set = True\<rparr>"

definition closer_y :: user where
  "closer_y = \<lparr>u_id = 2, username = ''y'', email = ''y@example.com'', role = ''closer'',
               timezone = Some ''Etc/GMT+3'', password_set = True\<rparr>"

definition demo_db :: "availability list \<Rightarrow> appointment list \<Rightarrow> db" where
  "demo_db avs aps = \<lparr>users = [closer_x, closer_y], profiles = [], appointments = aps, answers = [],
     questions = [], events = [], availabilities = avs, next_user = 3, next_appt = 1, next_answer = 1,
     unique_slot_index = True\<rparr>"

definition av_x :: availability where
  "av_x = \<lparr>av_closer = 1, av_date = 19875, av_start = 32400\<rparr>"

definition av_y :: availability where
  "av_y = \<lparr>av_closer = 2, av_date = 19875, av_start = 36000\<rparr>"

section \<open>The loop refines the specification\<close>

lemma slot_loop_cands:
  "slot_loop lib d now pref booked avs us =
     (case cands lib d now booked avs of Inl e \<Rightarrow> Inl e | Inr cs \<Rightarrow> Inr (merge_all lib pref cs us))"
  by (induction avs arbitrary: us)
     (auto simp: slot_step_def merge_all_def split: sum.splits option.splits)

lemma first_occ_snoc [simp]:
  "first_occ (xs @ [x]) = (if x \<in> set xs then first_occ xs else first_occ xs @ [x])"
  by (simp add: first_occ_def)

lemma set_first_occ [simp]: "set (first_occ xs) = set xs"
  by (simp add: first_occ_def)

lemma distinct_first_occ [simp]: "distinct (first_occ xs)"
  by (simp add: first_occ_def)

lemma filter_instant_nonempty:
  "t \<in> snd ` set cs \<Longrightarrow> filter (\<lambda>p. snd p = t) cs \<noteq> []"
  by (force simp: filter_empty_conv)

lemma first_closer_snoc_old:
  "t \<in> snd ` set cs \<Longrightarrow> first_closer (cs @ [p]) t = first_closer cs t"
  by (simp add: first_closer_def hd_append filter_instant_nonempty)

lemma first_closer_snoc_new:
  "t \<notin> snd ` set cs \<Longrightarrow> first_closer (cs @ [(c, t)]) t = c"
proof -
  assume "t \<notin> snd ` set cs"
  then have "filter (\<lambda>p. snd p = t) cs = []"
    by (force simp: filter_empty_conv)
  then show ?thesis by (simp add: first_closer_def)
qed

lemma first_closer_in:
  "t \<in> snd ` set cs \<Longrightarrow> (first_closer cs t, t) \<in> set cs"
proof -
  assume "t \<in> snd ` set cs"
  then have "hd (filter (\<lambda>p. snd p = t) cs) \<in> set (filter (\<lambda>p. snd p = t) cs)"
    by (intro hd_in_set filter_instant_nonempty)
  then have "hd (filter (\<lambda>p. snd p = t) cs) \<in> set cs \<and> snd (hd (filter (\<lambda>p. snd p = t) cs)) = t"
    by simp
  then show ?thesis by (metis first_closer_def prod.collapse)
qed

lemma spec_closer_snoc:
  assumes "t' \<in> snd ` set cs" and "\<not> (t' = t \<and> pref = Some c \<and> c \<noteq> 0)"
  shows "spec_closer pref (cs @ [(c, t)]) t' = spec_closer pref cs t'"
  using assms by (auto simp: spec_closer_def first_closer_snoc_old split: option.splits)

lemma spec_closer_snoc_new:
  "t \<notin> snd ` set cs \<Longrightarrow> spec_closer pref (cs @ [(c, t)]) t = c"
  by (force simp: spec_closer_def first_closer_snoc_new split: option.splits)

lemma spec_closer_snoc_pref:
  "c \<noteq> 0 \<Longrightarrow> spec_closer (Some c) (cs @ [(c, t)]) t = c"
  by (simp add: spec_closer_def)

lemma map_fst_spec_slots: "map fst (spec_slots pref cs) = first_occ (map snd cs)"
  by (simp add: spec_slots_def comp_def)

lemma keys_of_spec:
  "slot_pairs us = spec_slots pref cs \<Longrightarrow> set (map s_utc us) = snd ` set cs"
proof -
  assume "slot_pairs us = spec_slots pref cs"
  then have "map fst (slot_pairs us) = first_occ (map snd cs)"
    by (simp add: map_fst_spec_slots)
  then have "set (map fst (slot_pairs us)) = snd ` set cs" by simp
  then show ?thesis by (simp add: slot_pairs_def comp_def)
qed

lemma spec_slots_snoc_new:
  assumes "t \<notin> snd ` set cs"
  shows "spec_slots pref (cs @ [(c, t)]) = spec_slots pref cs @ [(t, c)]"
proof -
  have "t \<notin> set (map snd cs)" using assms by simp
  then have occ: "first_occ (map snd (cs @ [(c, t)])) = first_occ (map snd cs) @ [t]" by simp
  have "\<forall>t' \<in> set (first_occ (map snd cs)). spec_closer pref (cs @ [(c, t)]) t' = spec_closer pref cs t'"
    using assms by (auto intro!: spec_closer_snoc)
  then show ?thesis
    using assms by (simp add: spec_slots_def spec_closer_snoc_new [OF assms] image_iff)
qed

lemma spec_slots_snoc_old:
  assumes "t \<in> snd ` set cs"
  shows "spec_slots pref (cs @ [(c, t)]) =
           map (\<lambda>p. if fst p = t \<and> pref = Some c \<and> c \<noteq> 0 then (t, c) else p) (spec_slots pref cs)"
proof -
  have "t \<in> set (map snd cs)" using assms by simp
  then have occ: "first_occ (map snd (cs @ [(c, t)])) = first_occ (map snd cs)" by simp
  have "\<forall>t' \<in> set (first_occ (map snd cs)).
          spec_closer pref (cs @ [(c, t)]) t' =
          (if t' = t \<and> pref = Some c \<and> c \<noteq> 0 then c else spec_closer pref cs t')"
    by (auto simp: spec_closer_snoc_pref intro!: spec_closer_snoc)
  then show ?thesis
    using assms by (simp add: spec_slots_def image_iff)
qed

lemma merge_slot_spec:
  assumes inv: "slot_pairs us = spec_slots pref cs"
  shows "slot_pairs (merge_slot lib pref c t us) = spec_slots pref (cs @ [(c, t)])"
proof (cases "t \<in> snd ` set cs")
  case False
  then have "t \<notin> set (map s_utc us)" using keys_of_spec [OF inv] by simp
  then have "slot_pairs (merge_slot lib pref c t us) = slot_pairs us @ [(t, c)]"
    by (simp add: merge_slot_def slot_pairs_def)
  with inv show ?thesis by (simp add: spec_slots_snoc_new [OF False])
next
  case True
  then have "t \<in> set (map s_utc us)" using keys_of_spec [OF inv] by simp
  then have "slot_pairs (merge_slot lib pref c t us) =
               map (\<lambda>p. if fst p = t \<and> pref = Some c \<and> c \<noteq> 0 then (t, c) else p) (slot_pairs us)"
    by (auto simp: merge_slot_def slot_pairs_def truthy_id_def split: option.splits)
  with inv show ?thesis by (simp add: spec_slots_snoc_old [OF True])
qed

theorem merge_all_refines_spec:
  "slot_pairs (merge_all lib pref cs []) = spec_slots pref cs"
proof (induction cs rule: rev_induct)
  case Nil
  show ?case by (simp add: merge_all_def slot_pairs_def spec_slots_def first_occ_def)
next
  case (snoc p cs)
  obtain c t where p: "p = (c, t)" by (cases p)
  have "merge_all lib pref (cs @ [p]) [] = merge_slot lib pref c t (merge_all lib pref cs [])"
    by (simp add: merge_all_def p)
  then show ?case using merge_slot_spec [OF snoc.IH] p by simp
qed

section \<open>Facts about the specification\<close>

lemma cands_sound:
  "cands lib d now booked avs = Inr cs \<Longrightarrow> (c, t) \<in> set cs \<Longrightarrow>
     \<exists>av \<in> set avs. av_closer av = c \<and> av_utc lib d av = Inr (Some t) \<and> now \<le> t \<and>
                      (c, t) \<notin> set booked"
proof (induction avs arbitrary: cs)
  case Nil
  then show ?case by simp
next
  case (Cons av avs)
  then show ?case
    by (auto split: sum.splits option.splits if_splits)
qed

lemma cands_complete:
  "cands lib d now booked avs = Inr cs \<Longrightarrow> av \<in> set avs \<Longrightarrow> av_utc lib d av = Inr (Some t) \<Longrightarrow>
     now \<le> t \<Longrightarrow> (av_closer av, t) \<notin> set booked \<Longrightarrow> (av_closer av, t) \<in> set cs"
proof (induction avs arbitrary: cs)
  case Nil
  then show ?case by simp
next
  case (Cons av' avs)
  then show ?case
    by (auto split: sum.splits option.splits if_splits)
qed

lemma spec_closer_mem:
  "t \<in> snd ` set cs \<Longrightarrow> (spec_closer pref cs t, t) \<in> set cs"
  by (auto simp: spec_closer_def first_closer_in split: option.splits)

lemma spec_slots_mem:
  assumes "(t, c) \<in> set (spec_slots pref cs)"
  shows "(c, t) \<in> set cs"
proof -
  from assms have "t \<in> snd ` set cs" and "c = spec_closer pref cs t"
    by (auto simp: spec_slots_def)
  then show ?thesis using spec_closer_mem by blast
qed

lemma spec_slots_complete:
  "(c, t) \<in> set cs \<Longrightarrow> (t, spec_closer pref cs t) \<in> set (spec_slots pref cs)"
  by (force simp: spec_slots_def)

lemma spec_closer_pref:
  "p \<noteq> 0 \<Longrightarrow> (p, t) \<in> set cs \<Longrightarrow> spec_closer (Some p) cs t = p"
  by (simp add: spec_closer_def)

lemma distinct_spec_slots: "distinct (map fst (spec_slots pref cs))"
  by (simp add: map_fst_spec_slots)

lemma resolve_slots_Inr:
  assumes "resolve_slots lib d now today pref = Inr ss"
  shows "\<exists>cs. cands lib d now (booked_query d now) (avail_query d today) = Inr cs \<and>
              set (slot_pairs ss) = set (spec_slots pref cs) \<and>
              distinct (map s_utc ss) \<and> sorted (map s_ts ss)"
proof -
  obtain cs where cs: "cands lib d now (booked_query d now) (avail_query d today) = Inr cs"
    and ss: "ss = sort_key s_ts (merge_all lib pref cs [])"
    using assms by (auto simp: resolve_slots_def slot_loop_cands split: sum.splits)
  let ?us = "merge_all lib pref cs []"
  have pairs: "slot_pairs ?us = spec_slots pref cs"
    by (rule merge_all_refines_spec)
  then have "set (slot_pairs ss) = set (spec_slots pref cs)"
    by (metis ss slot_pairs_def set_map set_sort)
  moreover have "map s_utc ?us = map fst (slot_pairs ?us)"
    by (simp add: slot_pairs_def)
  then have "distinct (map s_utc ?us)"
    using distinct_spec_slots [of pref cs] pairs by simp
  then have "distinct (map s_utc ss)"
    by (simp add: ss distinct_map)
  moreover have "sorted (map s_ts ss)"
    by (simp add: ss)
  ultimately show ?thesis using cs by blast
qed

lemma slot_in_spec:
  "s \<in> set ss \<Longrightarrow> set (slot_pairs ss) = set (spec_slots pref cs) \<Longrightarrow>
     (s_closer s, s_utc s) \<in> set cs"
  by (auto simp: slot_pairs_def intro: spec_slots_mem)

lemma booked_query_window:
  "now \<le> t \<Longrightarrow> t \<le> now + 15 * day_seconds \<Longrightarrow> (c, t) \<notin> set (booked_query d now) \<Longrightarrow>
     active_appt_at d c t = None"
  by (auto simp: booked_query_def active_appt_at_None_iff slot_key_def)

section \<open>Properties of the resolver\<close>

text \<open>C3: the resolver never offers an instant before \<open>utcnow()\<close>.\<close>

theorem resolve_slots_never_past:
  assumes "resolve_slots lib d now today pref = Inr ss" and "s \<in> set ss"
  shows "now \<le> s_utc s"
proof -
  obtain cs where cs: "cands lib d now (booked_query d now) (avail_query d today) = Inr cs"
    and pairs: "set (slot_pairs ss) = set (spec_slots pref cs)"
    using resolve_slots_Inr [OF assms(1)] by blast
  have "(s_closer s, s_utc s) \<in> set cs" using slot_in_spec [OF assms(2) pairs] .
  then show ?thesis using cands_sound [OF cs] by blast
qed

lemma demo_eval_pref:
  "resolve_slots demo_lib (demo_db [av_x, av_y] []) (19868 * 86400) 19868 (Some 2)
     = Inr [\<lparr>s_utc = 1717246800, s_iso = ''Z'', s_closer = 2, s_ts = 1717246800\<rparr>]"
  by code_simp

theorem resolve_slots_never_past_witness:
  "resolve_slots demo_lib (demo_db [av_x, av_y] []) (19868 * 86400) 19868 (Some 2)
     = Inr [\<lparr>s_utc = 1717246800, s_iso = ''Z'', s_closer = 2, s_ts = 1717246800\<rparr>] \<and>
   19868 * 86400 \<le> s_utc \<lparr>s_utc = 1717246800, s_iso = ''Z'', s_closer = 2, s_ts = 1717246800\<rparr>"
  using resolve_slots_never_past [OF demo_eval_pref] demo_eval_pref by simp


text \<open>
  C4: within the window the appointment query covers (\<open>utcnow()\<close> plus fifteen
  days), the resolver never offers a closer's instant that a non-canceled
  appointment of that closer already holds.
\<close>

theorem resolve_slots_never_booked_in_window:
  assumes "resolve_slots lib d now today pref = Inr ss" and "s \<in> set ss"
    and "s_utc s \<le> now + 15 * day_seconds"
  shows "active_appt_at d (s_closer s) (s_utc s) = None"
proof -
  obtain cs where cs: "cands lib d now (booked_query d now) (avail_query d today) = Inr cs"
    and pairs: "set (slot_pairs ss) = set (spec_slots pref cs)"
    using resolve_slots_Inr [OF assms(1)] by blast
  have "(s_closer s, s_utc s) \<in> set cs" using slot_in_spec [OF assms(2) pairs] .
  then have "now \<le> s_utc s" and "(s_closer s, s_utc s) \<notin> set (booked_query d now)"
    using cands_sound [OF cs] by blast+
  then show ?thesis using assms(3) booked_query_window by blast
qed

theorem resolve_slots_never_booked_in_window_witness:
  "resolve_slots demo_lib (demo_db [av_x, av_y] []) (19868 * 86400) 19868 (Some 2)
     = Inr [\<lparr>s_utc = 1717246800, s_iso = ''Z'', s_closer = 2, s_ts = 1717246800\<rparr>] \<and>
   (1717246800::int) \<le> 19868 * 86400 + 15 * day_seconds \<and>
   active_appt_at (demo_db [av_x, av_y] []) 2 1717246800 = None"
  using resolve_slots_never_booked_in_window [OF demo_eval_pref, of "\<lparr>s_utc = 1717246800, s_iso = ''Z'', s_closer = 2, s_ts = 1717246800\<rparr>"]
    demo_eval_pref by simp

text \<open>
  C5: beyond that window the code shows booked slots. The availability
  query reaches \<open>today + 14\<close> in the closer's local date, which in a zone
  west of UTC ends after \<open>utcnow() + 15 days\<close>; the appointment query stops
  there, so every convertible availability instant past it is offered,
  whatever appointments its closer already holds at that instant.
\<close>

theorem resolve_slots_shows_booked_slot_beyond_window:
  assumes "resolve_slots lib d now today pref = Inr ss"
    and "av \<in> set (avail_query d today)" and "av_utc lib d av = Inr (Some t)"
    and "now + 15 * day_seconds < t"
  shows "\<exists>s \<in> set ss. s_utc s = t"
proof -
  obtain cs where cs: "cands lib d now (booked_query d now) (avail_query d today) = Inr cs"
    and pairs: "set (slot_pairs ss) = set (spec_slots pref cs)"
    using resolve_slots_Inr [OF assms(1)] by blast
  have "(av_closer av, t) \<notin> set (booked_query d now)"
    using assms(4) by (auto simp: booked_query_def slot_key_def)
  moreover have "now \<le> t" using assms(4) by simp
  ultimately have "(av_closer av, t) \<in> set cs" using cands_complete [OF cs assms(2,3)] by blast
  then have "(t, spec_closer pref cs t) \<in> set (slot_pairs ss)"
    using spec_slots_complete pairs by blast
  then show ?thesis by (auto simp: slot_pairs_def)
qed

theorem resolve_slots_shows_booked_slot_beyond_window_witness:
  "active_appt_at
      (demo_db [\<lparr>av_closer = 1, av_date = 19882, av_start = 82800\<rparr>]
               [\<lparr>appt_id = 7, closer_id = 1, lead_id = Some 5, start_time = 1717902000,
                 status = Scheduled, event_id = None\<rparr>]) 1 1717902000 \<noteq> None \<and>
   (\<exists>s \<in> set [\<lparr>s_utc = 1717902000, s_iso = ''Z'', s_closer = 1, s_ts = (1717902000::int)\<rparr>]. s_utc s = 1717902000)"
proof -
  let ?d = "demo_db [\<lparr>av_closer = 1, av_date = 19882, av_start = 82800\<rparr>]
               [\<lparr>appt_id = 7, closer_id = 1, lead_id = Some 5, start_time = 1717902000,
                 status = Scheduled, event_id = None\<rparr>]"
  let ?av = "\<lparr>av_closer = 1, av_date = 19882, av_start = 82800\<rparr>"
  have r: "resolve_slots demo_lib ?d (19868 * 86400) 19868 None
             = Inr [\<lparr>s_utc = 1717902000, s_iso = ''Z'', s_closer = 1, s_ts = 1717902000\<rparr>]" by code_simp
  have a: "?av \<in> set (avail_query ?d 19868)" by code_simp
  have u: "av_utc demo_lib ?d ?av = Inr (Some 1717902000)" by code_simp
  have b: "active_appt_at ?d 1 1717902000 \<noteq> None" by code_simp
  have "19868 * 86400 + 15 * day_seconds < (1717902000::int)" by simp
  then show ?thesis using resolve_slots_shows_booked_slot_beyond_window [OF r a u] b by simp
qed

text \<open>
  C6 (P3, preferred closer precedence): if the preferred closer has a bookable
  availability at an instant, the resolver's one slot at that instant is the
  preferred closer's, whatever the load order.
\<close>

theorem resolve_slots_preferred_closer:
  assumes "resolve_slots lib d now today (Some p) = Inr ss" and "p \<noteq> 0"
    and "av \<in> set (avail_query d today)" and "av_closer av = p"
    and "av_utc lib d av = Inr (Some t)" and "now \<le> t"
    and "(p, t) \<notin> set (booked_query d now)"
  shows "map s_closer (filter (\<lambda>s. s_utc s = t) ss) = [p]"
proof -
  obtain cs where cs: "cands lib d now (booked_query d now) (avail_query d today) = Inr cs"
    and pairs: "set (slot_pairs ss) = set (spec_slots (Some p) cs)"
    and dist: "distinct (map s_utc ss)"
    using resolve_slots_Inr [OF assms(1)] by blast
  have "(p, t) \<in> set cs"
    using cands_complete [OF cs assms(3) assms(5) assms(6)] assms(4,7) by simp
  then have "(t, p) \<in> set (slot_pairs ss)"
    using spec_slots_complete [of p t cs "Some p"] spec_closer_pref [OF assms(2)] pairs by simp
  then obtain s where s: "s \<in> set ss" "s_utc s = t" "s_closer s = p"
    by (auto simp: slot_pairs_def)
  have "filter (\<lambda>x. s_utc x = s_utc s) ss = [s]"
    by (rule filter_key_single [OF dist s(1)])
  then show ?thesis using s by simp
qed

theorem resolve_slots_preferred_closer_witness:
  "resolve_slots demo_lib (demo_db [av_x, av_y] []) (19868 * 86400) 19868 (Some 2)
     = Inr [\<lparr>s_utc = 1717246800, s_iso = ''Z'', s_closer = 2, s_ts = 1717246800\<rparr>] \<and>
   (2::int) \<noteq> 0 \<and> av_y \<in> set (avail_query (demo_db [av_x, av_y] []) 19868) \<and> av_closer av_y = 2 \<and>
   av_utc demo_lib (demo_db [av_x, av_y] []) av_y = Inr (Some 1717246800) \<and>
   19868 * 86400 \<le> (1717246800::int) \<and>
   (2, 1717246800) \<notin> set (booked_query (demo_db [av_x, av_y] []) (19868 * 86400)) \<and>
   map s_closer (filter (\<lambda>s. s_utc s = 1717246800)
     [\<lparr>s_utc = 1717246800, s_iso = ''Z'', s_closer = 2, s_ts = 1717246800\<rparr>]) = [2]"
proof -
  have h: "av_y \<in> set (avail_query (demo_db [av_x, av_y] []) 19868)"
    "av_utc demo_lib (demo_db [av_x, av_y] []) av_y = Inr (Some 1717246800)"
    "(2, 1717246800) \<notin> set (booked_query (demo_db [av_x, av_y] []) (19868 * 86400))"
    by code_simp+
  show ?thesis
    using resolve_slots_preferred_closer [OF demo_eval_pref _ h(1) _ h(2) _ h(3)] demo_eval_pref h
    by (simp add: av_y_def)
qed


lemma resolve_slots_Inr_merge:
  "resolve_slots lib d now today pref = Inr ss \<Longrightarrow>
     \<exists>cs. cands lib d now (booked_query d now) (avail_query d today) = Inr cs \<and>
          ss = sort_key s_ts (merge_all lib pref cs [])"
  by (auto simp: resolve_slots_def slot_loop_cands split: sum.splits)

lemma merge_all_ts:
  "\<forall>s \<in> set us. s_ts s = s_utc s - server_zone lib (s_utc s) \<Longrightarrow>
   \<forall>s \<in> set (merge_all lib pref cs us). s_ts s = s_utc s - server_zone lib (s_utc s)"
proof (induction cs arbitrary: us)
  case Nil
  then show ?case by (simp add: merge_all_def)
next
  case (Cons p cs)
  obtain c t where p: "p = (c, t)" by (cases p)
  have "\<forall>s \<in> set (merge_slot lib pref c t us). s_ts s = s_utc s - server_zone lib (s_utc s)"
    using Cons.prems by (auto simp: merge_slot_def)
  then show ?case
    using Cons.IH [of "merge_slot lib pref c t us"] by (simp add: merge_all_def p)
qed

lemma av_utc_no_error:
  "tz_lookup lib default_tz \<noteq> None \<Longrightarrow> av_utc lib d av \<noteq> Inl e"
  by (auto simp: av_utc_def closer_tz_def split: option.splits)

lemma cands_no_error:
  "tz_lookup lib default_tz \<noteq> None \<Longrightarrow> \<exists>cs. cands lib d now booked avs = Inr cs"
proof (induction avs)
  case Nil
  then show ?case by simp
next
  case (Cons av avs)
  then show ?case
    using av_utc_no_error [OF Cons.prems, of d av]
    by (auto split: sum.splits option.splits)
qed

text \<open>The resolver offers each instant at most once (de-duplication across closers).\<close>

theorem resolve_slots_distinct_instants:
  "resolve_slots lib d now today pref = Inr ss \<Longrightarrow> distinct (map s_utc ss)"
  using resolve_slots_Inr by blast

theorem resolve_slots_distinct_instants_witness:
  "resolve_slots demo_lib (demo_db [av_x, av_y] []) (19868 * 86400) 19868 (Some 2)
     = Inr [\<lparr>s_utc = 1717246800, s_iso = ''Z'', s_closer = 2, s_ts = 1717246800\<rparr>] \<and>
   distinct (map s_utc [\<lparr>s_utc = 1717246800, s_iso = ''Z'', s_closer = 2, s_ts = (1717246800::int)\<rparr>])"
  using resolve_slots_distinct_instants [OF demo_eval_pref] demo_eval_pref by simp

text \<open>
  C7: on a server whose local zone has a constant offset (a UTC server), the
  slots come out in ascending UTC order, as the spec's step 7 asks.
\<close>

theorem resolve_slots_sorted_utc:
  assumes "server_zone lib = (\<lambda>_. k)" and "resolve_slots lib d now today pref = Inr ss"
  shows "sorted (map s_utc ss)"
proof -
  obtain cs where ss: "ss = sort_key s_ts (merge_all lib pref cs [])"
    using resolve_slots_Inr_merge [OF assms(2)] by blast
  have ts: "\<forall>s \<in> set ss. s_ts s = s_utc s - k"
    using merge_all_ts [of "[]" lib pref cs] assms(1) by (simp add: ss)
  have "sorted_wrt (\<lambda>x y. s_ts x \<le> s_ts y) ss"
    by (metis ss sorted_map sorted_sort_key)
  then have "sorted_wrt (\<lambda>x y. s_utc x \<le> s_utc y) ss"
    by (rule sorted_wrt_mono_rel [rotated]) (use ts in auto)
  then show ?thesis by (simp add: sorted_map)
qed

theorem resolve_slots_sorted_utc_witness:
  "server_zone demo_lib = (\<lambda>_. 0) \<and>
   resolve_slots demo_lib (demo_db [av_x, av_y] []) (19868 * 86400) 19868 (Some 2)
     = Inr [\<lparr>s_utc = 1717246800, s_iso = ''Z'', s_closer = 2, s_ts = 1717246800\<rparr>] \<and>
   sorted (map s_utc [\<lparr>s_utc = 1717246800, s_iso = ''Z'', s_closer = 2, s_ts = (1717246800::int)\<rparr>])"
proof -
  have z: "server_zone demo_lib = (\<lambda>_. 0)" by (simp add: demo_lib_def)
  show ?thesis using resolve_slots_sorted_utc [OF z demo_eval_pref] demo_eval_pref z by simp
qed

lemma sorted_both_order:
  assumes "sorted (map f xs)" and "sorted (map g xs)" and "a \<in> set xs" and "b \<in> set xs"
    and "f a < f b" and "g b < g a"
  shows False
proof -
  obtain i j where i: "i < length xs" "xs ! i = a" and j: "j < length xs" "xs ! j = b"
    using assms(3,4) by (metis in_set_conv_nth)
  show False
  proof (cases "i \<le> j")
    case True
    have "map g xs ! i \<le> map g xs ! j" by (rule sorted_nth_mono [OF assms(2)]) (use True j in auto)
    then show False using assms(6) i j by simp
  next
    case False
    have "map f xs ! j \<le> map f xs ! i" by (rule sorted_nth_mono [OF assms(1)]) (use False i in auto)
    then show False using assms(5) i j by simp
  qed
qed

text \<open>
  C8: the order is by \<open>utc_dt.timestamp()\<close>, which reads the naive UTC value
  in the server's local zone: whenever two offered instants are reversed by
  that reading (as across a daylight-saving change of the server's zone), the
  slots are not in UTC order.
\<close>

theorem resolve_slots_dst_server_misorders:
  assumes "resolve_slots lib d now today pref = Inr ss" and "a \<in> set ss" and "b \<in> set ss"
    and "s_utc a < s_utc b" and "s_utc b - server_zone lib (s_utc b) < s_utc a - server_zone lib (s_utc a)"
  shows "\<not> sorted (map s_utc ss)"
proof
  assume su: "sorted (map s_utc ss)"
  obtain cs where ss: "ss = sort_key s_ts (merge_all lib pref cs [])"
    using resolve_slots_Inr_merge [OF assms(1)] by blast
  have ts: "\<forall>s \<in> set ss. s_ts s = s_utc s - server_zone lib (s_utc s)"
    using merge_all_ts [of "[]" lib pref cs] by (simp add: ss)
  have "sorted (map s_ts ss)" by (simp add: ss)
  moreover have "s_ts b < s_ts a" using ts assms(2,3,5) by simp
  ultimately show False using sorted_both_order [OF su _ assms(2,3,4)] by blast
qed

theorem resolve_slots_dst_server_misorders_witness:
  "\<not> sorted (map s_utc [\<lparr>s_utc = 1717246800, s_iso = ''Z'', s_closer = 1, s_ts = 1717261200\<rparr>,
            \<lparr>s_utc = 1717245000, s_iso = ''Z'', s_closer = (1::int), s_ts = (1717263000::int)\<rparr>])"
proof -
  let ?lib = "demo_lib\<lparr>server_zone := (\<lambda>t. if t < 1717246800 then -18000 else -14400)\<rparr>"
  let ?a = "\<lparr>s_utc = 1717245000, s_iso = ''Z'', s_closer = 1, s_ts = (1717263000::int)\<rparr>"
  let ?b = "\<lparr>s_utc = 1717246800, s_iso = ''Z'', s_closer = 1, s_ts = (1717261200::int)\<rparr>"
  have r: "resolve_slots ?lib (demo_db [av_x, \<lparr>av_closer = 1, av_date = 19875, av_start = 30600\<rparr>] [])
             (19868 * 86400) 19868 None = Inr [?b, ?a]" by code_simp
  have "s_utc ?b - server_zone ?lib (s_utc ?b) < s_utc ?a - server_zone ?lib (s_utc ?a)" by simp
  then show ?thesis using resolve_slots_dst_server_misorders [OF r, of ?a ?b] by simp
qed

text \<open>
  C9: every bookable availability instant (a closer's, in the date window,
  not past, not among the loaded appointments) is offered.
\<close>

theorem resolve_slots_complete:
  assumes "resolve_slots lib d now today pref = Inr ss"
    and "av \<in> set (avail_query d today)" and "av_utc lib d av = Inr (Some t)"
    and "now \<le> t" and "(av_closer av, t) \<notin> set (booked_query d now)"
  shows "\<exists>s \<in> set ss. s_utc s = t"
proof -
  obtain cs where cs: "cands lib d now (booked_query d now) (avail_query d today) = Inr cs"
    and pairs: "set (slot_pairs ss) = set (spec_slots pref cs)"
    using resolve_slots_Inr [OF assms(1)] by blast
  have "(av_closer av, t) \<in> set cs" by (rule cands_complete [OF cs assms(2-5)])
  then have "(t, spec_closer pref cs t) \<in> set (slot_pairs ss)"
    using spec_slots_complete pairs by blast
  then show ?thesis by (auto simp: slot_pairs_def)
qed

theorem resolve_slots_complete_witness:
  "resolve_slots demo_lib (demo_db [av_x, av_y] []) (19868 * 86400) 19868 (Some 2)
     = Inr [\<lparr>s_utc = 1717246800, s_iso = ''Z'', s_closer = 2, s_ts = 1717246800\<rparr>] \<and>
   av_x \<in> set (avail_query (demo_db [av_x, av_y] []) 19868) \<and>
   av_utc demo_lib (demo_db [av_x, av_y] []) av_x = Inr (Some 1717246800) \<and>
   19868 * 86400 \<le> (1717246800::int) \<and>
   (av_closer av_x, 1717246800) \<notin> set (booked_query (demo_db [av_x, av_y] []) (19868 * 86400)) \<and>
   (\<exists>s \<in> set [\<lparr>s_utc = 1717246800, s_iso = ''Z'', s_closer = 2, s_ts = (1717246800::int)\<rparr>].
      s_utc s = 1717246800)"
proof -
  have h: "av_x \<in> set (avail_query (demo_db [av_x, av_y] []) 19868)"
    "av_utc demo_lib (demo_db [av_x, av_y] []) av_x = Inr (Some 1717246800)"
    "(av_closer av_x, 1717246800) \<notin> set (booked_query (demo_db [av_x, av_y] []) (19868 * 86400))"
    by code_simp+
  show ?thesis
    using resolve_slots_complete [OF demo_eval_pref h(1) h(2) _ h(3)] demo_eval_pref h by simp
qed

text \<open>
  Every offered slot is an availability of its closer: a user with role
  closer whose availability row, in the date window, converts to that instant.
\<close>

theorem resolve_slots_sound:
  assumes "resolve_slots lib d now today pref = Inr ss" and "s \<in> set ss"
  shows "\<exists>av \<in> set (avail_query d today). av_closer av = s_closer s \<and>
           av_utc lib d av = Inr (Some (s_utc s))"
proof -
  obtain cs where cs: "cands lib d now (booked_query d now) (avail_query d today) = Inr cs"
    and pairs: "set (slot_pairs ss) = set (spec_slots pref cs)"
    using resolve_slots_Inr [OF assms(1)] by blast
  have "(s_closer s, s_utc s) \<in> set cs" using slot_in_spec [OF assms(2) pairs] .
  then show ?thesis using cands_sound [OF cs] by blast
qed

theorem resolve_slots_sound_witness:
  "resolve_slots demo_lib (demo_db [av_x, av_y] []) (19868 * 86400) 19868 (Some 2)
     = Inr [\<lparr>s_utc = 1717246800, s_iso = ''Z'', s_closer = 2, s_ts = 1717246800\<rparr>] \<and>
   (\<exists>av \<in> set (avail_query (demo_db [av_x, av_y] []) 19868). av_closer av = 2 \<and>
      av_utc demo_lib (demo_db [av_x, av_y] []) av = Inr (Some 1717246800))"
  using resolve_slots_sound [OF demo_eval_pref, of "\<lparr>s_utc = 1717246800, s_iso = ''Z'', s_closer = 2, s_ts = 1717246800\<rparr>"]
    demo_eval_pref by simp

text \<open>
  An unset or unknown closer time zone never surfaces as an error: as long
  as the fallback zone exists, the resolver returns a slot list.
\<close>

theorem resolve_slots_total:
  "tz_lookup lib default_tz \<noteq> None \<Longrightarrow> \<exists>ss. resolve_slots lib d now today pref = Inr ss"
  using cands_no_error [of lib d now "booked_query d now" "avail_query d today"]
  by (auto simp: resolve_slots_def slot_loop_cands)

theorem resolve_slots_total_witness:
  "tz_lookup demo_lib default_tz \<noteq> None \<and>
   (\<exists>ss. resolve_slots demo_lib
          (demo_db [av_x] [] \<lparr>users := [closer_x\<lparr>timezone := Some ''Mars/Olympus''\<rparr>]\<rparr>)
          0 0 None = Inr ss)"
proof -
  have h: "tz_lookup demo_lib default_tz \<noteq> None" by (simp add: demo_lib_def default_tz_def)
  show ?thesis using resolve_slots_total [OF h] h by blast
qed

text \<open>
  C10 (refinement): the resolver's slots, as a set of (instant, closer)
  pairs, are exactly the abstract specification's; errors coincide.
\<close>

theorem resolve_slots_refines_spec:
  "map_sum id (\<lambda>ss. set (slot_pairs ss)) (resolve_slots lib d now today pref) =
   map_sum id (\<lambda>cs. set (spec_slots pref cs)) (cands lib d now (booked_query d now) (avail_query d today))"
proof (cases "cands lib d now (booked_query d now) (avail_query d today)")
  case (Inl e)
  then show ?thesis by (simp add: resolve_slots_def slot_loop_cands)
next
  case (Inr cs)
  have "set (slot_pairs (sort_key s_ts (merge_all lib pref cs []))) = set (spec_slots pref cs)"
    by (metis merge_all_refines_spec slot_pairs_def set_map set_sort)
  with Inr show ?thesis by (simp add: resolve_slots_def slot_loop_cands)
qed

end
