(* ===== verification/Funnel.thy ===== *)
theory Funnel
  imports Claim Resolver
begin

text \<open>
  The funnel controller of \<open>src/app/booking/routes.py\<close>: \<open>start_booking\<close>
  (entry, selective session reset, fixed step order), \<open>handle_flow\<close> (the
  router, which skips unknown step names by redirecting to itself),
  \<open>next_step\<close>, \<open>thank_you\<close> (loops back to the entry) and the \<open>calendar_view\<close>
  handler around the resolver. The router's chain of self-redirects is a
  recursion whose measure is the number of steps left.
\<close>

datatype page = IdentifyPage | DetailsPage | CalendarPage "cslot list" | SurveyPage

datatype response = Redirect endpoint | Render page

definition canonical_steps :: "string list" where
  "canonical_steps = [''identify'', ''contact_details'', ''survey'', ''calendar'']"

text \<open>\<open>session.get('funnel_steps', [...])\<close> and \<open>session.get('funnel_index', 0)\<close>.\<close>

definition steps_of :: "session \<Rightarrow> string list" where
  "steps_of s = (case funnel_steps s of None \<Rightarrow> canonical_steps | Some st \<Rightarrow> st)"

definition index_of :: "session \<Rightarrow> int" where
  "index_of s = (case funnel_index s of None \<Rightarrow> 0 | Some i \<Rightarrow> i)"

text \<open>
  \<open>start_booking\<close>: the \<open>utm_source\<close> query argument (\<open>None\<close> when absent).
  The booking keys are popped one by one; other session data stays.
\<close>

definition clear_booking_keys :: "session \<Rightarrow> session" where
  "clear_booking_keys s =
     s\<lparr>booking_data := empty_bdata, booking_event_id := None, funnel_steps := None,
       funnel_index := None, booking_user_id := None, current_appt_id := None,
       booking_email_input := None\<rparr>"

definition start_booking :: "string option \<Rightarrow> world \<Rightarrow> response \<times> world" where
  "start_booking arg w =
     (let utm = (case arg of None \<Rightarrow> ''direct'' | Some u \<Rightarrow> u);
          s1 = (clear_booking_keys (sess w))\<lparr>booking_utm := Some utm\<rparr>;
          s2 = (case event_by_utm (wdb w) utm of
                  None \<Rightarrow> s1
                | Some e \<Rightarrow> s1\<lparr>booking_event_id := Some (ev_id e)\<rparr>)
      in (Redirect HandleFlow,
          w\<lparr>sess := s2\<lparr>funnel_steps := Some canonical_steps, funnel_index := Some 0\<rparr>\<rparr>))"

text \<open>\<open>handle_flow\<close>: dispatch on the current step; an unknown name is skipped.\<close>

function handle_flow :: "world \<Rightarrow> py_error + (response \<times> world)" where
  "handle_flow w =
     (let s = sess w; steps = steps_of s; idx = index_of s in
      if idx \<ge> int (length steps) then Inr (Redirect ThankYou, w)
      else (case py_nth steps idx of
              Inl e \<Rightarrow> Inl e
            | Inr cur \<Rightarrow>
                if cur = ''identify'' then Inr (Redirect IdentifyView, w)
                else if cur = ''contact_details'' then Inr (Redirect ContactDetailsView, w)
                else if cur = ''contact'' then Inr (Redirect ContactDetailsView, w)
                else if cur = ''calendar'' then Inr (Redirect CalendarView, w)
                else if cur = ''survey'' then Inr (Redirect SurveyView, w)
                else handle_flow (w\<lparr>sess := s\<lparr>funnel_index := Some (idx + 1)\<rparr>\<rparr>)))"
  by pat_completeness auto
termination
  by (relation "measure (\<lambda>w. nat (int (length (steps_of (sess w))) - index_of (sess w)))")
     (auto simp: steps_of_def index_of_def)

definition next_step :: "world \<Rightarrow> response \<times> world" where
  "next_step w =
     (Redirect HandleFlow, w\<lparr>sess := (sess w)\<lparr>funnel_index := Some (index_of (sess w) + 1)\<rparr>\<rparr>)"

text \<open>\<open>thank_you\<close>: the \<open>utm_source\<close> argument it redirects to \<open>start_booking\<close> with.\<close>

definition thank_you :: "world \<Rightarrow> string option" where
  "thank_you w = Some (case booking_utm (sess w) of None \<Rightarrow> ''direct'' | Some u \<Rightarrow> u)"

text \<open>The \<open>calendar_view\<close> handler: the resolver with the session's preference.\<close>

definition calendar_view :: "pylib \<Rightarrow> instant \<Rightarrow> int \<Rightarrow> world \<Rightarrow> py_error + response" where
  "calendar_view lib now today w =
     (case resolve_slots lib (wdb w) now today (preferred_closer_id (sess w)) of
        Inl e \<Rightarrow> Inl e
      | Inr ss \<Rightarrow> Inr (Render (CalendarPage ss)))"

text \<open>The route a visitor sees after \<open>n\<close> calls of \<open>next_step\<close>.\<close>

definition view_after :: "nat \<Rightarrow> world \<Rightarrow> py_error + (response \<times> world)" where
  "view_after n w = handle_flow (((snd \<circ> next_step) ^^ n) w)"

text \<open>The number of steps left: what the router's self-redirects consume.\<close>

definition steps_left :: "world \<Rightarrow> nat" where
  "steps_left w = nat (int (length (steps_of (sess w))) - index_of (sess w))"

declare handle_flow.simps [simp del]


section \<open>Properties of the controller\<close>

lemma handle_flow_unfold:
  "handle_flow w =
     (if index_of (sess w) \<ge> int (length (steps_of (sess w))) then Inr (Redirect ThankYou, w)
      else (case py_nth (steps_of (sess w)) (index_of (sess w)) of
              Inl e \<Rightarrow> Inl e
            | Inr cur \<Rightarrow>
                if cur = ''identify'' then Inr (Redirect IdentifyView, w)
                else if cur = ''contact_details'' then Inr (Redirect ContactDetailsView, w)
                else if cur = ''contact'' then Inr (Redirect ContactDetailsView, w)
                else if cur = ''calendar'' then Inr (Redirect CalendarView, w)
                else if cur = ''survey'' then Inr (Redirect SurveyView, w)
                else handle_flow (w\<lparr>sess := (sess w)\<lparr>funnel_index := Some (index_of (sess w) + 1)\<rparr>\<rparr>)))"
  by (simp add: handle_flow.simps [of w] Let_def)

lemma index_of_set [simp]: "index_of (s\<lparr>funnel_index := Some i\<rparr>) = i"
  by (simp add: index_of_def)

lemma steps_of_set_index [simp]: "steps_of (s\<lparr>funnel_index := i\<rparr>) = steps_of s"
  by (simp add: steps_of_def)

lemma handle_flow_step:
  assumes "handle_flow w = Inr (r, w')"
  shows "w' = w \<or>
         (index_of (sess w) < int (length (steps_of (sess w))) \<and>
          handle_flow (w\<lparr>sess := (sess w)\<lparr>funnel_index := Some (index_of (sess w) + 1)\<rparr>\<rparr>) = Inr (r, w'))"
proof (cases "py_nth (steps_of (sess w)) (index_of (sess w))")
  case (Inl e)
  then show ?thesis using assms
    by (simp add: handle_flow_unfold [of w] split: if_splits)
next
  case (Inr cur)
  then show ?thesis using assms
    by (simp add: handle_flow_unfold [of w] split: if_splits)
qed


lemma steps_left_next [simp]:
  "index_of (sess w) < int (length (steps_of (sess w))) \<Longrightarrow>
   steps_left (w\<lparr>sess := (sess w)\<lparr>funnel_index := Some (index_of (sess w) + 1)\<rparr>\<rparr>) < steps_left w"
  by (simp add: steps_left_def)

text \<open>
  C12 (P5, idempotent routing): routing again without \<open>next_step\<close> lands on
  the same route and leaves the session as it is.
\<close>

theorem handle_flow_idempotent:
  "handle_flow w = Inr (r, w') \<Longrightarrow> handle_flow w' = Inr (r, w')"
proof (induction "steps_left w" arbitrary: w rule: less_induct)
  case less
  from handle_flow_step [OF less.prems] show ?case
  proof
    assume "w' = w"
    then show ?thesis using less.prems by simp
  next
    assume "index_of (sess w) < int (length (steps_of (sess w))) \<and>
            handle_flow (w\<lparr>sess := (sess w)\<lparr>funnel_index := Some (index_of (sess w) + 1)\<rparr>\<rparr>) = Inr (r, w')"
    then show ?thesis using less.hyps steps_left_next by blast
  qed
qed

theorem handle_flow_idempotent_witness:
  "handle_flow (claim_world (empty_session\<lparr>funnel_steps := Some [''intro'', ''calendar''],
                                           funnel_index := Some 0\<rparr>)) =
     Inr (Redirect CalendarView,
          claim_world (empty_session\<lparr>funnel_steps := Some [''intro'', ''calendar''], funnel_index := Some 1\<rparr>)) \<and>
   handle_flow (claim_world (empty_session\<lparr>funnel_steps := Some [''intro'', ''calendar''], funnel_index := Some 1\<rparr>)) =
     Inr (Redirect CalendarView,
          claim_world (empty_session\<lparr>funnel_steps := Some [''intro'', ''calendar''], funnel_index := Some 1\<rparr>))"
proof -
  have ev: "handle_flow (claim_world (empty_session\<lparr>funnel_steps := Some [''intro'', ''calendar''],
                                           funnel_index := Some 0\<rparr>)) =
     Inr (Redirect CalendarView,
          claim_world (empty_session\<lparr>funnel_steps := Some [''intro'', ''calendar''], funnel_index := Some 1\<rparr>))"
    by code_simp
  show ?thesis using handle_flow_idempotent [OF ev] ev by simp
qed

text \<open>
  Routing only ever moves the step index forward and touches nothing
  else: the store, the effects and every other session key stay.
\<close>

theorem handle_flow_frame:
  "handle_flow w = Inr (r, w') \<Longrightarrow>
     wdb w' = wdb w \<and> effects w' = effects w \<and> index_of (sess w) \<le> index_of (sess w') \<and>
     sess w' = (sess w)\<lparr>funnel_index := funnel_index (sess w')\<rparr>"
proof (induction "steps_left w" arbitrary: w rule: less_induct)
  case less
  from handle_flow_step [OF less.prems] show ?case
  proof
    assume "w' = w"
    then show ?thesis by simp
  next
    let ?w1 = "w\<lparr>sess := (sess w)\<lparr>funnel_index := Some (index_of (sess w) + 1)\<rparr>\<rparr>"
    assume a: "index_of (sess w) < int (length (steps_of (sess w))) \<and> handle_flow ?w1 = Inr (r, w')"
    then have "wdb w' = wdb ?w1 \<and> effects w' = effects ?w1 \<and> index_of (sess ?w1) \<le> index_of (sess w') \<and>
               sess w' = (sess ?w1)\<lparr>funnel_index := funnel_index (sess w')\<rparr>"
      using less.hyps steps_left_next by blast
    then show ?thesis by simp
  qed
qed


theorem handle_flow_frame_witness:
  "handle_flow (claim_world (empty_session\<lparr>funnel_steps := Some [''intro'', ''calendar''],
                                           funnel_index := Some 0\<rparr>)) =
     Inr (Redirect CalendarView,
          claim_world (empty_session\<lparr>funnel_steps := Some [''intro'', ''calendar''], funnel_index := Some 1\<rparr>)) \<and>
   index_of (sess (claim_world (empty_session\<lparr>funnel_steps := Some [''intro'', ''calendar''],
                                           funnel_index := Some 0\<rparr>))) \<le>
   index_of (sess (claim_world (empty_session\<lparr>funnel_steps := Some [''intro'', ''calendar''], funnel_index := Some 1\<rparr>)))"
proof -
  have ev: "handle_flow (claim_world (empty_session\<lparr>funnel_steps := Some [''intro'', ''calendar''],
                                           funnel_index := Some 0\<rparr>)) =
     Inr (Redirect CalendarView,
          claim_world (empty_session\<lparr>funnel_steps := Some [''intro'', ''calendar''], funnel_index := Some 1\<rparr>))"
    by code_simp
  show ?thesis using handle_flow_frame [OF ev] ev by simp
qed

text \<open>
  \<open>start_booking\<close> resets the funnel selectively: the booking keys are
  cleared, the index is 0 and the step list the fixed canonical one, while
  unrelated session data (the staff login, the flash queue, the preferred
  closer) is kept.
\<close>

theorem start_booking_selective_reset:
  "start_booking arg w = (r, w') \<Longrightarrow>
     r = Redirect HandleFlow \<and> wdb w' = wdb w \<and>
     funnel_index (sess w') = Some 0 \<and> funnel_steps (sess w') = Some canonical_steps \<and>
     booking_user_id (sess w') = None \<and> booking_data (sess w') = empty_bdata \<and>
     current_appt_id (sess w') = None \<and> booking_email_input (sess w') = None \<and>
     login_user (sess w') = login_user (sess w) \<and> flashes (sess w') = flashes (sess w) \<and>
     preferred_closer_id (sess w') = preferred_closer_id (sess w)"
  by (cases "event_by_utm (wdb w) (case arg of None \<Rightarrow> ''direct'' | Some u \<Rightarrow> u)")
     (auto simp: start_booking_def clear_booking_keys_def Let_def)


theorem start_booking_selective_reset_witness:
  "start_booking (Some ''ig'') (claim_world (empty_session\<lparr>login_user := Some 1, booking_user_id := Some 5\<rparr>)) =
     (Redirect HandleFlow, claim_world (empty_session\<lparr>login_user := Some 1, booking_utm := Some ''ig'',
        funnel_steps := Some canonical_steps, funnel_index := Some 0\<rparr>)) \<and>
   login_user (sess (claim_world (empty_session\<lparr>login_user := Some 1, booking_utm := Some ''ig'',
        funnel_steps := Some canonical_steps, funnel_index := Some 0\<rparr>))) = Some 1"
proof -
  have ev: "start_booking (Some ''ig'') (claim_world (empty_session\<lparr>login_user := Some 1, booking_user_id := Some 5\<rparr>)) =
     (Redirect HandleFlow, claim_world (empty_session\<lparr>login_user := Some 1, booking_utm := Some ''ig'',
        funnel_steps := Some canonical_steps, funnel_index := Some 0\<rparr>))"
    by code_simp
  show ?thesis using start_booking_selective_reset [OF ev] ev by (simp add: claim_world_def)
qed

lemma next_steps_index:
  "index_of (sess (((snd \<circ> next_step) ^^ n) w)) = index_of (sess w) + int n \<and>
   steps_of (sess (((snd \<circ> next_step) ^^ n) w)) = steps_of (sess w)"
  by (induction n) (simp_all add: next_step_def)

lemma handle_flow_canonical:
  assumes "steps_of (sess w) = canonical_steps" and "index_of (sess w) = int k"
  shows "map_sum id fst (handle_flow w) =
           Inr (Redirect ([IdentifyView, ContactDetailsView, SurveyView, CalendarView, ThankYou] ! min k 4))"
proof -
  have "k < 4 \<or> 4 \<le> k" by arith
  then consider "k = 0" | "k = 1" | "k = 2" | "k = 3" | "4 \<le> k" by arith
  then show ?thesis
    by cases (use assms in \<open>simp_all add: handle_flow_unfold [of w] canonical_steps_def py_nth_def\<close>)
qed

lemma start_booking_position:
  "steps_of (sess (snd (start_booking arg w))) = canonical_steps \<and>
   index_of (sess (snd (start_booking arg w))) = 0"
  by (simp add: start_booking_def Let_def steps_of_def index_of_def)

text \<open>
  C13: the step order is the fixed one, whatever event the \<open>utm_source\<close>
  selects: from the entry, routing after 0, 1, 2, 3 and 4 calls of
  \<open>next_step\<close> shows identify, contact details, survey, calendar, thank-you.
\<close>

theorem funnel_canonical_order:
  "map (\<lambda>n. map_sum id fst (view_after n (snd (start_booking arg w)))) [0, 1, 2, 3, 4] =
   [Inr (Redirect IdentifyView), Inr (Redirect ContactDetailsView), Inr (Redirect SurveyView),
    Inr (Redirect CalendarView), Inr (Redirect ThankYou)]"
proof -
  have "map_sum id fst (view_after n (snd (start_booking arg w))) =
          Inr (Redirect ([IdentifyView, ContactDetailsView, SurveyView, CalendarView, ThankYou] ! min n 4))"
    for n
    unfolding view_after_def
    by (rule handle_flow_canonical) (simp_all add: next_steps_index start_booking_position)
  then show ?thesis by simp
qed

end
