(* ===== verification/Identity.thy ===== *)
theory Identity
  imports Funnel
begin

text \<open>
  Identity resolution in \<open>src/app/booking/routes.py\<close>: \<open>identify_view\<close>
  (look the email up; link the user or keep the raw email, writing nothing to
  the store) and \<open>contact_details_view\<close> (create a lead with a fresh username
  and a profile, or update an existing user's profile without blanking
  fields). The username loop draws \<open>random.randint(1000, 9999)\<close>: the draws
  are an input list, and running out of draws before a free name is found is
  \<open>None\<close>, the request not returning. The GET branch of
  \<open>contact_details_view\<close> is the pre-fill dictionary it renders.
\<close>

record details_form =
  f_name :: "string option"
  f_phone_code :: "string option"
  f_phone :: "string option"
  f_instagram :: "string option"
  f_email :: "string option"

text \<open>\<open>identify_view\<close>, POST.\<close>

definition identify_post :: "string option \<Rightarrow> world \<Rightarrow> response \<times> world" where
  "identify_post f_em w =
     (case f_em of
        None \<Rightarrow> (Render IdentifyPage, flash EmailRequired w)
      | Some e \<Rightarrow>
          if e = [] then (Render IdentifyPage, flash EmailRequired w)
          else (case user_by_email (wdb w) e of
                  Some u \<Rightarrow> (Redirect NextStep,
                             flash (WelcomeBack (username u))
                               (w\<lparr>sess := (sess w)\<lparr>booking_user_id := Some (u_id u)\<rparr>\<rparr>))
                | None \<Rightarrow> (Redirect NextStep,
                           w\<lparr>sess := (sess w)\<lparr>booking_user_id := None, booking_email_input := Some e\<rparr>\<rparr>)))"

text \<open>\<open>clean_phone(code, number)\<close>: \<open>None\<close> without a number, else \<open>f"{code} {number}".strip()\<close>.\<close>

definition clean_phone :: "string option \<Rightarrow> string option \<Rightarrow> string option" where
  "clean_phone code number =
     (if \<not> truthy_str number then None else Some (py_strip (py_fmt code @ '' '' @ py_fmt number)))"

text \<open>
  \<open>while User.query.filter_by(username=username).first():
       username = f"{base_username}_{random.randint(1000,9999)}"[:64]\<close>
\<close>

primrec pick_username :: "db \<Rightarrow> string \<Rightarrow> string \<Rightarrow> nat list \<Rightarrow> string option" where
  "pick_username d base cand [] = (if user_by_username d cand = None then Some cand else None)"
| "pick_username d base cand (r # rs) =
     (if user_by_username d cand = None then Some cand
      else pick_username d base (take 64 (base @ ''_'' @ dec_str r)) rs)"

text \<open>The new user and its profile, committed together.\<close>

definition create_lead ::
  "db \<Rightarrow> string \<Rightarrow> string \<Rightarrow> string option \<Rightarrow> string option \<Rightarrow> string \<Rightarrow> uid \<times> db" where
  "create_lead d un em ph insta utm =
     (let i = next_user d in
      (i, d\<lparr>users := users d @ [\<lparr>u_id = i, username = un, email = em, role = ''lead'',
                                  timezone = None, password_set = True\<rparr>],
            profiles := profiles d @ [\<lparr>lp_user = i, phone = ph, instagram = insta,
                                        utm_source = utm, lp_status = ''new''\<rparr>],
            next_user := i + 1\<rparr>))"

text \<open>The update of an existing user: name if given, phone and instagram only if non-empty.\<close>

definition update_existing ::
  "db \<Rightarrow> uid \<Rightarrow> string option \<Rightarrow> string option \<Rightarrow> string option \<Rightarrow> string \<Rightarrow> db" where
  "update_existing d i nm ph insta utm =
     (let d1 = (if truthy_str nm
                then d\<lparr>users := map (\<lambda>x. if u_id x = i then x\<lparr>username := the nm\<rparr> else x) (users d)\<rparr>
                else d)
      in case profile_of d1 i of
           Some _ \<Rightarrow>
             d1\<lparr>profiles := map (\<lambda>q. if lp_user q = i
                                    then q\<lparr>phone := (if truthy_str ph then ph else phone q),
                                           instagram := (if truthy_str insta then insta else instagram q)\<rparr>
                                    else q) (profiles d1)\<rparr>
         | None \<Rightarrow>
             d1\<lparr>profiles := profiles d1 @ [\<lparr>lp_user = i, phone = ph, instagram = insta,
                                             utm_source = utm, lp_status = ''new''\<rparr>]\<rparr>)"

text \<open>
  \<open>contact_details_view\<close>, POST: \<open>None\<close> is a request that never returns
  (the username loop outlasting the draws).
\<close>

definition contact_details_post :: "details_form \<Rightarrow> nat list \<Rightarrow> world \<Rightarrow> (response \<times> world) option" where
  "contact_details_post f draws w =
     (let s = sess w; d = wdb w;
          user = (case booking_user_id s of
                    None \<Rightarrow> None
                  | Some i \<Rightarrow> if i \<noteq> 0 then get_user d i else None);
          full_phone = clean_phone (f_phone_code f) (f_phone f);
          utm = (case booking_utm s of None \<Rightarrow> ''direct'' | Some u \<Rightarrow> u)
      in case user of
           None \<Rightarrow>
             (let em_opt = (if truthy_str (booking_email_input s) then booking_email_input s else f_email f)
              in case em_opt of
                   None \<Rightarrow> Some (Redirect StartBooking, flash SessionError w)
                 | Some em \<Rightarrow>
                     if em = [] then Some (Redirect StartBooking, flash SessionError w)
                     else
                       (let base = (if truthy_str (f_name f) then the (f_name f)
                                    else takeWhile (\<lambda>c. c \<noteq> CHR ''@'') em)
                        in case pick_username d base (take 60 base) draws of
                             None \<Rightarrow> None
                           | Some un \<Rightarrow>
                               (let (i, d') = create_lead d un em full_phone (f_instagram f) utm
                                in Some (Redirect NextStep,
                                         w\<lparr>wdb := d', sess := s\<lparr>booking_user_id := Some i\<rparr>\<rparr>))))
         | Some u \<Rightarrow>
             Some (Redirect NextStep,
                   w\<lparr>wdb := update_existing d (u_id u) (f_name f) full_phone (f_instagram f) utm\<rparr>))"

text \<open>
  \<open>contact_details_view\<close>, GET: the pre-fill dictionary handed to the
  template, keys in insertion order. A stored phone that contains a space is
  split at its first space (\<open>phone.split(' ', 1)\<close>) into the country code and
  the number.
\<close>

definition split_phone :: "string \<Rightarrow> string \<times> string" where
  "split_phone p = (takeWhile (\<lambda>c. c \<noteq> CHR '' '') p, drop 1 (dropWhile (\<lambda>c. c \<noteq> CHR '' '') p))"

definition prefill_phone :: "string option \<Rightarrow> (string \<times> string option) list" where
  "prefill_phone ph =
     (case ph of
        Some p \<Rightarrow>
          if p \<noteq> [] \<and> CHR '' '' \<in> set p
          then [(''phone_code'', Some (fst (split_phone p))), (''phone'', Some (snd (split_phone p)))]
          else [(''phone'', ph)]
      | None \<Rightarrow> [(''phone'', None)])"

definition contact_details_get :: "world \<Rightarrow> (string \<times> string option) list" where
  "contact_details_get w =
     (let s = sess w; d = wdb w;
          user = (case booking_user_id s of
                    None \<Rightarrow> None
                  | Some i \<Rightarrow> if i \<noteq> 0 then get_user d i else None)
      in case user of
           Some u \<Rightarrow>
             [(''email'', Some (email u)), (''name'', Some (username u))] @
             (case profile_of d (u_id u) of
                Some pr \<Rightarrow> prefill_phone (phone pr) @ [(''instagram'', instagram pr)]
              | None \<Rightarrow> [])
         | None \<Rightarrow> [(''email'', booking_email_input s)])"

text \<open>
  Well-formedness of the identifiers: every user and every profile refers to
  an identifier below the next one the store will hand out, so a fresh user
  never collides with an existing row.
\<close>

definition ids_fresh :: "db \<Rightarrow> bool" where
  "ids_fresh d \<longleftrightarrow> (\<forall>u\<in>set (users d). u_id u < next_user d) \<and>
                  (\<forall>p\<in>set (profiles d). lp_user p < next_user d)"

text \<open>Fixtures: one returning lead with a profile, and a store where a long name's
  truncations are both taken.\<close>

definition id_db :: db where
  "id_db = \<lparr>users = [\<lparr>u_id = 5, username = ''ana'', email = ''ana@x.com'', role = ''lead'',
                       timezone = None, password_set = True\<rparr>],
     profiles = [\<lparr>lp_user = 5, phone = Some ''+591 700'', instagram = Some ''@ana'',
                  utm_source = ''ads'', lp_status = ''contacted''\<rparr>],
     appointments = [], answers = [], questions = [], events = [], availabilities = [],
     next_user = 6, next_appt = 1, next_answer = 1, unique_slot_index = True\<rparr>"

definition id_session :: "uid option \<Rightarrow> string option \<Rightarrow> session" where
  "id_session u e = \<lparr>booking_data = empty_bdata, booking_event_id = None, funnel_steps = None,
     funnel_index = None, booking_user_id = u, current_appt_id = None, booking_email_input = e,
     booking_utm = Some ''ig'', preferred_closer_id = None, login_user = None, flashes = []\<rparr>"

definition id_world :: "db \<Rightarrow> uid option \<Rightarrow> string option \<Rightarrow> world" where
  "id_world d u e = \<lparr>wdb = d, sess = id_session u e, effects = []\<rparr>"

definition long_name :: string where
  "long_name = replicate 64 CHR ''a''"

definition long_db :: db where
  "long_db = id_db\<lparr>users := users id_db @
     [\<lparr>u_id = 6, username = take 60 long_name, email = ''b@x.com'', role = ''lead'',
       timezone = None, password_set = True\<rparr>,
      \<lparr>u_id = 7, username = long_name, email = ''c@x.com'', role = ''lead'',
       timezone = None, password_set = True\<rparr>], next_user := 8\<rparr>"

definition form :: "string option \<Rightarrow> string option \<Rightarrow> string option \<Rightarrow> details_form" where
  "form nm ph insta = \<lparr>f_name = nm, f_phone_code = Some ''+591'', f_phone = ph,
     f_instagram = insta, f_email = None\<rparr>"


section \<open>The username loop\<close>

lemma pick_username_free:
  "pick_username d b c rs = Some un \<Longrightarrow> user_by_username d un = None"
  by (induction rs arbitrary: c) (auto split: if_splits)

lemma pick_username_stuck:
  "64 \<le> length b \<Longrightarrow> user_by_username d c \<noteq> None \<Longrightarrow> user_by_username d (take 64 b) \<noteq> None \<Longrightarrow>
   pick_username d b c rs = None"
  by (induction rs arbitrary: c) auto

lemma pick_username_free_cand [simp]:
  "user_by_username d c = None \<Longrightarrow> pick_username d b c rs = Some c"
  by (cases rs) auto

lemma pick_username_live:
  "\<exists>r\<in>set rs. user_by_username d (take 64 (b @ ''_'' @ dec_str r)) = None \<Longrightarrow>
   pick_username d b c rs \<noteq> None"
  by (induction rs arbitrary: c) auto

section \<open>Identifiers\<close>

lemma ids_fresh_lookups:
  "ids_fresh d \<Longrightarrow> get_user d (next_user d) = None \<and> profile_of d (next_user d) = None"
  unfolding ids_fresh_def get_user_def profile_of_def find_None_iff by force

lemma get_user_id: "get_user d i = Some u \<Longrightarrow> u_id u = i \<and> u \<in> set (users d)"
  by (auto simp: get_user_def)

lemma create_lead_fresh:
  "ids_fresh d \<Longrightarrow> create_lead d un em ph insta utm = (i, d') \<Longrightarrow> ids_fresh d'"
  unfolding create_lead_def ids_fresh_def Let_def by fastforce

lemma create_lead_usernames:
  "create_lead d un em ph insta utm = (i, d') \<Longrightarrow>
   map username (users d') = map username (users d) @ [un]"
  by (auto simp: create_lead_def Let_def)

lemma update_existing_db:
  "next_user (update_existing d i nm ph insta utm) = next_user d \<and>
   map u_id (users (update_existing d i nm ph insta utm)) = map u_id (users d)"
  by (simp add: update_existing_def Let_def comp_def if_distrib split: option.split)

lemma update_existing_fresh:
  assumes "ids_fresh d" and "i < next_user d"
  shows "ids_fresh (update_existing d i nm ph insta utm)"
proof -
  let ?d' = "update_existing d i nm ph insta utm"
  have u: "u_id ` set (users ?d') = u_id ` set (users d)"
    using update_existing_db arg_cong [where f = set] by (metis set_map)
  have p: "lp_user ` set (profiles ?d') \<subseteq> lp_user ` set (profiles d) \<union> {i}"
    by (auto simp: update_existing_def Let_def split: option.splits)
  have n: "next_user ?d' = next_user d"
    using update_existing_db by blast
  have "\<forall>x\<in>set (users ?d'). u_id x < next_user ?d'"
  proof
    fix x assume "x \<in> set (users ?d')"
    then have "u_id x \<in> u_id ` set (users d)" using u by blast
    then show "u_id x < next_user ?d'" using assms(1) n unfolding ids_fresh_def by auto
  qed
  moreover have "\<forall>x\<in>set (profiles ?d'). lp_user x < next_user ?d'"
  proof
    fix x assume "x \<in> set (profiles ?d')"
    then have "lp_user x \<in> lp_user ` set (profiles d) \<union> {i}" using p by blast
    then show "lp_user x < next_user ?d'" using assms n unfolding ids_fresh_def by auto
  qed
  ultimately show ?thesis
    unfolding ids_fresh_def by blast
qed

section \<open>Claims\<close>

lemma profile_of_update_existing:
  assumes "profile_of d i = Some p"
  shows "profile_of (update_existing d i nm ph insta utm) i =
         Some (p\<lparr>phone := (if truthy_str ph then ph else phone p),
                 instagram := (if truthy_str insta then insta else instagram p)\<rparr>)"
proof -
  have d1: "profile_of (if truthy_str nm
              then d\<lparr>users := map (\<lambda>x. if u_id x = i then x\<lparr>username := the nm\<rparr> else x) (users d)\<rparr>
              else d) i = Some p"
    using assms by (simp add: profile_of_def)
  have "lp_user p = i" using assms by (auto simp: profile_of_def)
  then show ?thesis
    using assms d1 by (simp add: update_existing_def Let_def profile_of_def find_map_same)
qed

text \<open>
  Identification never writes the store; an unknown, non-empty email is
  only kept in the session, with no user linked (record creation is deferred
  to the contact-details step).
\<close>

theorem identify_post_defers_creation:
  "wdb (snd (identify_post e w)) = wdb w \<and>
   (e = Some x \<longrightarrow> x \<noteq> [] \<longrightarrow> user_by_email (wdb w) x = None \<longrightarrow>
      fst (identify_post e w) = Redirect NextStep \<and>
      booking_user_id (sess (snd (identify_post e w))) = None \<and>
      booking_email_input (sess (snd (identify_post e w))) = Some x)"
  by (auto simp: identify_post_def split: option.splits)

theorem identify_post_defers_creation_witness:
  "wdb (snd (identify_post (Some ''new@x.com'') (id_world id_db None None))) = id_db \<and>
   booking_email_input (sess (snd (identify_post (Some ''new@x.com'') (id_world id_db None None)))) =
     Some ''new@x.com''"
  using identify_post_defers_creation [of "Some ''new@x.com''" "id_world id_db None None" "''new@x.com''"]
  by (simp add: id_world_def id_db_def user_by_email_def)

text \<open>
  Contact details without a linked user and without any email (neither
  staged nor submitted) fail with the session error and a redirect to the
  start of the funnel, writing nothing.
\<close>

theorem contact_details_missing_identity:
  assumes "\<not> truthy_id (booking_user_id (sess w))"
    and "\<not> truthy_str (booking_email_input (sess w))" and "\<not> truthy_str (f_email f)"
  shows "contact_details_post f rs w = Some (Redirect StartBooking, flash SessionError w)"
  using assms
  by (auto simp: contact_details_post_def Let_def truthy_id_def truthy_str_def split: option.splits)

theorem contact_details_missing_identity_witness:
  "contact_details_post (form (Some ''Eva'') None None) [] (id_world id_db None None) =
   Some (Redirect StartBooking, flash SessionError (id_world id_db None None))"
  using contact_details_missing_identity [of "id_world id_db None None" "form (Some ''Eva'') None None" "[]"]
  by (simp add: id_world_def id_session_def form_def)

text \<open>
  C14: a visitor with no linked user, a staged email and a submitted name is
  provisioned as a new lead: a user with the lead role, the email, and a
  username that was free, a profile with status \<open>new\<close>, the formatted phone
  and the session's UTM source, and the session now linked to the new user.
\<close>

theorem contact_details_creates_lead:
  assumes "booking_user_id (sess w) = None" and "booking_email_input (sess w) = Some em"
    and "em \<noteq> []" and "f_name f = Some nm" and "nm \<noteq> []"
    and "pick_username (wdb w) nm (take 60 nm) rs = Some un" and "ids_fresh (wdb w)"
  shows "\<exists>w'. contact_details_post f rs w = Some (Redirect NextStep, w') \<and>
           user_by_username (wdb w) un = None \<and>
           booking_user_id (sess w') = Some (next_user (wdb w)) \<and>
           get_user (wdb w') (next_user (wdb w)) =
             Some \<lparr>u_id = next_user (wdb w), username = un, email = em, role = ''lead'',
                   timezone = None, password_set = True\<rparr> \<and>
           profile_of (wdb w') (next_user (wdb w)) =
             Some \<lparr>lp_user = next_user (wdb w), phone = clean_phone (f_phone_code f) (f_phone f),
                   instagram = f_instagram f,
                   utm_source = (case booking_utm (sess w) of None \<Rightarrow> ''direct'' | Some u \<Rightarrow> u),
                   lp_status = ''new''\<rparr>"
proof -
  have fresh: "get_user (wdb w) (next_user (wdb w)) = None" "profile_of (wdb w) (next_user (wdb w)) = None"
    using ids_fresh_lookups [OF assms(7)] by simp_all
  then show ?thesis
    using assms pick_username_free [OF assms(6)]
    by (simp add: contact_details_post_def create_lead_def Let_def get_user_def profile_of_def)
qed

theorem contact_details_creates_lead_witness:
  "user_by_username id_db ''Eva'' = None \<and>
   get_user (wdb (snd (the (contact_details_post (form (Some ''Eva'') (Some ''700'') None) []
                               (id_world id_db None (Some ''eva@x.com'')))))) 6 =
     Some \<lparr>u_id = 6, username = ''Eva'', email = ''eva@x.com'', role = ''lead'',
           timezone = None, password_set = True\<rparr>"
proof -
  have h: "booking_user_id (sess (id_world id_db None (Some ''eva@x.com''))) = None"
          "booking_email_input (sess (id_world id_db None (Some ''eva@x.com''))) = Some ''eva@x.com''"
          "f_name (form (Some ''Eva'') (Some ''700'') None) = Some ''Eva''"
          "pick_username (wdb (id_world id_db None (Some ''eva@x.com''))) ''Eva'' (take 60 ''Eva'') [] = Some ''Eva''"
          "ids_fresh (wdb (id_world id_db None (Some ''eva@x.com'')))"
    by (simp_all add: id_world_def id_session_def form_def id_db_def user_by_username_def ids_fresh_def)
  have n: "next_user (wdb (id_world id_db None (Some ''eva@x.com''))) = 6"
    by (simp add: id_world_def id_db_def)
  show ?thesis
    using contact_details_creates_lead [OF h(1,2) _ h(3) _ h(4,5)] h(4) n
    by (auto simp: id_world_def)
qed

text \<open>
  C15: an existing lead's submission never overwrites the profile's UTM source
  or status, never blanks phone or instagram with an empty field, and creates
  no user.
\<close>

theorem contact_details_keeps_existing_profile:
  assumes "booking_user_id (sess w) = Some i" and "i \<noteq> 0"
    and "get_user (wdb w) i = Some u" and "profile_of (wdb w) i = Some p"
  shows "\<exists>w' p'. contact_details_post f rs w = Some (Redirect NextStep, w') \<and>
           length (users (wdb w')) = length (users (wdb w)) \<and>
           profile_of (wdb w') i = Some p' \<and>
           utm_source p' = utm_source p \<and> lp_status p' = lp_status p \<and>
           (\<not> truthy_str (f_phone f) \<longrightarrow> phone p' = phone p) \<and>
           (\<not> truthy_str (f_instagram f) \<longrightarrow> instagram p' = instagram p)"
proof -
  have ui: "u_id u = i" using get_user_id [OF assms(3)] by simp
  have len: "length (users (update_existing (wdb w) i nm ph insta utm)) = length (users (wdb w))"
    for nm ph insta utm
    using arg_cong [where f = length, OF conjunct2 [OF update_existing_db]] by simp
  show ?thesis
    using assms ui len profile_of_update_existing [OF assms(4)]
    by (simp add: contact_details_post_def Let_def clean_phone_def)
qed

theorem contact_details_keeps_existing_profile_witness:
  "profile_of (wdb (snd (the (contact_details_post (form None None (Some [])) []
                               (id_world id_db (Some 5) None))))) 5 =
   Some \<lparr>lp_user = 5, phone = Some ''+591 700'', instagram = Some ''@ana'',
         utm_source = ''ads'', lp_status = ''contacted''\<rparr>"
proof -
  have h: "booking_user_id (sess (id_world id_db (Some 5) None)) = Some 5"
          "get_user (wdb (id_world id_db (Some 5) None)) 5 = Some (hd (users id_db))"
          "profile_of (wdb (id_world id_db (Some 5) None)) 5 = Some (hd (profiles id_db))"
    by (simp_all add: id_world_def id_session_def id_db_def get_user_def profile_of_def)
  obtain w' p' where "contact_details_post (form None None (Some [])) [] (id_world id_db (Some 5) None) =
                        Some (Redirect NextStep, w')" "profile_of (wdb w') 5 = Some p'"
    "utm_source p' = ''ads''" "lp_status p' = ''contacted''"
    "phone p' = Some ''+591 700''" "instagram p' = Some ''@ana''"
    using contact_details_keeps_existing_profile [OF h(1) _ h(2,3), of "form None None (Some [])" "[]"]
    by (auto simp: form_def id_db_def)
  moreover have "lp_user p' = 5"
    using \<open>profile_of (wdb w') 5 = Some p'\<close> by (auto simp: profile_of_def)
  ultimately show ?thesis by (cases p') simp
qed

text \<open>
  Every completed contact-details submission keeps the identifiers
  well formed: users and profiles stay below the next identifier.
\<close>

theorem contact_details_preserves_ids_fresh:
  assumes "ids_fresh (wdb w)" and "contact_details_post f rs w = Some (r, w')"
  shows "ids_fresh (wdb w')"
proof (cases "\<exists>i u. booking_user_id (sess w) = Some i \<and> i \<noteq> 0 \<and> get_user (wdb w) i = Some u")
  case True
  then obtain i u where h: "booking_user_id (sess w) = Some i" "i \<noteq> 0" "get_user (wdb w) i = Some u"
    by blast
  have "u_id u < next_user (wdb w)"
    using get_user_id [OF h(3)] assms(1) unfolding ids_fresh_def by blast
  then show ?thesis
    using assms h update_existing_fresh by (auto simp: contact_details_post_def Let_def)
next
  case False
  then have "(case booking_user_id (sess w) of None \<Rightarrow> None
             | Some i \<Rightarrow> if i \<noteq> 0 then get_user (wdb w) i else None) = None"
    by (auto split: option.split)
  then show ?thesis
    using assms create_lead_fresh
    by (auto simp: contact_details_post_def Let_def split: option.splits if_splits prod.splits)
qed

theorem contact_details_preserves_ids_fresh_witness:
  "ids_fresh (wdb (snd (the (contact_details_post (form (Some ''Eva'') (Some ''700'') None) []
                               (id_world id_db None (Some ''eva@x.com''))))))"
proof -
  have h: "ids_fresh (wdb (id_world id_db None (Some ''eva@x.com'')))"
    by (simp add: id_world_def id_db_def ids_fresh_def)
  have e: "contact_details_post (form (Some ''Eva'') (Some ''700'') None) [] (id_world id_db None (Some ''eva@x.com'')) =
           Some (fst (the (contact_details_post (form (Some ''Eva'') (Some ''700'') None) []
                             (id_world id_db None (Some ''eva@x.com'')))),
                 snd (the (contact_details_post (form (Some ''Eva'') (Some ''700'') None) []
                             (id_world id_db None (Some ''eva@x.com'')))))"
    by (simp add: contact_details_post_def id_world_def id_session_def form_def id_db_def
                  user_by_username_def get_user_def Let_def create_lead_def)
  show ?thesis using contact_details_preserves_ids_fresh [OF h e] .
qed

text \<open>
  C16: provisioning a new lead keeps usernames unique: the name it stores is one
  the username loop found free.
\<close>

theorem contact_details_new_username_unique:
  assumes "distinct (map username (users (wdb w)))"
    and "\<not> truthy_id (booking_user_id (sess w))"
    and "contact_details_post f rs w = Some (r, w')"
  shows "distinct (map username (users (wdb w')))"
proof -
  have "wdb w' = wdb w \<or>
        (\<exists>b c un. pick_username (wdb w) b c rs = Some un \<and>
                  map username (users (wdb w')) = map username (users (wdb w)) @ [un])"
    using assms(2,3)
    by (auto simp: contact_details_post_def Let_def truthy_id_def flash_def
             dest!: create_lead_usernames split: option.splits if_splits prod.splits)
  then show ?thesis
  proof
    assume "wdb w' = wdb w" then show ?thesis using assms(1) by simp
  next
    assume "\<exists>b c un. pick_username (wdb w) b c rs = Some un \<and>
              map username (users (wdb w')) = map username (users (wdb w)) @ [un]"
    then obtain b c un where p: "pick_username (wdb w) b c rs = Some un"
      and d: "map username (users (wdb w')) = map username (users (wdb w)) @ [un]"
      by blast
    have "un \<notin> set (map username (users (wdb w)))"
      using pick_username_free [OF p] by (auto simp: user_by_username_def find_None_iff)
    then show ?thesis using assms(1) d by simp
  qed
qed

theorem contact_details_new_username_unique_witness:
  "distinct (map username (users (wdb (snd (the (contact_details_post (form None None None) [1234]
      (id_world id_db None (Some ''ana@y.com''))))))))"
proof -
  have h: "distinct (map username (users (wdb (id_world id_db None (Some ''ana@y.com''))))) \<and>
           \<not> truthy_id (booking_user_id (sess (id_world id_db None (Some ''ana@y.com''))))"
    by (simp add: id_world_def id_session_def id_db_def)
  have e: "contact_details_post (form None None None) [1234] (id_world id_db None (Some ''ana@y.com'')) =
           Some (fst (the (contact_details_post (form None None None) [1234] (id_world id_db None (Some ''ana@y.com'')))),
                 snd (the (contact_details_post (form None None None) [1234] (id_world id_db None (Some ''ana@y.com'')))))"
    by code_simp
  show ?thesis using contact_details_new_username_unique [OF conjunct1 [OF h] conjunct2 [OF h] e] .
qed




text \<open>
  C18: the username loop never returns when the base name has 64 or more
  characters and both its 60- and 64-character prefixes are taken: every
  candidate \<open>f"{base}_{n}"[:64]\<close> is the taken 64-character prefix, whatever
  the random draws, so the request never completes.
\<close>

theorem contact_details_username_loop_diverges:
  assumes "booking_user_id (sess w) = None" and "truthy_str (booking_email_input (sess w))"
    and "f_name f = Some b" and "64 \<le> length b"
    and "user_by_username (wdb w) (take 60 b) \<noteq> None"
    and "user_by_username (wdb w) (take 64 b) \<noteq> None"
  shows "contact_details_post f rs w = None"
proof -
  have "b \<noteq> []" using assms(4) by auto
  then show ?thesis
    using assms pick_username_stuck [OF assms(4) assms(5) assms(6)]
    by (auto simp: contact_details_post_def Let_def truthy_str_def split: option.splits)
qed

theorem contact_details_username_loop_diverges_witness:
  "contact_details_post (form (Some long_name) None None) [1000, 2000, 9999]
     (id_world long_db None (Some ''z@x.com'')) = None"
proof -
  have h: "booking_user_id (sess (id_world long_db None (Some ''z@x.com''))) = None"
          "truthy_str (booking_email_input (sess (id_world long_db None (Some ''z@x.com''))))"
          "f_name (form (Some long_name) None None) = Some long_name"
          "64 \<le> length long_name"
          "user_by_username (wdb (id_world long_db None (Some ''z@x.com''))) (take 60 long_name) \<noteq> None"
          "user_by_username (wdb (id_world long_db None (Some ''z@x.com''))) (take 64 long_name) \<noteq> None"
    by (simp_all add: id_world_def id_session_def form_def long_name_def long_db_def id_db_def
                      user_by_username_def)
  show ?thesis using contact_details_username_loop_diverges [OF h] .
qed

text \<open>
  C19: conversely, with a submitted name, the request returns as soon as one of
  the random draws yields a free candidate.
\<close>

theorem contact_details_returns_on_free_draw:
  assumes "f_name f = Some nm" and "nm \<noteq> []"
    and "\<exists>r\<in>set rs. user_by_username (wdb w) (take 64 (nm @ ''_'' @ dec_str r)) = None"
  shows "\<exists>res. contact_details_post f rs w = Some res"
proof -
  have "pick_username (wdb w) nm (take 60 nm) rs \<noteq> None"
    using pick_username_live [OF assms(3)] .
  then show ?thesis
    using assms(1,2)
    by (auto simp: contact_details_post_def Let_def split: option.splits prod.splits)
qed

theorem contact_details_returns_on_free_draw_witness:
  "\<exists>res. contact_details_post (form (Some long_name) None None) [1000, 2000]
           (id_world (long_db\<lparr>users := take 2 (users long_db)\<rparr>) None (Some ''z@x.com'')) = Some res"
proof -
  have h: "\<exists>r\<in>set [1000, 2000]. user_by_username
              (wdb (id_world (long_db\<lparr>users := take 2 (users long_db)\<rparr>) None (Some ''z@x.com'')))
              (take 64 (long_name @ ''_'' @ dec_str r)) = None"
    by code_simp
  show ?thesis
    using contact_details_returns_on_free_draw [of "form (Some long_name) None None" long_name, OF _ _ h]
    by (simp add: form_def long_name_def)
qed

text \<open>
  C20: a phone number submitted without a country code is stored with the
  literal prefix \<open>None\<close>: the f-string formats the missing code.
\<close>

theorem clean_phone_missing_code:
  assumes "n \<noteq> []" and "\<not> py_isspace (last n)"
  shows "clean_phone None (Some n) = Some (''None '' @ n)"
proof -
  obtain ys y where n: "n = ys @ [y]" using assms(1) rev_exhaust by blast
  moreover have "\<not> py_isspace y" using assms(2) n by simp
  moreover have "\<not> py_isspace CHR ''N''" by (simp add: py_isspace_def)
  ultimately show ?thesis
    by (simp add: clean_phone_def py_strip_def py_fmt_def)
qed

theorem clean_phone_missing_code_witness:
  "clean_phone None (Some ''70012345'') = Some ''None 70012345''"
  using clean_phone_missing_code [of "''70012345''"] by (simp add: py_isspace_def)

section \<open>The contact-details pre-fill\<close>

lemma clean_phone_joined:
  assumes "c \<noteq> []" and "\<not> py_isspace (hd c)" and "n \<noteq> []" and "\<not> py_isspace (last n)"
  shows "clean_phone (Some c) (Some n) = Some (c @ CHR '' '' # n)"
proof -
  have "py_strip (c @ CHR '' '' # n) = c @ CHR '' '' # n"
    using assms by (intro py_strip_id) simp_all
  then show ?thesis using assms(3) by (simp add: clean_phone_def py_fmt_def truthy_str_def)
qed

lemma takeWhile_dropWhile_sep:
  "x \<notin> set c \<Longrightarrow> takeWhile (\<lambda>y. y \<noteq> x) (c @ x # n) = c \<and> dropWhile (\<lambda>y. y \<noteq> x) (c @ x # n) = x # n"
  by (induction c) auto

lemma split_phone_joined:
  "CHR '' '' \<notin> set c \<Longrightarrow> split_phone (c @ CHR '' '' # n) = (c, n)"
  using takeWhile_dropWhile_sep [of "CHR '' ''" c n] by (simp add: split_phone_def)

text \<open>
  C34: the pre-fill splits back what the POST stored: a phone saved by
  \<open>clean_phone\<close> from a country code without blanks and a number shows the
  same code and number again; a phone saved without a country code shows the
  code \<open>None\<close>.
\<close>

theorem phone_prefill_roundtrip:
  assumes "c \<noteq> []" and "CHR '' '' \<notin> set c" and "\<not> py_isspace (hd c)"
    and "n \<noteq> []" and "\<not> py_isspace (last n)"
  shows "prefill_phone (clean_phone (Some c) (Some n)) = [(''phone_code'', Some c), (''phone'', Some n)] \<and>
         prefill_phone (clean_phone None (Some n)) = [(''phone_code'', Some ''None''), (''phone'', Some n)]"
proof -
  have "\<not> py_isspace (hd ''None'')" by (simp add: py_isspace_def)
  then have none: "clean_phone None (Some n) = Some (''None'' @ CHR '' '' # n)"
    using clean_phone_joined [of "''None''" n] assms(4,5) by (simp add: clean_phone_def py_fmt_def)
  have "CHR '' '' \<notin> set ''None''" by simp
  then show ?thesis
    using clean_phone_joined [OF assms(1,3,4,5)] none split_phone_joined [OF assms(2)]
          split_phone_joined [of "''None''" n]
    by (simp add: prefill_phone_def)
qed

theorem phone_prefill_roundtrip_witness:
  "prefill_phone (clean_phone (Some ''+591'') (Some ''70012345'')) =
     [(''phone_code'', Some ''+591''), (''phone'', Some ''70012345'')]"
  using phone_prefill_roundtrip [of "''+591''" "''70012345''"] by (simp add: py_isspace_def)

end
