(* ===== verification/Survey.thy ===== *)
theory Survey
  imports Funnel
begin

text \<open>
  The survey step of \<open>src/app/booking/routes.py\<close> (\<open>survey_view\<close>): the
  question query (active survey questions of the session's event, of its
  group, or general ones, ordered by their \<open>order\<close> column) and the POST
  handler, which upserts the answers of an identified visitor into the store
  and appends those of an anonymous visitor to the session's staging area.
  The submitted form is a function from question identifiers to the optional
  value of field \<open>q_<id>\<close>.
\<close>

text \<open>
  The question query. A truthy \<open>booking_event_id\<close> whose event no longer
  exists makes \<open>event.group_id\<close> raise (\<open>AttributeError\<close> on \<open>None\<close>).
  \<open>order_by\<close> is a stable sort on the table order.
\<close>

definition survey_questions :: "db \<Rightarrow> uid option \<Rightarrow> py_error + survey_question list" where
  "survey_questions d evt =
     (let base = filter (\<lambda>q. q_active q \<and> q_step q = ''survey'') (questions d) in
      if truthy_id evt then
        (case get_event d (the evt) of
           None \<Rightarrow> Inl AttributeError
         | Some ev \<Rightarrow>
             Inr (sort_key q_order
                    (filter (\<lambda>q. q_event q = evt \<or> (truthy_id (ev_group ev) \<and> q_group q = ev_group ev) \<or>
                                 (q_event q = None \<and> q_group q = None)) base)))
      else Inr (sort_key q_order (filter (\<lambda>q. q_event q = None \<and> q_group q = None) base)))"

text \<open>\<open>answers_data\<close>: the non-empty answers, in question order.\<close>

definition collect_answers :: "(uid \<Rightarrow> string option) \<Rightarrow> survey_question list \<Rightarrow> staged_answer list" where
  "collect_answers form qs =
     map (\<lambda>q. \<lparr>sa_question = q_id q, sa_answer = the (form (q_id q))\<rparr>)
         (filter (\<lambda>q. truthy_str (form (q_id q))) qs)"

text \<open>\<open>SurveyAnswer.query.filter_by(lead_id=user_id, question_id=...).first()\<close>\<close>

definition answer_row :: "db \<Rightarrow> uid \<Rightarrow> uid \<Rightarrow> survey_answer option" where
  "answer_row d u q = List.find (\<lambda>a. ans_lead a = Some u \<and> question_id a = q) (answers d)"

text \<open>One upsert: the existing row (identified by its primary key) gets the new text, else a row is added.\<close>

definition upsert_answer :: "uid \<Rightarrow> uid option \<Rightarrow> db \<Rightarrow> staged_answer \<Rightarrow> db" where
  "upsert_answer u appt d it =
     (case answer_row d u (sa_question it) of
        Some ex \<Rightarrow>
          d\<lparr>answers := map (\<lambda>a. if ans_id a = ans_id ex then a\<lparr>answer := sa_answer it\<rparr> else a) (answers d)\<rparr>
      | None \<Rightarrow> add_answer (Some u) appt d it)"

definition survey_post :: "(uid \<Rightarrow> string option) \<Rightarrow> world \<Rightarrow> py_error + (response \<times> world)" where
  "survey_post form w =
     (let s = sess w; d = wdb w in
      case survey_questions d (booking_event_id s) of
        Inl e \<Rightarrow> Inl e
      | Inr qs \<Rightarrow>
          (let items = collect_answers form qs; u = booking_user_id s in
           if truthy_id u
           then Inr (Redirect NextStep, w\<lparr>wdb := foldl (upsert_answer (the u) (current_appt_id s)) d items\<rparr>)
           else Inr (Redirect NextStep,
                     w\<lparr>sess := s\<lparr>booking_data := (booking_data s)\<lparr>bd_answers :=
                                    bd_answers (booking_data s) @ items\<rparr>\<rparr>\<rparr>)))"

text \<open>At most one answer row per lead and question.\<close>

definition one_answer_per_question :: "db \<Rightarrow> bool" where
  "one_answer_per_question d =
     distinct (map (\<lambda>a. (ans_lead a, question_id a)) (filter (\<lambda>a. ans_lead a \<noteq> None) (answers d)))"

text \<open>Fixtures: one general question, an anonymous visitor, two submissions.\<close>

definition survey_db :: db where
  "survey_db = claim_db\<lparr>questions := [\<lparr>q_id = 1, q_active = True, q_step = ''survey'', q_event = None,
                                        q_group = None, q_order = 1\<rparr>]\<rparr>"

definition answer_form :: "string \<Rightarrow> uid \<Rightarrow> string option" where
  "answer_form txt q = (if q = 1 then Some txt else None)"

definition survey_world :: "session \<Rightarrow> world" where
  "survey_world s = \<lparr>wdb = survey_db, sess = s, effects = []\<rparr>"

section \<open>Upsert\<close>

lemma key_update_answer:
  "(\<lambda>a. (ans_lead a, question_id a)) \<circ> (\<lambda>a. if P a then a\<lparr>answer := t\<rparr> else a) =
   (\<lambda>a. (ans_lead a, question_id a))"
  by (simp add: fun_eq_iff)

lemma filter_update_answer:
  "filter (\<lambda>a. ans_lead a \<noteq> None) (map (\<lambda>a. if P a then a\<lparr>answer := t\<rparr> else a) xs) =
   map (\<lambda>a. if P a then a\<lparr>answer := t\<rparr> else a) (filter (\<lambda>a. ans_lead a \<noteq> None) xs)"
  by (induction xs) auto

lemma upsert_answer_keeps_one:
  assumes "one_answer_per_question d"
  shows "one_answer_per_question (upsert_answer u appt d it)"
proof (cases "answer_row d u (sa_question it)")
  case None
  then have "(Some u, sa_question it) \<notin> set (map (\<lambda>a. (ans_lead a, question_id a))
                                               (filter (\<lambda>a. ans_lead a \<noteq> None) (answers d)))"
    by (auto simp: answer_row_def find_None_iff)
  then show ?thesis
    using assms None by (simp add: upsert_answer_def add_answer_def one_answer_per_question_def)
next
  case (Some ex)
  then show ?thesis
    using assms
    by (simp add: upsert_answer_def one_answer_per_question_def filter_update_answer key_update_answer
             del: not_None_eq)
qed

lemma foldl_upsert_keeps_one:
  "one_answer_per_question d \<Longrightarrow> one_answer_per_question (foldl (upsert_answer u appt) d items)"
  by (induction items arbitrary: d) (simp_all add: upsert_answer_keeps_one)

lemma distinct_map_same:
  "distinct (map f xs) \<Longrightarrow> x \<in> set xs \<Longrightarrow> y \<in> set xs \<Longrightarrow> f x = f y \<Longrightarrow> x = y"
  by (metis distinct_map inj_onD)


section \<open>Claims\<close>

lemma answer_row_update:
  "answer_row (d\<lparr>answers := map (\<lambda>a. if ans_id a = i then a\<lparr>answer := t\<rparr> else a) (answers d)\<rparr>) u q =
   map_option (\<lambda>a. if ans_id a = i then a\<lparr>answer := t\<rparr> else a) (answer_row d u q)"
  unfolding answer_row_def by (simp add: find_map_same)

lemma answer_row_SomeD:
  "answer_row d u q = Some a \<Longrightarrow> a \<in> set (answers d) \<and> ans_lead a = Some u \<and> question_id a = q"
  by (auto simp: answer_row_def)

text \<open>
  Upsert then lookup: after one upsert, the lead's answer to that question
  is the submitted text and every other answer of the lead is unchanged
  (given the table's primary keys are distinct).
\<close>

theorem upsert_answer_lookup:
  assumes "distinct (map ans_id (answers d))"
  shows "map_option answer (answer_row (upsert_answer u appt d it) u q) =
         (if q = sa_question it then Some (sa_answer it) else map_option answer (answer_row d u q))"
proof (cases "answer_row d u (sa_question it)")
  case None
  then show ?thesis
    by (simp add: upsert_answer_def add_answer_def answer_row_def split: option.split)
next
  case (Some ex)
  note ex = answer_row_SomeD [OF Some]
  show ?thesis
  proof (cases "answer_row d u q")
    case None
    then show ?thesis using Some ex by (auto simp: upsert_answer_def answer_row_update)
  next
    case (Some a)
    note a = answer_row_SomeD [OF Some]
    have "q \<noteq> sa_question it \<Longrightarrow> ans_id a \<noteq> ans_id ex"
      using distinct_map_same [OF assms] a ex by metis
    then show ?thesis
      using Some \<open>answer_row d u (sa_question it) = Some ex\<close> ex
      by (auto simp: upsert_answer_def answer_row_update)
  qed
qed

theorem upsert_answer_lookup_witness:
  "map_option answer (answer_row (upsert_answer 5 None survey_db \<lparr>sa_question = 1, sa_answer = ''yes''\<rparr>) 5 1) =
   Some ''yes''"
  using upsert_answer_lookup [of survey_db 5 None "\<lparr>sa_question = 1, sa_answer = ''yes''\<rparr>" 1]
  by (simp add: survey_db_def claim_db_def)

text \<open>
  C21: an identified visitor's survey submission keeps at most one answer row
  per lead and question: answers are upserted, never duplicated.
\<close>

theorem survey_post_keeps_one_answer:
  assumes "one_answer_per_question (wdb w)" and "survey_post form w = Inr (r, w')"
  shows "one_answer_per_question (wdb w')"
  using assms foldl_upsert_keeps_one
  by (auto simp: survey_post_def Let_def split: sum.splits if_splits)

theorem survey_post_keeps_one_answer_witness:
  "one_answer_per_question (wdb (snd (projr (survey_post (answer_form ''yes'')
      (claim_world (empty_session\<lparr>booking_user_id := Some 5\<rparr>))))))"
proof -
  have h: "one_answer_per_question (wdb (claim_world (empty_session\<lparr>booking_user_id := Some 5\<rparr>)))"
    by code_simp
  have e: "survey_post (answer_form ''yes'') (claim_world (empty_session\<lparr>booking_user_id := Some 5\<rparr>)) =
           Inr (fst (projr (survey_post (answer_form ''yes'') (claim_world (empty_session\<lparr>booking_user_id := Some 5\<rparr>)))),
                snd (projr (survey_post (answer_form ''yes'') (claim_world (empty_session\<lparr>booking_user_id := Some 5\<rparr>)))))"
    by (simp add: survey_post_def survey_questions_def claim_world_def empty_session_def Let_def)
  show ?thesis using survey_post_keeps_one_answer [OF h e] .
qed

text \<open>
  An anonymous visitor's submission writes nothing to the store: the
  non-empty answers are appended to the session's staged answers.
\<close>

theorem survey_post_anonymous_stages:
  assumes "\<not> truthy_id (booking_user_id (sess w))"
    and "survey_questions (wdb w) (booking_event_id (sess w)) = Inr qs"
  shows "\<exists>w'. survey_post form w = Inr (Redirect NextStep, w') \<and> wdb w' = wdb w \<and>
           bd_answers (booking_data (sess w')) =
             bd_answers (booking_data (sess w)) @ collect_answers form qs"
  using assms by (simp add: survey_post_def Let_def)

theorem survey_post_anonymous_stages_witness:
  "\<exists>w'. survey_post (answer_form ''yes'') (survey_world empty_session) = Inr (Redirect NextStep, w') \<and>
        wdb w' = survey_db \<and> bd_answers (booking_data (sess w')) = [\<lparr>sa_question = 1, sa_answer = ''yes''\<rparr>]"
proof -
  have h: "\<not> truthy_id (booking_user_id (sess (survey_world empty_session)))"
          "survey_questions (wdb (survey_world empty_session)) (booking_event_id (sess (survey_world empty_session))) =
           Inr (questions survey_db)"
    by (simp_all add: survey_world_def empty_session_def survey_questions_def survey_db_def)
  have c: "collect_answers (answer_form ''yes'') (questions survey_db) = [\<lparr>sa_question = 1, sa_answer = ''yes''\<rparr>]"
    by (simp add: collect_answers_def answer_form_def survey_db_def)
  show ?thesis
    using survey_post_anonymous_stages [OF h, of "answer_form ''yes''"] c
    by (simp add: survey_world_def empty_session_def empty_bdata_def)
qed

text \<open>
  C22: a session that still carries the identifier of an event that no longer
  exists makes the survey step fail: \<open>event.group_id\<close> is read on \<open>None\<close>.
\<close>

theorem survey_post_stale_event_fails:
  assumes "booking_event_id (sess w) = Some e" and "e \<noteq> 0" and "get_event (wdb w) e = None"
  shows "survey_post form w = Inl AttributeError"
  using assms by (simp add: survey_post_def survey_questions_def Let_def)

theorem survey_post_stale_event_fails_witness:
  "survey_post (answer_form ''yes'') (survey_world (empty_session\<lparr>booking_event_id := Some 3\<rparr>)) =
   Inl AttributeError"
  using survey_post_stale_event_fails [of "survey_world (empty_session\<lparr>booking_event_id := Some 3\<rparr>)" 3]
  by (simp add: survey_world_def survey_db_def claim_db_def get_event_def)

text \<open>
  The questions shown are exactly the active survey questions that are
  general, or belong to the session's event, or to that event's group, in
  ascending \<open>order\<close>.
\<close>

theorem survey_questions_selection:
  assumes "survey_questions d evt = Inr qs"
  shows "sorted (map q_order qs) \<and>
         set qs = {q \<in> set (questions d). q_active q \<and> q_step q = ''survey'' \<and>
                   ((q_event q = None \<and> q_group q = None) \<or>
                    (truthy_id evt \<and> (q_event q = evt \<or>
                       (\<exists>ev. get_event d (the evt) = Some ev \<and> truthy_id (ev_group ev) \<and>
                             q_group q = ev_group ev))))}"
  using assms
  by (auto simp: survey_questions_def Let_def split: if_splits option.splits)

theorem survey_questions_selection_witness:
  "sorted (map q_order (questions survey_db)) \<and>
   set (questions survey_db) =
     {q \<in> set (questions survey_db). q_active q \<and> q_step q = ''survey'' \<and>
        ((q_event q = None \<and> q_group q = None) \<or>
         (truthy_id None \<and> (q_event q = None \<or>
            (\<exists>ev. get_event survey_db (the None) = Some ev \<and> truthy_id (ev_group ev) \<and> q_group q = ev_group ev))))}"
  using survey_questions_selection [of survey_db None "questions survey_db"]
  by (simp add: survey_questions_def survey_db_def)

section \<open>Staged answers and the anonymous flush\<close>

lemma foldl_add_answer_questions:
  "map question_id (answers (foldl (add_answer u appt) d xs)) = map question_id (answers d) @ map sa_question xs"
  by (induction xs arbitrary: d) (simp_all add: add_answer_def)

lemma flush_slot_answers:
  "flush_slot lib u w = Inr w' \<Longrightarrow>
     answers (wdb w') = answers (wdb w) \<and> bd_answers (booking_data (sess w')) = bd_answers (booking_data (sess w))"
  by (auto simp: flush_slot_def Let_def dest!: insert_appointment_frame split: option.splits if_splits sum.splits)

lemma flush_session_data_questions:
  "flush_session_data lib u w = Inr w' \<Longrightarrow>
     map question_id (answers (wdb w')) =
       map question_id (answers (wdb w)) @ map sa_question (bd_answers (booking_data (sess w)))"
  by (auto simp: flush_session_data_def flush_answers_def Let_def foldl_add_answer_questions
           dest!: flush_slot_answers split: sum.splits)

lemma survey_post_anonymous:
  assumes "\<not> truthy_id (booking_user_id (sess w))" and "survey_post f w = Inr (r, w')"
  shows "\<exists>qs. survey_questions (wdb w) (booking_event_id (sess w)) = Inr qs \<and> wdb w' = wdb w \<and>
              booking_user_id (sess w') = booking_user_id (sess w) \<and> booking_event_id (sess w') = booking_event_id (sess w) \<and>
              bd_answers (booking_data (sess w')) = bd_answers (booking_data (sess w)) @ collect_answers f qs"
  using assms by (auto simp: survey_post_def Let_def split: sum.splits)

lemma collect_answers_count:
  "q \<in> set (map q_id qs) \<Longrightarrow> truthy_str (f q) \<Longrightarrow> 0 < count_list (map sa_question (collect_answers f qs)) q"
  by (induction qs) (auto simp: collect_answers_def)

text \<open>
  C23: staged answers are appended, not upserted: when an anonymous visitor
  answers a shown question in two survey submissions, the flush that
  \<open>select_slot\<close> runs for the anonymous visitor inserts at least two answer
  rows for that question (the identified path would update one row).
\<close>

theorem anonymous_resubmit_duplicates_answers:
  assumes "\<not> truthy_id (booking_user_id (sess w))"
    and "survey_questions (wdb w) (booking_event_id (sess w)) = Inr qs" and "q \<in> set (map q_id qs)"
    and "truthy_str (f1 q)" and "truthy_str (f2 q)"
    and "survey_post f1 w = Inr (r1, w1)" and "survey_post f2 w1 = Inr (r2, w2)"
    and "flush_session_data lib None w2 = Inr w3"
  shows "count_list (map question_id (answers (wdb w3))) q \<ge> count_list (map question_id (answers (wdb w))) q + 2"
proof -
  obtain qs1 where s1: "survey_questions (wdb w) (booking_event_id (sess w)) = Inr qs1" and d1: "wdb w1 = wdb w"
    and u1: "booking_user_id (sess w1) = booking_user_id (sess w)"
    and e1: "booking_event_id (sess w1) = booking_event_id (sess w)"
    and b1: "bd_answers (booking_data (sess w1)) = bd_answers (booking_data (sess w)) @ collect_answers f1 qs1"
    using survey_post_anonymous [OF assms(1,6)] by blast
  obtain qs2 where s2: "survey_questions (wdb w1) (booking_event_id (sess w1)) = Inr qs2"
    and d2: "wdb w2 = wdb w1"
    and b2: "bd_answers (booking_data (sess w2)) = bd_answers (booking_data (sess w1)) @ collect_answers f2 qs2"
  proof -
    have "\<not> truthy_id (booking_user_id (sess w1))" using assms(1) u1 by simp
    then show ?thesis using survey_post_anonymous [OF _ assms(7)] that by blast
  qed
  have q1: "qs1 = qs" and q2: "qs2 = qs" using s1 s2 assms(2) d1 e1 by simp_all
  have "0 < count_list (map sa_question (collect_answers f1 qs)) q"
       "0 < count_list (map sa_question (collect_answers f2 qs)) q"
    using collect_answers_count assms(3,4,5) by blast+
  then show ?thesis
    using flush_session_data_questions [OF assms(8)] b1 b2 d1 d2 q1 q2 by simp
qed

theorem anonymous_resubmit_duplicates_answers_witness:
  "survey_post (answer_form ''yes'') (survey_world empty_session) =
     Inr (Redirect NextStep, survey_world (empty_session\<lparr>booking_data := \<lparr>bd_slot = None,
            bd_answers = [\<lparr>sa_question = 1, sa_answer = ''yes''\<rparr>]\<rparr>\<rparr>)) \<and>
   survey_post (answer_form ''no'') (survey_world (empty_session\<lparr>booking_data := \<lparr>bd_slot = None,
            bd_answers = [\<lparr>sa_question = 1, sa_answer = ''yes''\<rparr>]\<rparr>\<rparr>)) =
     Inr (Redirect NextStep, survey_world (empty_session\<lparr>booking_data := \<lparr>bd_slot = None,
            bd_answers = [\<lparr>sa_question = 1, sa_answer = ''yes''\<rparr>, \<lparr>sa_question = 1, sa_answer = ''no''\<rparr>]\<rparr>\<rparr>)) \<and>
   (\<exists>w3. flush_session_data claim_lib None (survey_world (empty_session\<lparr>booking_data := \<lparr>bd_slot = None,
            bd_answers = [\<lparr>sa_question = 1, sa_answer = ''yes''\<rparr>, \<lparr>sa_question = 1, sa_answer = ''no''\<rparr>]\<rparr>\<rparr>)) = Inr w3 \<and>
          2 \<le> count_list (map question_id (answers (wdb w3))) 1)"
proof -
  let ?w = "survey_world empty_session"
  let ?w1 = "survey_world (empty_session\<lparr>booking_data := \<lparr>bd_slot = None,
            bd_answers = [\<lparr>sa_question = 1, sa_answer = ''yes''\<rparr>]\<rparr>\<rparr>)"
  let ?w2 = "survey_world (empty_session\<lparr>booking_data := \<lparr>bd_slot = None,
            bd_answers = [\<lparr>sa_question = 1, sa_answer = ''yes''\<rparr>, \<lparr>sa_question = 1, sa_answer = ''no''\<rparr>]\<rparr>\<rparr>)"
  let ?qs = "[\<lparr>q_id = 1, q_active = True, q_step = ''survey'', q_event = None, q_group = None, q_order = 1\<rparr>]"
  have h1: "\<not> truthy_id (booking_user_id (sess ?w))" by code_simp
  have h2: "survey_questions (wdb ?w) (booking_event_id (sess ?w)) = Inr ?qs" by code_simp
  have p1: "survey_post (answer_form ''yes'') ?w = Inr (Redirect NextStep, ?w1)" by code_simp
  have p2: "survey_post (answer_form ''no'') ?w1 = Inr (Redirect NextStep, ?w2)" by code_simp
  have "flush_slot claim_lib None ?w2 = Inr ?w2"
    by (simp add: flush_slot_def survey_world_def)
  then obtain w3 where f: "flush_session_data claim_lib None ?w2 = Inr w3"
    by (simp add: flush_session_data_def)
  have a0: "count_list (map question_id (answers (wdb ?w))) 1 = 0"
    by code_simp
  have "count_list (map question_id (answers (wdb w3))) 1 \<ge> count_list (map question_id (answers (wdb ?w))) 1 + 2"
    by (rule anonymous_resubmit_duplicates_answers [OF h1 h2 _ _ _ p1 p2 f]) (simp_all add: answer_form_def truthy_str_def)
  then show ?thesis using p1 p2 f a0 by simp
qed

end
