(* ===== verification/Import.thy ===== *)
theory Import
  imports Complex_Main Prelude "HOL-Library.AList" "HOL-Library.Char_ord" "HOL-Library.List_Lexorder"
begin

text \<open>
  The offline CSV preparation script \<open>src/scripts/prepare_import_data.py\<close>:
  its row parsers (\<open>parse_date\<close>, \<open>clean_amount\<close>), the payment-type
  classification, and the processing of one sales row into the user, program
  and payment tables it accumulates (dictionaries in insertion order, as
  association lists updated in place). Strings are UTF-8 byte lists;
  \<open>str.lower\<close> is modelled on ASCII and on the two-byte Latin-1 capitals
  (which covers the deposit keyword, spelt with an n-tilde). The agenda
  pre-pass, and the four files the script writes as rows of cells; opening
  files and CSV quoting are I/O and not modelled.
\<close>

section \<open>String helpers\<close>

definition ascii_lower :: "char \<Rightarrow> char" where
  "ascii_lower c = (if (65::nat) \<le> of_char c \<and> of_char c \<le> (90::nat) then char_of (of_char c + (32::nat)) else c)"

fun py_lower :: "string \<Rightarrow> string" where
  "py_lower [] = []"
| "py_lower [c] = [ascii_lower c]"
| "py_lower (c # d # cs) =
     (if c = CHR 0xC3 \<and> (128::nat) \<le> of_char d \<and> of_char d \<le> (158::nat) \<and> of_char d \<noteq> (151::nat)
      then c # char_of (of_char d + (32::nat)) # py_lower cs
      else ascii_lower c # py_lower (d # cs))"

text \<open>\<open>pat in s\<close> for strings.\<close>

fun py_contains :: "string \<Rightarrow> string \<Rightarrow> bool" where
  "py_contains pat [] = (pat = [])"
| "py_contains pat (c # cs) = (take (length pat) (c # cs) = pat \<or> py_contains pat cs)"

text \<open>The keyword of deposits (s, e, n with tilde, a) in UTF-8.\<close>

definition kw_sena :: string where
  "kw_sena = ''se'' @ [CHR 0xC3, CHR 0xB1] @ ''a''"

section \<open>Row parsers\<close>

text \<open>
  \<open>datetime.strptime(s, '%d/%m/%Y')\<close>: day and month of one or two digits,
  a four-digit year, and a day that exists in that month; anything else
  raises \<open>ValueError\<close> and \<open>parse_date\<close> returns \<open>None\<close>. A date is
  (year, month, day).
\<close>

type_synonym date = "int \<times> int \<times> int"

definition leap :: "int \<Rightarrow> bool" where
  "leap y \<longleftrightarrow> (y mod 4 = 0 \<and> y mod 100 \<noteq> 0) \<or> y mod 400 = 0"

definition month_days :: "int \<Rightarrow> int \<Rightarrow> int" where
  "month_days y m =
     (if m = 2 then (if leap y then 29 else 28)
      else if m \<in> {4, 6, 9, 11} then 30 else 31)"

text \<open>The fields of a date string between separators.\<close>

fun split_on :: "char \<Rightarrow> string \<Rightarrow> string list" where
  "split_on sep [] = [[]]"
| "split_on sep (c # cs) =
     (if c = sep then [] # split_on sep cs
      else (case split_on sep cs of p # ps \<Rightarrow> (c # p) # ps | [] \<Rightarrow> [[c]]))"

definition num_field :: "nat \<Rightarrow> nat \<Rightarrow> string \<Rightarrow> int option" where
  "num_field lo hi s = (if lo \<le> length s \<and> length s \<le> hi \<and> list_all is_digit s then Some (digits_val s) else None)"

definition parse_date :: "string \<Rightarrow> date option" where
  "parse_date s =
     (case split_on CHR ''/'' s of
        [ds, ms, ys] \<Rightarrow>
          (case (num_field 1 2 ds, num_field 1 2 ms, num_field 4 4 ys) of
             (Some d, Some m, Some y) \<Rightarrow>
               if 1 \<le> m \<and> m \<le> 12 \<and> 1 \<le> y \<and> 1 \<le> d \<and> d \<le> month_days y m then Some (y, m, d) else None
           | _ \<Rightarrow> None)
      | _ \<Rightarrow> None)"

text \<open>
  \<open>strftime('%Y-%m-%d')\<close>: month and day zero-padded; the year is printed by
  the C library's \<open>%Y\<close>, which on glibc does not pad years below 1000
  (the behaviour of CPython 3.11 and 3.12; the result depends on the runtime).
\<close>

definition pad2 :: "int \<Rightarrow> string" where
  "pad2 n = [char_of (48 + nat n div 10), char_of (48 + nat n mod 10)]"

definition fmt_iso :: "date \<Rightarrow> string" where
  "fmt_iso dt = (case dt of (y, m, d) \<Rightarrow> dec_str (nat y) @ ''-'' @ pad2 m @ ''-'' @ pad2 d)"

text \<open>\<open>datetime.strptime(s, '%Y-%m-%d')\<close>: a four-digit year.\<close>

definition parse_iso :: "string \<Rightarrow> date option" where
  "parse_iso s =
     (case split_on CHR ''-'' s of
        [ys, ms, ds] \<Rightarrow>
          (case (num_field 4 4 ys, num_field 1 2 ms, num_field 1 2 ds) of
             (Some y, Some m, Some d) \<Rightarrow>
               if 1 \<le> m \<and> m \<le> 12 \<and> 1 \<le> y \<and> 1 \<le> d \<and> d \<le> month_days y m then Some (y, m, d) else None
           | _ \<Rightarrow> None)
      | _ \<Rightarrow> None)"

text \<open>The order of dates: \<open>dt_obj > today\<close> compares the midnight of a date with now.\<close>

definition date_key :: "date \<Rightarrow> int" where
  "date_key dt = (case dt of (y, m, d) \<Rightarrow> y * 10000 + m * 100 + d)"

text \<open>
  \<open>float(s)\<close> on decimal literals: blanks, a sign, digits with an optional
  fraction, an optional exponent. (\<open>inf\<close>, \<open>nan\<close> and digit underscores are
  outside the model and give \<open>None\<close>; amounts are exact rationals.)
\<close>

definition py_float :: "string \<Rightarrow> rat option" where
  "py_float s =
     (let t = py_strip s;
          (sg, u) = (case t of
                       c # r \<Rightarrow> if c = CHR ''-'' then (-1::int, r) else if c = CHR ''+'' then (1, r) else (1, t)
                     | [] \<Rightarrow> (1, []));
          a = takeWhile is_digit u; r1 = drop (length a) u;
          f = (if r1 \<noteq> [] \<and> hd r1 = CHR ''.'' then takeWhile is_digit (tl r1) else []);
          r2 = (if r1 \<noteq> [] \<and> hd r1 = CHR ''.'' then drop (length f) (tl r1) else r1);
          ex = (if r2 = [] then Some 0
                else if hd r2 = CHR ''e'' \<or> hd r2 = CHR ''E'' then py_int (tl r2) else None)
      in if (a = [] \<and> f = []) \<or> ex = None
            \<or> (r2 \<noteq> [] \<and> (tl r2 = [] \<or> py_strip (tl r2) \<noteq> tl r2)) then None
         else Some (of_int sg * of_int (digits_val (a @ f)) / of_nat (10 ^ length f) *
                    (if the ex \<ge> 0 then of_nat (10 ^ nat (the ex)) else 1 / of_nat (10 ^ nat (- the ex)))))"

text \<open>\<open>clean_amount\<close>: empty is 0, else \<open>float\<close> after removing thousands separators.\<close>

definition clean_amount :: "string \<Rightarrow> rat option" where
  "clean_amount s = (if s = [] then Some 0 else py_float (py_replace '','' [] s))"

section \<open>Payment classification\<close>

datatype pay_type = Deposit | DownPayment | Full | Installment

definition classify_payment :: "string \<Rightarrow> rat \<Rightarrow> pay_type" where
  "classify_payment raw amount =
     (let r = py_lower raw in
      if py_contains kw_sena r then Deposit
      else if py_contains ''primer pago'' r then (if amount \<le> 100 then Deposit else DownPayment)
      else if py_contains ''completo'' r then Full
      else if py_contains ''cuota'' r then Installment
      else Installment)"


section \<open>Processing a sales row\<close>

text \<open>A row of the sales CSV (the columns the script reads, header complete).\<close>

record sale_row =
  r_email :: string
  r_date :: string
  r_name :: string
  r_phone :: string
  r_program :: string
  r_amount :: string
  r_pago :: string
  r_method :: string
  r_closer :: string

record urec =
  ur_username :: string
  ur_email :: string
  ur_phone :: string
  ur_instagram :: string
  ur_last_program :: string
  ur_paid :: bool

record payment =
  p_email :: string
  p_program :: string
  p_amount :: rat
  p_date :: string
  p_type :: pay_type
  p_method :: string
  p_closer :: string
  p_raw :: string

text \<open>The script's three accumulators: \<open>users\<close>, \<open>programs\<close>, \<open>payments\<close>.\<close>

record istate =
  i_users :: "(string \<times> urec) list"
  i_programs :: "(string \<times> rat) list"
  i_payments :: "payment list"

definition empty_istate :: istate where
  "empty_istate = \<lparr>i_users = [], i_programs = [], i_payments = []\<rparr>"

definition norm_method :: "string \<Rightarrow> string" where
  "norm_method m = (if m \<in> {''PayPal'', ''Stripe'', ''Hotmart''} then m else ''Otro'')"

text \<open>The user record of a row: created, or updated only with non-empty values.\<close>

definition merge_user :: "(string \<times> urec) list \<Rightarrow> string \<Rightarrow> string \<Rightarrow> string \<Rightarrow> string \<Rightarrow> string \<Rightarrow>
                          (string \<times> urec) list" where
  "merge_user us real_email fullname phone insta prog =
     (case map_of us real_email of
        None \<Rightarrow> AList.update real_email
                 \<lparr>ur_username = (if fullname \<noteq> [] then fullname else takeWhile (\<lambda>c. c \<noteq> CHR ''@'') real_email),
                  ur_email = real_email, ur_phone = phone, ur_instagram = insta,
                  ur_last_program = prog, ur_paid = False\<rparr> us
      | Some u \<Rightarrow> AList.update real_email
                 (u\<lparr>ur_username := (if fullname \<noteq> [] then fullname else ur_username u),
                    ur_phone := (if phone \<noteq> [] then phone else ur_phone u),
                    ur_instagram := (if insta \<noteq> [] then insta else ur_instagram u),
                    ur_last_program := (if prog \<noteq> [] then prog else ur_last_program u)\<rparr>) us)"

text \<open>The program price table: a full payment above the current maximum raises it; a new name starts at 0.\<close>

definition update_programs :: "(string \<times> rat) list \<Rightarrow> string \<Rightarrow> pay_type \<Rightarrow> rat \<Rightarrow> (string \<times> rat) list" where
  "update_programs ps prog ty amount =
     (if prog = [] then ps
      else (let cur = (case map_of ps prog of None \<Rightarrow> 0 | Some v \<Rightarrow> v) in
            if ty = Full \<and> amount > cur then AList.update prog amount ps
            else if map_of ps prog = None then AList.update prog 0 ps
            else ps))"

definition mark_paid :: "(string \<times> urec) list \<Rightarrow> string \<Rightarrow> pay_type \<Rightarrow> (string \<times> urec) list" where
  "mark_paid us e ty =
     (if ty \<noteq> Deposit
      then (case map_of us e of None \<Rightarrow> us | Some u \<Rightarrow> AList.update e (u\<lparr>ur_paid := True\<rparr>) us)
      else us)"

text \<open>
  One iteration of the sales loop: skipped rows leave the state; a malformed
  amount raises \<open>ValueError\<close>, which ends the script.
\<close>

definition process_sale :: "date \<Rightarrow> string list \<Rightarrow> istate \<Rightarrow> sale_row \<Rightarrow> py_error + istate" where
  "process_sale today allowed st r =
     (let em = py_lower (py_strip (r_email r)) in
      if em = [] \<or> em \<notin> set allowed then Inr st
      else (case parse_date (r_date r) of
              None \<Rightarrow> Inr st
            | Some dt0 \<Rightarrow>
               (let date_iso = fmt_iso dt0 in
                case parse_iso date_iso of
                  None \<Rightarrow> Inl ValueError
                | Some dt \<Rightarrow>
                if date_key dt > date_key today then Inr st
                else
                  (let fullname = py_strip (r_name r); phone = py_strip (r_phone r);
                       insta = (if CHR ''@'' \<notin> set em then em else []);
                       real_email = (if CHR ''@'' \<notin> set em then ''no_email_'' @ em @ ''@example.com'' else em);
                       prog = py_strip (r_program r);
                       us = merge_user (i_users st) real_email fullname phone insta prog
                   in case clean_amount (r_amount r) of
                        None \<Rightarrow> Inl ValueError
                      | Some amount \<Rightarrow>
                          (let raw = py_strip (r_pago r); ty = classify_payment raw amount in
                           Inr \<lparr>i_users = mark_paid us real_email ty,
                                i_programs = update_programs (i_programs st) prog ty amount,
                                i_payments = i_payments st @
                                  [\<lparr>p_email = real_email, p_program = prog, p_amount = amount, p_date = date_iso,
                                    p_type = ty, p_method = norm_method (r_method r), p_closer = r_closer r,
                                    p_raw = raw\<rparr>]\<rparr>)))))"

fun process_sales :: "date \<Rightarrow> string list \<Rightarrow> istate \<Rightarrow> sale_row list \<Rightarrow> py_error + istate" where
  "process_sales today allowed st [] = Inr st"
| "process_sales today allowed st (r # rs) =
     (case process_sale today allowed st r of
        Inl e \<Rightarrow> Inl e
      | Inr st' \<Rightarrow> process_sales today allowed st' rs)"

text \<open>The \<open>role\<close> column written for a user.\<close>

definition user_role :: "urec \<Rightarrow> string" where
  "user_role u = (if ur_paid u then ''student'' else ''lead'')"


section \<open>Invariants of the accumulators\<close>

text \<open>
  The \<open>role\<close> written for a user is \<open>student\<close> exactly when some payment of
  that user is not a deposit; every payment belongs to a known user.
\<close>

definition paid_inv :: "(string \<times> urec) list \<Rightarrow> payment list \<Rightarrow> bool" where
  "paid_inv us ps \<longleftrightarrow>
     (\<forall>p\<in>set ps. p_email p \<in> fst ` set us) \<and>
     (\<forall>e\<in>fst ` set us. ur_paid (the (map_of us e)) = (\<exists>p\<in>set ps. p_email p = e \<and> p_type p \<noteq> Deposit))"

text \<open>The price a program should have: the largest full payment for it, and at least 0.\<close>

definition price_spec :: "payment list \<Rightarrow> string \<Rightarrow> rat" where
  "price_spec ps n = foldl max 0 (map p_amount (filter (\<lambda>p. p_program p = n \<and> p_type p = Full) ps))"

definition prog_inv :: "(string \<times> rat) list \<Rightarrow> payment list \<Rightarrow> bool" where
  "prog_inv progs ps \<longleftrightarrow>
     [] \<notin> fst ` set progs \<and>
     (\<forall>p\<in>set ps. p_program p \<noteq> [] \<longrightarrow> p_program p \<in> fst ` set progs) \<and>
     (\<forall>n\<in>fst ` set progs. the (map_of progs n) = price_spec ps n)"

definition istate_inv :: "istate \<Rightarrow> bool" where
  "istate_inv st \<longleftrightarrow> paid_inv (i_users st) (i_payments st) \<and> prog_inv (i_programs st) (i_payments st)"

section \<open>The agenda pre-pass\<close>

text \<open>
  A row of the agendas CSV and the entry the script keeps for it. Entries are
  sorted by their \<open>created_at\<close> string, newest first (\<open>sort(reverse=True)\<close>
  is stable: equal keys keep their order), the first 1000 are kept, and the
  first entry of each email wins. Strings compare bytewise, which for UTF-8
  is the code-point order Python uses.
\<close>

record agenda_row =
  a_mail :: string
  a_registro :: string
  a_nombre :: string
  a_whatsapp :: string
  a_instagram :: string
  a_closer :: string

record agenda =
  ag_email :: string
  ag_username :: string
  ag_created :: string
  ag_phone :: string
  ag_instagram :: string
  ag_closer :: string
  ag_role :: string

definition process_agenda_row :: "date \<Rightarrow> agenda list \<Rightarrow> agenda_row \<Rightarrow> py_error + agenda list" where
  "process_agenda_row today acc r =
     (let em = py_lower (py_strip (a_mail r)) in
      if em = [] then Inr acc
      else (case parse_date (a_registro r) of
              None \<Rightarrow> Inr acc
            | Some dt0 \<Rightarrow>
                (let date_iso = fmt_iso dt0 in
                 case parse_iso date_iso of
                   None \<Rightarrow> Inl ValueError
                 | Some dt \<Rightarrow>
                     if date_key dt > date_key today then Inr acc
                     else Inr (acc @ [\<lparr>ag_email = em, ag_username = py_strip (a_nombre r), ag_created = date_iso,
                                        ag_phone = py_strip (a_whatsapp r), ag_instagram = py_strip (a_instagram r),
                                        ag_closer = py_strip (a_closer r), ag_role = ''lead''\<rparr>]))))"

fun process_agendas :: "date \<Rightarrow> agenda list \<Rightarrow> agenda_row list \<Rightarrow> py_error + agenda list" where
  "process_agendas today acc [] = Inr acc"
| "process_agendas today acc (r # rs) =
     (case process_agenda_row today acc r of
        Inl e \<Rightarrow> Inl e
      | Inr acc' \<Rightarrow> process_agendas today acc' rs)"

text \<open>\<open>sort(key=created_at, reverse=True)\<close>: stable, descending.\<close>

definition sort_desc_created :: "agenda list \<Rightarrow> agenda list" where
  "sort_desc_created xs = rev (sort_key ag_created (rev xs))"

definition dedup_agendas :: "agenda list \<Rightarrow> (string \<times> agenda) list" where
  "dedup_agendas es =
     foldl (\<lambda>m e. if map_of m (ag_email e) = None then AList.update (ag_email e) e m else m) [] es"

text \<open>
  The pre-pass: the agenda rows (\<open>None\<close> when the file does not exist)
  give the kept entries and the allowed emails.
\<close>

definition agenda_pass :: "date \<Rightarrow> agenda_row list option \<Rightarrow> py_error + (string \<times> agenda) list" where
  "agenda_pass today rows =
     (case rows of
        None \<Rightarrow> Inr []
      | Some rs \<Rightarrow>
          (case process_agendas today [] rs of
             Inl e \<Rightarrow> Inl e
           | Inr entries \<Rightarrow> Inr (dedup_agendas (take 1000 (sort_desc_created entries)))))"

text \<open>\<open>process_csv\<close> up to the CSV writing: the sales loop over the allowed emails.\<close>

definition process_csv :: "date \<Rightarrow> agenda_row list option \<Rightarrow> sale_row list \<Rightarrow>
                           py_error + ((string \<times> agenda) list \<times> istate)" where
  "process_csv today agenda_rows sales_rows =
     (case agenda_pass today agenda_rows of
        Inl e \<Rightarrow> Inl e
      | Inr m \<Rightarrow>
          (case process_sales today (map fst m) empty_istate sales_rows of
             Inl e \<Rightarrow> Inl e
           | Inr st \<Rightarrow> Inr (m, st)))"

section \<open>Writing the cleaned files\<close>

text \<open>
  \<open>csv.DictWriter\<close>: the header, then each row's values in the order of
  \<open>fieldnames\<close>. A cell is a string or a float; the CSV quoting is I/O and not
  modelled.
\<close>

datatype cell = SCell string | FCell rat

definition pay_type_str :: "pay_type \<Rightarrow> string" where
  "pay_type_str t = (case t of Deposit \<Rightarrow> ''deposit'' | DownPayment \<Rightarrow> ''down_payment''
                     | Full \<Rightarrow> ''full'' | Installment \<Rightarrow> ''installment'')"

definition agendas_csv :: "(string \<times> agenda) list \<Rightarrow> cell list list" where
  "agendas_csv m =
     map SCell [''email'', ''username'', ''created_at'', ''phone'', ''instagram'', ''closer'', ''role''] #
     map (\<lambda>(em, a). map SCell [ag_email a, ag_username a, ag_created a, ag_phone a, ag_instagram a,
                                ag_closer a, ag_role a]) m"

definition users_csv :: "(string \<times> urec) list \<Rightarrow> cell list list" where
  "users_csv us =
     map SCell [''username'', ''email'', ''phone'', ''instagram'', ''role'', ''program_interest''] #
     map (\<lambda>(em, u). map SCell [ur_username u, ur_email u, ur_phone u, ur_instagram u, user_role u,
                                ur_last_program u]) us"

definition programs_csv :: "(string \<times> rat) list \<Rightarrow> cell list list" where
  "programs_csv ps = [SCell ''name'', SCell ''price''] # map (\<lambda>(n, p). [SCell n, FCell p]) ps"

definition payments_csv :: "payment list \<Rightarrow> cell list list" where
  "payments_csv ps =
     map SCell [''email'', ''program'', ''amount'', ''date'', ''type'', ''method'', ''closer'', ''raw_type''] #
     map (\<lambda>p. [SCell (p_email p), SCell (p_program p), FCell (p_amount p), SCell (p_date p),
               SCell (pay_type_str (p_type p)), SCell (p_method p), SCell (p_closer p), SCell (p_raw p)]) ps"

text \<open>
  \<open>process_csv\<close> with its output: the files written under \<open>data_import\<close>, in
  the order the script writes them, and the exception that aborted it. The
  agenda file is written right after the pre-pass, before the sales file is
  read.
\<close>

definition process_csv_files :: "date \<Rightarrow> agenda_row list option \<Rightarrow> sale_row list \<Rightarrow>
                                 (string \<times> cell list list) list \<times> py_error option" where
  "process_csv_files today agenda_rows sales_rows =
     (case agenda_pass today agenda_rows of
        Inl e \<Rightarrow> ([], Some e)
      | Inr m \<Rightarrow>
          (let f1 = [(''agendas_clean.csv'', agendas_csv m)] in
           case process_sales today (map fst m) empty_istate sales_rows of
             Inl e \<Rightarrow> (f1, Some e)
           | Inr st \<Rightarrow>
               (f1 @ [(''users_clean.csv'', users_csv (i_users st)),
                      (''programs_clean.csv'', programs_csv (i_programs st)),
                      (''payments_clean.csv'', payments_csv (i_payments st))], None)))"

text \<open>A fixture for the witnesses (not code): one agenda entry.\<close>

definition sample_agenda :: agenda_row where
  "sample_agenda = \<lparr>a_mail = ''bo@x.com'', a_registro = ''1/9/2024'', a_nombre = ''Bo'', a_whatsapp = '''',
                    a_instagram = '''', a_closer = ''c''\<rparr>"

section \<open>Example rows\<close>

text \<open>A fixture for the witnesses (not code): one full payment row and the state it produces.\<close>

definition sample_row :: sale_row where
  "sample_row = \<lparr>r_email = ''Bo@x.com'', r_date = ''3/9/2024'', r_name = ''Bo'', r_phone = '''',
     r_program = ''P1'', r_amount = ''900'', r_pago = ''Completo'', r_method = ''Stripe'', r_closer = ''c''\<rparr>"

definition sample_state :: istate where
  "sample_state =
     \<lparr>i_users = [(''bo@x.com'', \<lparr>ur_username = ''Bo'', ur_email = ''bo@x.com'', ur_phone = [], ur_instagram = [],
                                 ur_last_program = ''P1'', ur_paid = True\<rparr>)],
      i_programs = [(''P1'', 900)],
      i_payments = [\<lparr>p_email = ''bo@x.com'', p_program = ''P1'', p_amount = 900, p_date = ''2024-09-03'',
                      p_type = Full, p_method = ''Stripe'', p_closer = ''c'', p_raw = ''Completo''\<rparr>]\<rparr>"

section \<open>Printing and parsing dates\<close>

lemma split_on_no_sep: "sep \<notin> set a \<Longrightarrow> split_on sep a = [a]"
  by (induction a) auto

lemma split_on_append: "sep \<notin> set a \<Longrightarrow> split_on sep (a @ sep # b) = a # split_on sep b"
  by (induction a) (auto split: list.split)

lemma digits_val_snoc: "digits_val (xs @ [c]) = 10 * digits_val xs + digit_val c"
  by (simp add: digits_val_def)

lemma digit_char [simp]:
  assumes "k < 10"
  shows "is_digit (char_of (48 + k)) \<and> digit_val (char_of (48 + k)) = int k \<and>
         CHR ''-'' \<noteq> char_of (48 + k)"
proof -
  have o: "of_char (char_of (48 + k)) = 48 + k" using assms by (simp add: of_char_of)
  have "CHR ''-'' \<noteq> char_of (48 + k)"
  proof
    assume "CHR ''-'' = char_of (48 + k)"
    then have "(of_char (CHR ''-'') :: nat) = of_char (char_of (48 + k))" by simp
    then show False using o by simp
  qed
  then show ?thesis using assms o by (simp add: is_digit_def digit_val_def)
qed

lemma dec_str_digits:
  "list_all is_digit (dec_str n) \<and> digits_val (dec_str n) = int n \<and> CHR ''-'' \<notin> set (dec_str n)"
proof (induction n rule: dec_str.induct)
  case (1 n)
  show ?case
  proof (cases "n < 10")
    case True
    then show ?thesis by (simp add: dec_str.simps digits_val_def)
  next
    case False
    then show ?thesis using 1 by (simp add: dec_str.simps [of n] digits_val_snoc zdiv_int zmod_int)
  qed
qed

lemma dec_str_length:
  "0 < k \<Longrightarrow> (n < 10 ^ k \<longleftrightarrow> length (dec_str n) \<le> k)"
proof (induction k arbitrary: n)
  case 0
  then show ?case by simp
next
  case (Suc k)
  show ?case
  proof (cases "n < 10")
    case True
    show ?thesis
    proof -
      have "n < 10 * 10 ^ k" using True one_le_power [of "10::nat" k] by linarith
      then show ?thesis using True by (simp add: dec_str.simps)
    qed
  next
    case False
    have len: "length (dec_str n) = length (dec_str (n div 10)) + 1"
      using False by (simp add: dec_str.simps [of n])
    have e: "n < 10 ^ Suc k \<longleftrightarrow> n div 10 < 10 ^ k"
      by (simp add: div_less_iff_less_mult mult.commute)
    show ?thesis
    proof (cases "k = 0")
      case True
      have "0 < length (dec_str (n div 10))" by (simp add: dec_str.simps [of "n div 10"])
      then show ?thesis using True False len by simp
    next
      case False
      then show ?thesis using Suc.IH [of "n div 10"] e len by simp
    qed
  qed
qed

lemma digits_val_bound:
  "list_all is_digit xs \<Longrightarrow> 0 \<le> digits_val xs \<and> digits_val xs < 10 ^ length xs"
proof (induction xs rule: rev_induct)
  case Nil
  then show ?case by (simp add: digits_val_def)
next
  case (snoc c xs)
  then have "0 \<le> digit_val c" "digit_val c \<le> 9"
    by (auto simp: is_digit_def digit_val_def)
  then show ?case using snoc by (simp add: digits_val_snoc)
qed

lemma pad2_digits:
  assumes "0 \<le> n" and "n < 100"
  shows "num_field 1 2 (pad2 n) = Some n \<and> CHR ''-'' \<notin> set (pad2 n)"
proof -
  have "nat n div 10 < 10" "nat n mod 10 < 10" using assms by auto
  then show ?thesis
    using assms by (simp add: pad2_def num_field_def digits_val_def zdiv_int zmod_int)
qed

lemma month_days_le: "month_days y m \<le> 31"
  by (simp add: month_days_def)

lemma parse_date_valid:
  "parse_date s = Some (y, m, d) \<Longrightarrow>
     1 \<le> y \<and> y < 10000 \<and> 1 \<le> m \<and> m \<le> 12 \<and> 1 \<le> d \<and> d \<le> month_days y m"
  using digits_val_bound [of "hd (split_on CHR ''/'' s)"]
  by (auto simp: parse_date_def num_field_def split: list.splits option.splits if_splits
           dest: digits_val_bound)

lemma fmt_iso_split:
  "0 \<le> m \<Longrightarrow> m < 100 \<Longrightarrow> 0 \<le> d \<Longrightarrow> d < 100 \<Longrightarrow>
   split_on CHR ''-'' (fmt_iso (y, m, d)) = [dec_str (nat y), pad2 m, pad2 d]"
  using dec_str_digits [of "nat y"] pad2_digits [of m] pad2_digits [of d]
  by (simp add: fmt_iso_def split_on_append split_on_no_sep)

lemma num_field_year:
  "num_field 4 4 (dec_str (nat y)) = (if 1000 \<le> y \<and> y < 10000 then Some y else None)" if "1 \<le> y"
proof -
  have "length (dec_str (nat y)) \<le> 4 \<longleftrightarrow> y < 10000"
    using dec_str_length [of 4 "nat y"] that by (simp add: nat_less_iff)
  moreover have "length (dec_str (nat y)) \<le> 3 \<longleftrightarrow> y < 1000"
    using dec_str_length [of 3 "nat y"] that by (simp add: nat_less_iff)
  ultimately show ?thesis
    using that dec_str_digits [of "nat y"] by (auto simp: num_field_def)
qed

section \<open>The user table\<close>

lemma merge_user_dom: "fst ` set (merge_user us e fn ph ig pr) = insert e (fst ` set us)"
  by (simp add: merge_user_def dom_update split: option.split)

lemma merge_user_other: "x \<noteq> e \<Longrightarrow> map_of (merge_user us e fn ph ig pr) x = map_of us x"
  by (simp add: merge_user_def update_conv' split: option.split)

lemma merge_user_paid:
  "map_of (merge_user us e fn ph ig pr) e =
     Some u' \<Longrightarrow> ur_paid u' = (case map_of us e of None \<Rightarrow> False | Some u \<Rightarrow> ur_paid u)"
  by (auto simp: merge_user_def update_conv' split: option.splits)

lemma merge_user_in: "\<exists>u. map_of (merge_user us e fn ph ig pr) e = Some u"
  by (simp add: merge_user_def update_conv' split: option.split)

lemma mark_paid_dom: "fst ` set (mark_paid us e ty) = fst ` set us"
proof -
  have "map_of us e = Some u \<Longrightarrow> e \<in> fst ` set us" for u
    by (metis domI dom_map_of_conv_image_fst)
  then show ?thesis by (auto simp: mark_paid_def dom_update split: option.split)
qed

lemma mark_paid_map:
  "map_of (mark_paid us e ty) x =
     (if x = e \<and> ty \<noteq> Deposit then map_option (\<lambda>u. u\<lparr>ur_paid := True\<rparr>) (map_of us x) else map_of us x)"
  by (auto simp: mark_paid_def update_conv' split: option.split)

lemma map_of_the_in: "e \<in> fst ` set us \<Longrightarrow> map_of us e = Some (the (map_of us e))"
  by (metis domIff dom_map_of_conv_image_fst option.collapse)

lemma paid_inv_step:
  assumes inv: "paid_inv us ps" and pe: "p_email p = e"
  shows "paid_inv (mark_paid (merge_user us e fn ph ig pr) e (p_type p)) (ps @ [p])"
proof -
  let ?us1 = "merge_user us e fn ph ig pr"
  let ?us2 = "mark_paid ?us1 e (p_type p)"
  have dom: "fst ` set ?us2 = insert e (fst ` set us)"
    by (simp add: mark_paid_dom merge_user_dom)
  have old: "\<forall>q\<in>set ps. p_email q \<in> fst ` set us"
    and paid: "\<forall>x\<in>fst ` set us. ur_paid (the (map_of us x)) =
                 (\<exists>q\<in>set ps. p_email q = x \<and> p_type q \<noteq> Deposit)"
    using inv by (auto simp: paid_inv_def)
  have at_e: "ur_paid (the (map_of ?us2 e)) = (\<exists>q\<in>set (ps @ [p]). p_email q = e \<and> p_type q \<noteq> Deposit)"
  proof -
    obtain u' where u': "map_of ?us1 e = Some u'" using merge_user_in by blast
    have "ur_paid u' = (\<exists>q\<in>set ps. p_email q = e \<and> p_type q \<noteq> Deposit)"
    proof (cases "e \<in> fst ` set us")
      case True
      obtain u0 where u0: "map_of us e = Some u0" using map_of_the_in [OF True] by blast
      then have "ur_paid u' = ur_paid (the (map_of us e))" using merge_user_paid [OF u'] by simp
      then show ?thesis using paid True by simp
    next
      case False
      then have "map_of us e = None" by (simp add: map_of_eq_None_iff)
      then have "\<not> ur_paid u'" using merge_user_paid [OF u'] by simp
      moreover have "\<not> (\<exists>q\<in>set ps. p_email q = e \<and> p_type q \<noteq> Deposit)" using old False by blast
      ultimately show ?thesis by blast
    qed
    then show ?thesis using u' pe by (auto simp: mark_paid_map)
  qed
  have others: "x \<noteq> e \<Longrightarrow> map_of ?us2 x = map_of us x" for x
    by (simp add: mark_paid_map merge_user_other)
  show ?thesis
    unfolding paid_inv_def
  proof (intro conjI ballI)
    fix q assume "q \<in> set (ps @ [p])"
    then show "p_email q \<in> fst ` set ?us2" using old pe dom by auto
  next
    fix x assume x: "x \<in> fst ` set ?us2"
    show "ur_paid (the (map_of ?us2 x)) = (\<exists>q\<in>set (ps @ [p]). p_email q = x \<and> p_type q \<noteq> Deposit)"
    proof (cases "x = e")
      case True
      then show ?thesis using at_e by simp
    next
      case False
      then show ?thesis using x dom paid others [OF False] pe by auto
    qed
  qed
qed

section \<open>The program table\<close>

lemma price_spec_snoc:
  "price_spec (ps @ [p]) n =
     (if p_program p = n \<and> p_type p = Full then max (price_spec ps n) (p_amount p) else price_spec ps n)"
  by (simp add: price_spec_def)

lemma price_spec_none: "\<forall>p\<in>set ps. p_program p \<noteq> n \<Longrightarrow> price_spec ps n = 0"
proof -
  assume "\<forall>p\<in>set ps. p_program p \<noteq> n"
  then have "filter (\<lambda>p. p_program p = n \<and> p_type p = Full) ps = []" by (simp add: filter_empty_conv)
  then show ?thesis by (simp add: price_spec_def)
qed

lemma prog_current:
  assumes "prog_inv progs ps" and "pr \<noteq> []"
  shows "(case map_of progs pr of None \<Rightarrow> 0 | Some v \<Rightarrow> v) = price_spec ps pr"
proof (cases "map_of progs pr")
  case None
  then have "pr \<notin> fst ` set progs" by (simp add: map_of_eq_None_iff)
  then have "\<forall>p\<in>set ps. p_program p \<noteq> pr" using assms unfolding prog_inv_def by blast
  then show ?thesis using None price_spec_none by simp
next
  case (Some v)
  then have "pr \<in> fst ` set progs" by (metis domI dom_map_of_conv_image_fst)
  then show ?thesis using Some assms unfolding prog_inv_def by auto
qed

lemma update_programs_at:
  assumes "prog_inv progs ps" and "p_program p = pr" and "p_type p = ty" and "p_amount p = a" and "pr \<noteq> []"
  shows "map_of (update_programs progs pr ty a) pr = Some (price_spec (ps @ [p]) pr)"
proof -
  let ?cur = "case map_of progs pr of None \<Rightarrow> 0 | Some v \<Rightarrow> v"
  have cur: "?cur = price_spec ps pr" using prog_current [OF assms(1,5)] .
  show ?thesis
    using assms cur
    by (auto simp: update_programs_def price_spec_snoc update_conv' Let_def max_def split: option.splits)
qed

lemma update_programs_other:
  "n \<noteq> pr \<Longrightarrow> map_of (update_programs progs pr ty a) n = map_of progs n"
  by (simp add: update_programs_def update_conv' Let_def)

lemma update_programs_dom:
  "fst ` set (update_programs progs pr ty a) = (if pr = [] then fst ` set progs else insert pr (fst ` set progs))"
proof -
  have "map_of progs pr = Some v \<Longrightarrow> pr \<in> fst ` set progs" for v
    by (metis domI dom_map_of_conv_image_fst)
  then show ?thesis by (auto simp: update_programs_def dom_update Let_def split: option.splits)
qed

lemma prog_inv_step:
  assumes inv: "prog_inv progs ps"
  shows "prog_inv (update_programs progs (p_program p) (p_type p) (p_amount p)) (ps @ [p])"
proof -
  let ?pr = "p_program p"
  let ?progs' = "update_programs progs ?pr (p_type p) (p_amount p)"
  have dom: "fst ` set ?progs' = (if ?pr = [] then fst ` set progs else insert ?pr (fst ` set progs))"
    by (rule update_programs_dom)
  have old: "[] \<notin> fst ` set progs" "\<forall>q\<in>set ps. p_program q \<noteq> [] \<longrightarrow> p_program q \<in> fst ` set progs"
    "\<forall>n\<in>fst ` set progs. the (map_of progs n) = price_spec ps n"
    using inv by (auto simp: prog_inv_def)
  have val: "the (map_of ?progs' n) = price_spec (ps @ [p]) n" if n: "n \<in> fst ` set ?progs'" for n
  proof (cases "n = ?pr")
    case True
    then have "?pr \<noteq> []" using n dom old(1) by (auto split: if_splits)
    then show ?thesis using update_programs_at [OF inv refl refl refl] True by simp
  next
    case False
    then have "n \<in> fst ` set progs" using n dom by (auto split: if_splits)
    then have "the (map_of progs n) = price_spec ps n" using old(3) by blast
    then show ?thesis using False update_programs_other [OF False] price_spec_snoc [of ps p n] by simp
  qed
  show ?thesis
    unfolding prog_inv_def using dom old val by (auto split: if_splits)
qed

lemma istate_inv_empty: "istate_inv empty_istate"
  by (simp add: istate_inv_def empty_istate_def paid_inv_def prog_inv_def)

lemma fmt_iso_parse:
  assumes "1 \<le> y" and "y < 10000" and "1 \<le> m" and "m \<le> 12" and "1 \<le> d" and "d \<le> month_days y m"
  shows "parse_iso (fmt_iso (y, m, d)) = (if 1000 \<le> y then Some (y, m, d) else None)"
proof -
  have "m < 100" "d < 100" using assms month_days_le [of y m] by linarith+
  then show ?thesis
    using assms fmt_iso_split [of m d y] pad2_digits [of m] pad2_digits [of d] num_field_year [of y]
    by (simp add: parse_iso_def)
qed

section \<open>The sales loop\<close>

lemma istate_inv_record:
  assumes "istate_inv st" and "p_email p = e" and "p_type p = ty" and "p_program p = pr" and "p_amount p = a"
  shows "istate_inv \<lparr>i_users = mark_paid (merge_user (i_users st) e fn ph ig pr') e ty,
                     i_programs = update_programs (i_programs st) pr ty a,
                     i_payments = i_payments st @ [p]\<rparr>"
  using assms paid_inv_step [of "i_users st" "i_payments st" p e] prog_inv_step [of "i_programs st" "i_payments st" p]
  by (simp add: istate_inv_def)

lemma process_sale_inv:
  "istate_inv st \<Longrightarrow> process_sale today allowed st r = Inr st' \<Longrightarrow> istate_inv st'"
  by (auto simp: process_sale_def Let_def split: if_splits option.splits intro!: istate_inv_record)

lemma process_sales_inv:
  "istate_inv st \<Longrightarrow> process_sales today allowed st rows = Inr st' \<Longrightarrow> istate_inv st'"
proof (induction rows arbitrary: st)
  case Nil
  then show ?case by simp
next
  case (Cons r rows)
  then show ?case by (auto split: sum.splits dest: process_sale_inv)
qed

section \<open>The agenda pre-pass\<close>

lemma update_new_key: "map_of al k = None \<Longrightarrow> AList.update k v al = al @ [(k, v)]"
  by (induction al) (auto split: if_splits)

lemma dedup_agendas_snoc:
  "dedup_agendas (es @ [e]) =
     (if map_of (dedup_agendas es) (ag_email e) = None
      then AList.update (ag_email e) e (dedup_agendas es) else dedup_agendas es)"
  by (simp add: dedup_agendas_def)

lemma dedup_agendas_lookup:
  "map_of (dedup_agendas es) k = List.find (\<lambda>e. ag_email e = k) es \<and>
   distinct (map fst (dedup_agendas es)) \<and> length (dedup_agendas es) \<le> length es"
proof (induction es arbitrary: k rule: rev_induct)
  case Nil
  then show ?case by (simp add: dedup_agendas_def)
next
  case (snoc e es)
  have "map_of (dedup_agendas es) = (\<lambda>k. List.find (\<lambda>e. ag_email e = k) es)"
  proof
    fix k show "map_of (dedup_agendas es) k = List.find (\<lambda>e. ag_email e = k) es"
      using snoc.IH [of k] by blast
  qed
  note m = this
  show ?case
  proof (cases "map_of (dedup_agendas es) (ag_email e)")
    case None
    have d: "dedup_agendas (es @ [e]) = dedup_agendas es @ [(ag_email e, e)]"
      using None by (simp add: dedup_agendas_snoc update_new_key)
    have "ag_email e \<notin> set (map fst (dedup_agendas es))" using None by (simp add: map_of_eq_None_iff)
    then show ?thesis
      using snoc.IH [of k] None m d by (auto simp: map_add_def split: option.split)
  next
    case (Some v)
    then show ?thesis using snoc.IH [of k] m by (auto simp: dedup_agendas_snoc split: option.split)
  qed
qed

lemma agenda_pass_newest:
  assumes "agenda_pass today (Some rs) = Inr m" and "process_agendas today [] rs = Inr entries"
  shows "length m \<le> 1000 \<and> distinct (map fst m) \<and>
         (\<forall>k. map_of m k = List.find (\<lambda>e. ag_email e = k) (take 1000 (sort_desc_created entries)))"
proof -
  have m: "m = dedup_agendas (take 1000 (sort_desc_created entries))"
    using assms by (simp add: agenda_pass_def)
  have "length (dedup_agendas (take 1000 (sort_desc_created entries))) \<le> 1000"
    using dedup_agendas_lookup [of "take 1000 (sort_desc_created entries)"] by simp
  then show ?thesis using m dedup_agendas_lookup by simp
qed

section \<open>Claims\<close>

text \<open>
  C24: the \<open>role\<close> column the script writes is \<open>student\<close> exactly for the users
  with a payment that is not a deposit, whatever the rows.
\<close>

theorem process_sales_roles:
  assumes "process_sales today allowed empty_istate rows = Inr st" and "map_of (i_users st) e = Some u"
  shows "user_role u = ''student'' \<longleftrightarrow> (\<exists>p\<in>set (i_payments st). p_email p = e \<and> p_type p \<noteq> Deposit)"
proof -
  have "paid_inv (i_users st) (i_payments st)"
    using process_sales_inv [OF istate_inv_empty assms(1)] by (simp add: istate_inv_def)
  moreover have "e \<in> fst ` set (i_users st)" using assms(2) by (metis domI dom_map_of_conv_image_fst)
  ultimately show ?thesis using assms(2) by (auto simp: paid_inv_def user_role_def)
qed

lemma sample_eval:
  "process_sales (2025, 1, 1) [''bo@x.com''] empty_istate [sample_row] = Inr sample_state"
  by code_simp

theorem process_sales_roles_witness:
  "user_role (the (map_of (i_users sample_state) ''bo@x.com'')) = ''student''"
proof -
  have u: "map_of (i_users sample_state) ''bo@x.com'' = Some (the (map_of (i_users sample_state) ''bo@x.com''))"
    by (simp add: sample_state_def)
  have p: "\<exists>p\<in>set (i_payments sample_state). p_email p = ''bo@x.com'' \<and> p_type p \<noteq> Deposit"
    by (simp add: sample_state_def)
  show ?thesis using process_sales_roles [OF sample_eval u] p by blast
qed

text \<open>
  C25: the program table the script accumulates row by row equals the
  reference definition: each listed program's price is the largest full
  payment for it (and at least 0), and every program named by a payment is
  listed.
\<close>

theorem process_sales_program_prices:
  assumes "process_sales today allowed empty_istate rows = Inr st"
  shows "(\<forall>n v. map_of (i_programs st) n = Some v \<longrightarrow> v = price_spec (i_payments st) n) \<and>
         (\<forall>p\<in>set (i_payments st). p_program p \<noteq> [] \<longrightarrow> map_of (i_programs st) (p_program p) \<noteq> None)"
proof -
  have inv: "prog_inv (i_programs st) (i_payments st)"
    using process_sales_inv [OF istate_inv_empty assms] by (simp add: istate_inv_def)
  have "map_of (i_programs st) n = Some v \<Longrightarrow> v = price_spec (i_payments st) n" for n v
  proof -
    assume s: "map_of (i_programs st) n = Some v"
    then have "n \<in> fst ` set (i_programs st)" by (metis domI dom_map_of_conv_image_fst)
    then show ?thesis using inv s unfolding prog_inv_def by fastforce
  qed
  moreover have "\<forall>p\<in>set (i_payments st). p_program p \<noteq> [] \<longrightarrow> map_of (i_programs st) (p_program p) \<noteq> None"
    using inv unfolding prog_inv_def by (simp add: map_of_eq_None_iff)
  ultimately show ?thesis by blast
qed

theorem process_sales_program_prices_witness:
  "map_of (i_programs sample_state) ''P1'' = Some 900 \<and> price_spec (i_payments sample_state) ''P1'' = 900"
proof -
  have m: "map_of (i_programs sample_state) ''P1'' = Some 900" by (simp add: sample_state_def)
  show ?thesis using process_sales_program_prices [OF sample_eval] m by simp
qed

text \<open>
  C26: printing a parsed date with \<open>strftime('%Y-%m-%d')\<close> and parsing it back
  gives the same date for years from 1000 on; for an earlier year the C
  library prints fewer than four year digits and the second \<open>strptime\<close>
  fails.
\<close>

theorem date_iso_roundtrip:
  assumes "parse_date s = Some dt"
  shows "parse_iso (fmt_iso dt) = (if 1000 \<le> fst dt then Some dt else None)"
proof -
  obtain y m d where dt: "dt = (y, m, d)" by (cases dt) auto
  show ?thesis using fmt_iso_parse parse_date_valid [OF assms [unfolded dt]] dt by simp
qed

theorem date_iso_roundtrip_witness:
  "parse_iso (fmt_iso (the (parse_date ''2/9/2024''))) = Some (2024, 9, 2) \<and>
   parse_iso (fmt_iso (the (parse_date ''2/9/0999''))) = None"
proof -
  have a: "parse_date ''2/9/2024'' = Some (2024, 9, 2)" by code_simp
  have b: "parse_date ''2/9/0999'' = Some (999, 9, 2)" by code_simp
  show ?thesis using date_iso_roundtrip [OF a] date_iso_roundtrip [OF b] a b by simp
qed

text \<open>
  C27: a sales row aborts the script only with \<open>ValueError\<close>, and only when
  it is processed (allowed email, valid date not in the future) and either its
  amount is not a number after removing commas or its year is below 1000.
\<close>

theorem process_sale_error_cases:
  assumes "process_sale today allowed st r = Inl err"
  shows "err = ValueError \<and> py_lower (py_strip (r_email r)) \<in> set allowed \<and>
         (\<exists>y m d. parse_date (r_date r) = Some (y, m, d) \<and>
            (y < 1000 \<or> (date_key (y, m, d) \<le> date_key today \<and> clean_amount (r_amount r) = None)))"
proof -
  obtain y m d where pd: "parse_date (r_date r) = Some (y, m, d)"
    using assms by (auto simp: process_sale_def Let_def split: if_splits option.splits)
  have iso: "parse_iso (fmt_iso (y, m, d)) = (if 1000 \<le> y then Some (y, m, d) else None)"
    using fmt_iso_parse parse_date_valid [OF pd] by simp
  show ?thesis
    using assms pd iso by (auto simp: process_sale_def Let_def split: if_splits option.splits)
qed

theorem process_sale_error_cases_witness:
  "process_sale (2025, 1, 1) [''bo@x.com''] empty_istate (sample_row\<lparr>r_date := ''2/9/0999''\<rparr>) = Inl ValueError \<and>
   parse_date ''2/9/0999'' = Some (999, 9, 2)"
proof -
  have e: "process_sale (2025, 1, 1) [''bo@x.com''] empty_istate (sample_row\<lparr>r_date := ''2/9/0999''\<rparr>) =
           Inl ValueError" by code_simp
  have "\<exists>y m d. parse_date ''2/9/0999'' = Some (y, m, d) \<and> y < 1000 \<or> True"
    using process_sale_error_cases [OF e] by simp
  moreover have "parse_date ''2/9/0999'' = Some (999, 9, 2)" by code_simp
  ultimately show ?thesis using e by simp
qed

section \<open>The written files\<close>

lemma process_csv_files_ok:
  "process_csv today ar sr = Inr (m, st) \<Longrightarrow>
   process_csv_files today ar sr =
     ([(''agendas_clean.csv'', agendas_csv m), (''users_clean.csv'', users_csv (i_users st)),
       (''programs_clean.csv'', programs_csv (i_programs st)), (''payments_clean.csv'', payments_csv (i_payments st))],
      None)"
  by (simp add: process_csv_def process_csv_files_def split: sum.splits)

text \<open>
  C35: an aborted import leaves a partial output: when the sales loop
  raises after a successful pre-pass (a year below 1000, a malformed amount),
  \<open>agendas_clean.csv\<close> has already been written and none of the users,
  programs or payments files is, so the output directory mixes this run's
  agendas with an earlier run's other files.
\<close>

theorem import_abort_keeps_agendas_file:
  assumes "agenda_pass today ar = Inr m" and "process_sales today (map fst m) empty_istate sr = Inl e"
  shows "process_csv_files today ar sr = ([(''agendas_clean.csv'', agendas_csv m)], Some e)"
  using assms by (simp add: process_csv_files_def)

theorem import_abort_keeps_agendas_file_witness:
  "\<exists>m. process_csv_files (2025, 1, 1) (Some [sample_agenda]) [sample_row\<lparr>r_date := ''2/9/0999''\<rparr>] =
       ([(''agendas_clean.csv'', agendas_csv m)], Some ValueError)"
proof -
  let ?m = "[(''bo@x.com'', \<lparr>ag_email = ''bo@x.com'', ag_username = ''Bo'', ag_created = ''2024-09-01'',
                             ag_phone = [], ag_instagram = [], ag_closer = ''c'', ag_role = ''lead''\<rparr>)]"
  have a: "agenda_pass (2025, 1, 1) (Some [sample_agenda]) = Inr ?m" by code_simp
  have s: "process_sales (2025, 1, 1) (map fst ?m) empty_istate [sample_row\<lparr>r_date := ''2/9/0999''\<rparr>] = Inl ValueError"
    by code_simp
  show ?thesis using import_abort_keeps_agendas_file [OF a s] by blast
qed

end
