(* ===== verification/Admin.thy ===== *)
theory Admin
  imports Import
begin

text \<open>
  The computations of the admin blueprint that are not SQL text:
  \<open>calculate_commission\<close> (\<open>src/app/admin/utils.py\<close>), the KPI totals and
  rates of \<open>closer_stats\<close> and the reporting window of \<open>dashboard\<close>
  (\<open>src/app/admin/routes.py\<close>). Dates are the (year, month, day) triples of
  the import theory; \<open>timedelta(days=k)\<close> is \<open>k\<close> steps of the proleptic
  Gregorian successor or predecessor. Amounts are exact rationals.
\<close>

section \<open>Calendar steps\<close>

definition succ_date :: "date \<Rightarrow> date" where
  "succ_date dt = (case dt of (y, m, d) \<Rightarrow>
     if d < month_days y m then (y, m, d + 1) else if m < 12 then (y, m + 1, 1) else (y + 1, 1, 1))"

definition pred_date :: "date \<Rightarrow> date" where
  "pred_date dt = (case dt of (y, m, d) \<Rightarrow>
     if 1 < d then (y, m, d - 1) else if 1 < m then (y, m - 1, month_days y (m - 1)) else (y - 1, 12, 31))"

definition add_days :: "nat \<Rightarrow> date \<Rightarrow> date" where
  "add_days k dt = (succ_date ^^ k) dt"

definition sub_days :: "nat \<Rightarrow> date \<Rightarrow> date" where
  "sub_days k dt = (pred_date ^^ k) dt"

definition date_day :: "date \<Rightarrow> int" where
  "date_day dt = (case dt of (y, m, d) \<Rightarrow> d)"

section \<open>The dashboard window\<close>

text \<open>
  \<open>start = today.replace(day=1)\<close>; \<open>next_month = today.replace(day=28) +
  timedelta(days=4)\<close>; \<open>end = next_month - timedelta(days=next_month.day)\<close>.
\<close>

definition month_window :: "date \<Rightarrow> date \<times> date" where
  "month_window today = (case today of (y, m, d) \<Rightarrow>
     (let next_month = add_days 4 (y, m, 28)
      in ((y, m, 1), sub_days (nat (date_day next_month)) next_month)))"

text \<open>
  The period argument (\<open>None\<close> when absent, defaulting to \<open>this_month\<close>),
  the custom bounds, and the period the page reports. A custom bound that does
  not parse falls back to the current month.
\<close>

definition dashboard_window :: "string option \<Rightarrow> string option \<Rightarrow> string option \<Rightarrow> date \<Rightarrow>
                                 date \<times> date \<times> string" where
  "dashboard_window period_arg s_arg e_arg today =
     (let period = (case period_arg of None \<Rightarrow> ''this_month'' | Some p \<Rightarrow> p);
          mw = month_window today
      in if period = ''custom'' \<and> truthy_str s_arg \<and> truthy_str e_arg then
           (case (parse_iso (the s_arg), parse_iso (the e_arg)) of
              (Some a, Some b) \<Rightarrow> (a, b, period)
            | _ \<Rightarrow> (fst mw, snd mw, ''this_month''))
         else if period = ''last_3_months'' then (sub_days 90 today, today, period)
         else (fst mw, snd mw, ''this_month''))"

section \<open>Commission\<close>

record pay_method =
  commission_percent :: rat
  commission_fixed :: rat

definition calculate_commission :: "rat \<Rightarrow> pay_method option \<Rightarrow> rat" where
  "calculate_commission amount meth =
     (case meth of
        Some pm \<Rightarrow> amount * (commission_percent pm / 100) + commission_fixed pm
      | None \<Rightarrow> 0)"

section \<open>Closer statistics\<close>

text \<open>A \<open>CloserDailyStats\<close> row; its counters are nullable columns.\<close>

record stat_row =
  sr_date :: date
  sr_closer :: uid
  sr_scheduled :: "int option"
  sr_completed :: "int option"
  sr_no_show :: "int option"
  sr_canceled :: "int option"
  sr_sales_count :: "int option"
  sr_sales_amount :: "rat option"
  sr_cash :: "rat option"
  sr_self_generated :: "int option"

record stat_totals =
  t_scheduled :: int
  t_completed :: int
  t_no_show :: int
  t_canceled :: int
  t_sales_count :: int
  t_sales_amount :: rat
  t_cash :: rat
  t_self_generated :: int

definition zero_totals :: stat_totals where
  "zero_totals = \<lparr>t_scheduled = 0, t_completed = 0, t_no_show = 0, t_canceled = 0, t_sales_count = 0,
                  t_sales_amount = 0, t_cash = 0, t_self_generated = 0\<rparr>"

text \<open>\<open>x or 0\<close> on a nullable counter.\<close>

definition or0 :: "'a::zero option \<Rightarrow> 'a" where
  "or0 x = (case x of None \<Rightarrow> 0 | Some v \<Rightarrow> v)"

definition add_row :: "stat_totals \<Rightarrow> stat_row \<Rightarrow> stat_totals" where
  "add_row t r =
     t\<lparr>t_scheduled := t_scheduled t + or0 (sr_scheduled r),
       t_completed := t_completed t + or0 (sr_completed r),
       t_no_show := t_no_show t + or0 (sr_no_show r),
       t_canceled := t_canceled t + or0 (sr_canceled r),
       t_sales_count := t_sales_count t + or0 (sr_sales_count r),
       t_sales_amount := t_sales_amount t + or0 (sr_sales_amount r),
       t_cash := t_cash t + or0 (sr_cash r),
       t_self_generated := t_self_generated t + or0 (sr_self_generated r)\<rparr>"

definition safe_div :: "int \<Rightarrow> int \<Rightarrow> rat" where
  "safe_div n d = (if d > 0 then of_int n / of_int d * 100 else 0)"

record stat_kpis =
  show_rate :: rat
  closing_rate :: rat
  avg_ticket :: rat

definition kpis_of :: "stat_totals \<Rightarrow> stat_kpis" where
  "kpis_of t =
     \<lparr>show_rate = safe_div (t_completed t) (t_scheduled t),
      closing_rate = safe_div (t_sales_count t) (t_completed t),
      avg_ticket = (if t_sales_count t > 0 then t_sales_amount t / of_int (t_sales_count t) else 0)\<rparr>"

text \<open>
  \<open>closer_stats\<close>: the date arguments default to thirty days ago and today
  and are parsed without a guard (\<open>ValueError\<close> otherwise); a non-empty
  \<open>closer_id\<close> goes through \<open>int()\<close>; the rows of the window, newest first.
\<close>

definition closer_stats ::
  "date \<Rightarrow> string option \<Rightarrow> string option \<Rightarrow> string option \<Rightarrow> stat_row list \<Rightarrow>
   py_error + (stat_row list \<times> stat_totals \<times> stat_kpis)" where
  "closer_stats today s_arg e_arg c_arg rows =
     (let s_str = (case s_arg of None \<Rightarrow> fmt_iso (sub_days 30 today) | Some s \<Rightarrow> s);
          e_str = (case e_arg of None \<Rightarrow> fmt_iso today | Some e \<Rightarrow> e);
          c_str = (case c_arg of None \<Rightarrow> [] | Some c \<Rightarrow> c)
      in case (parse_iso s_str, parse_iso e_str) of
           (Some sd, Some ed) \<Rightarrow>
             (let in_window = filter (\<lambda>r. date_key sd \<le> date_key (sr_date r) \<and> date_key (sr_date r) \<le> date_key ed) rows
              in if c_str = [] then
                   (let sel = sort_key (\<lambda>r. - date_key (sr_date r)) in_window;
                        t = foldl add_row zero_totals sel
                    in Inr (sel, t, kpis_of t))
                 else (case py_int c_str of
                         None \<Rightarrow> Inl ValueError
                       | Some c \<Rightarrow>
                           (let sel = sort_key (\<lambda>r. - date_key (sr_date r)) (filter (\<lambda>r. sr_closer r = c) in_window);
                                t = foldl add_row zero_totals sel
                            in Inr (sel, t, kpis_of t))))
         | _ \<Rightarrow> Inl ValueError)"

text \<open>A fixture for the witnesses (not code): two days of one closer.\<close>

definition stats_rows :: "stat_row list" where
  "stats_rows =
     [\<lparr>sr_date = (2024, 5, 2), sr_closer = 1, sr_scheduled = Some 4, sr_completed = Some 3, sr_no_show = Some 1,
       sr_canceled = None, sr_sales_count = Some 1, sr_sales_amount = Some 500, sr_cash = Some 250,
       sr_self_generated = None\<rparr>,
      \<lparr>sr_date = (2024, 5, 3), sr_closer = 1, sr_scheduled = Some 2, sr_completed = None, sr_no_show = None,
       sr_canceled = Some 2, sr_sales_count = None, sr_sales_amount = None, sr_cash = None,
       sr_self_generated = Some 1\<rparr>]"

section \<open>Calendar lemmas\<close>

lemma month_days_cases: "month_days y m \<in> {28, 29, 30, 31}"
  by (simp add: month_days_def)

lemma add_days_4: "add_days 4 dt = succ_date (succ_date (succ_date (succ_date dt)))"
  by (simp add: add_days_def numeral_eq_Suc)

lemma sub_days_small:
  "sub_days (Suc 0) dt = pred_date dt"
  "sub_days 1 dt = pred_date dt"
  "sub_days 2 dt = pred_date (pred_date dt)"
  "sub_days 3 dt = pred_date (pred_date (pred_date dt))"
  "sub_days 4 dt = pred_date (pred_date (pred_date (pred_date dt)))"
  by (simp_all add: sub_days_def numeral_eq_Suc)

lemma month_window_exact:
  assumes "1 \<le> m" and "m \<le> 12"
  shows "month_window (y, m, d) = ((y, m, 1), (y, m, month_days y m))"
proof -
  have md: "month_days y m \<in> {28, 29, 30, 31}" "month_days y (m + 1) \<in> {28, 29, 30, 31}"
    by (rule month_days_cases)+
  have jan: "month_days (y + 1) 1 = 31" "month_days y 12 = 31" by (simp_all add: month_days_def)
  show ?thesis
  proof (cases "m = 12")
    case True
    then show ?thesis
      using md jan by (auto simp: month_window_def Let_def add_days_4 sub_days_small succ_date_def
                                  pred_date_def date_day_def)
  next
    case False
    then show ?thesis
      using md assms by (auto simp: month_window_def Let_def add_days_4 sub_days_small succ_date_def
                                    pred_date_def date_day_def)
  qed
qed

section \<open>Statistics lemmas\<close>

lemma foldl_add_row_completed:
  assumes "\<forall>r\<in>set rs. 0 \<le> or0 (sr_completed r) \<and> or0 (sr_completed r) \<le> or0 (sr_scheduled r)"
    and "0 \<le> t_completed t" and "t_completed t \<le> t_scheduled t"
  shows "0 \<le> t_completed (foldl add_row t rs) \<and> t_completed (foldl add_row t rs) \<le> t_scheduled (foldl add_row t rs)"
  using assms
proof (induction rs arbitrary: t)
  case Nil
  then show ?case by simp
next
  case (Cons r rs)
  have "0 \<le> t_completed (add_row t r)" "t_completed (add_row t r) \<le> t_scheduled (add_row t r)"
    using Cons.prems by (auto simp: add_row_def)
  then show ?case using Cons.IH Cons.prems(1) by simp
qed

lemma safe_div_bounds:
  assumes "0 \<le> n" and "n \<le> d"
  shows "0 \<le> safe_div n d \<and> safe_div n d \<le> 100"
proof (cases "d > 0")
  case True
  have "rat_of_int n \<le> rat_of_int d" using assms(2) by simp
  then have "rat_of_int n * 100 \<le> 100 * rat_of_int d" by simp
  then show ?thesis using True assms(1) by (simp add: safe_div_def pos_divide_le_eq)
next
  case False
  then show ?thesis by (simp add: safe_div_def)
qed

lemma closer_stats_rows:
  "closer_stats today s_arg e_arg c_arg rows = Inr (sel, t, k) \<Longrightarrow>
     set sel \<subseteq> set rows \<and> t = foldl add_row zero_totals sel \<and> k = kpis_of t"
  by (auto simp: closer_stats_def Let_def split: prod.splits option.splits if_splits)

section \<open>Claims\<close>

text \<open>
  C28: the dashboard's default window is the whole current month: from its
  first day to its last (28, 29, 30 or 31, leap years included), whatever
  day today is.
\<close>

theorem dashboard_month_window:
  assumes "p = None \<or> p = Some ''this_month''" and "1 \<le> m" and "m \<le> 12"
  shows "dashboard_window p s e (y, m, d) = ((y, m, 1), (y, m, month_days y m), ''this_month'')"
  using assms month_window_exact [OF assms(2,3), of y d] by (auto simp: dashboard_window_def Let_def)

theorem dashboard_month_window_witness:
  "dashboard_window None None None (2024, 2, 10) = ((2024, 2, 1), (2024, 2, 29), ''this_month'')"
  using dashboard_month_window [of None 2 None None 2024 10] by (simp add: month_days_def leap_def)

text \<open>
  C29: when no row records more completed calls than scheduled ones, the show
  rate of \<open>closer_stats\<close> is a percentage between 0 and 100.
\<close>

theorem closer_stats_show_rate_bounded:
  assumes "\<forall>r\<in>set rows. 0 \<le> or0 (sr_completed r) \<and> or0 (sr_completed r) \<le> or0 (sr_scheduled r)"
    and "closer_stats today s e c rows = Inr (sel, t, k)"
  shows "0 \<le> show_rate k \<and> show_rate k \<le> 100"
proof -
  note r = closer_stats_rows [OF assms(2)]
  have "\<forall>x\<in>set sel. 0 \<le> or0 (sr_completed x) \<and> or0 (sr_completed x) \<le> or0 (sr_scheduled x)"
    using r assms(1) by blast
  then have "0 \<le> t_completed t \<and> t_completed t \<le> t_scheduled t"
    using r foldl_add_row_completed [of sel zero_totals] by (simp add: zero_totals_def)
  then show ?thesis using r safe_div_bounds by (simp add: kpis_of_def)
qed

theorem closer_stats_show_rate_bounded_witness:
  "show_rate (snd (snd (projr (closer_stats (2024, 5, 10) (Some ''2024-05-01'') (Some ''2024-05-10'') None stats_rows)))) = 50"
proof -
  have e: "closer_stats (2024, 5, 10) (Some ''2024-05-01'') (Some ''2024-05-10'') None stats_rows =
           Inr (fst (projr (closer_stats (2024, 5, 10) (Some ''2024-05-01'') (Some ''2024-05-10'') None stats_rows)),
                fst (snd (projr (closer_stats (2024, 5, 10) (Some ''2024-05-01'') (Some ''2024-05-10'') None stats_rows))),
                snd (snd (projr (closer_stats (2024, 5, 10) (Some ''2024-05-01'') (Some ''2024-05-10'') None stats_rows))))"
    by code_simp
  have h: "\<forall>r\<in>set stats_rows. 0 \<le> or0 (sr_completed r) \<and> or0 (sr_completed r) \<le> or0 (sr_scheduled r)"
    by (simp add: stats_rows_def or0_def)
  have v: "show_rate (snd (snd (projr (closer_stats (2024, 5, 10) (Some ''2024-05-01'') (Some ''2024-05-10'') None stats_rows)))) = 50"
    by code_simp
  show ?thesis using closer_stats_show_rate_bounded [OF h e] v by simp
qed

end
