(* ===== verification/AdminUtils.thy ===== *)
theory AdminUtils
  imports Admin Store
begin

text \<open>
  The helpers of \<open>src/app/admin/utils.py\<close> other than
  \<open>calculate_commission\<close> (which is in \<open>Admin\<close>): \<open>apply_date_filters\<close>,
  the \<open>safe_db_operation\<close> decorator, \<open>paginate_query\<close> and
  \<open>calculate_leads_kpis\<close>. The module imports \<open>datetime\<close> and \<open>time\<close> from
  \<open>datetime\<close> but not \<open>timedelta\<close>, and uses \<open>LeadProfile\<close> and \<open>Program\<close>
  without importing them: evaluating those names raises \<open>NameError\<close>, which
  the definitions below make explicit. A query is the list of rows it
  returns, in order. The theory also holds the parts of
  \<open>src/app/admin/routes.py\<close> that read the store's users: the
  \<open>admin_required\<close> decorator, the closer picker of \<open>closer_stats\<close> and the
  tile loop of \<open>dashboard\<close>.
\<close>

section \<open>Date filters\<close>

text \<open>A naive \<open>datetime\<close>: a date and the second of that day.\<close>

type_synonym stamp = "date \<times> nat"

definition stamp_le :: "stamp \<Rightarrow> stamp \<Rightarrow> bool" where
  "stamp_le a b = (case (a, b) of ((d1, s1), (d2, s2)) \<Rightarrow>
     date_key d1 < date_key d2 \<or> (date_key d1 = date_key d2 \<and> s1 \<le> s2))"

text \<open>
  \<open>apply_date_filters(query, start, end, date_field)\<close>: the column read by
  \<open>getattr(entity, date_field)\<close> is the selector \<open>field\<close>. The start bound is
  the midnight of the parsed date; for the end bound \<open>strptime\<close> runs first
  (\<open>ValueError\<close> on a malformed date) and then the unbound \<open>timedelta\<close>
  raises.
\<close>

definition apply_date_filters ::
  "('r \<Rightarrow> stamp) \<Rightarrow> string option \<Rightarrow> string option \<Rightarrow> 'r list \<Rightarrow> py_error + 'r list" where
  "apply_date_filters field s_arg e_arg rows =
     (let q = (if truthy_str s_arg then
                 (case parse_iso (the s_arg) of
                    None \<Rightarrow> Inl ValueError
                  | Some sd \<Rightarrow> Inr (filter (\<lambda>r. stamp_le (sd, 0) (field r)) rows))
               else Inr rows)
      in case q of
           Inl e \<Rightarrow> Inl e
         | Inr rs \<Rightarrow>
             if truthy_str e_arg then
               (case parse_iso (the e_arg) of None \<Rightarrow> Inl ValueError | Some _ \<Rightarrow> Inl NameError)
             else Inr rs)"

section \<open>Rollback on error\<close>

text \<open>
  The session: what is committed and what the open transaction holds.
  \<open>db.session.rollback()\<close> discards the pending changes.
\<close>

record 's txn =
  tx_committed :: 's
  tx_pending :: 's

datatype uflash = OperationError

text \<open>
  \<open>safe_db_operation(f)\<close> applied to one call: the operation returns its
  value or raises, together with the session it leaves; on an exception the
  wrapper rolls back, flashes and returns \<open>None\<close>.
\<close>

definition safe_db_operation ::
  "('s txn \<Rightarrow> (py_error + 'a) \<times> 's txn) \<Rightarrow> 's txn \<Rightarrow> 'a option \<times> 's txn \<times> uflash list" where
  "safe_db_operation op t =
     (case op t of
        (Inr v, t') \<Rightarrow> (Some v, t', [])
      | (Inl e, t') \<Rightarrow> (None, t'\<lparr>tx_pending := tx_committed t'\<rparr>, [OperationError]))"

section \<open>Pagination\<close>

text \<open>
  \<open>query.paginate(page=page, per_page=per_page, error_out=False)\<close> of
  Flask-SQLAlchemy 3: with \<open>error_out=False\<close> a page below 1 is page 1 and a
  \<open>per_page\<close> below 1 is 20; the items are \<open>LIMIT per_page OFFSET (page - 1) *
  per_page\<close>, and \<open>pages\<close> is the ceiling of \<open>total / per_page\<close>.
\<close>

record 'a pagination =
  pg_items :: "'a list"
  pg_page :: int
  pg_per_page :: int
  pg_total :: int

definition paginate_query :: "'a list \<Rightarrow> int \<Rightarrow> int \<Rightarrow> 'a pagination" where
  "paginate_query rows page per_page =
     (let p = (if page < 1 then 1 else page);
          pp = (if per_page < 1 then 20 else per_page)
      in \<lparr>pg_items = take (nat pp) (drop (nat ((p - 1) * pp)) rows),
          pg_page = p, pg_per_page = pp, pg_total = int (length rows)\<rparr>)"

definition pg_pages :: "'a pagination \<Rightarrow> int" where
  "pg_pages pg = (if pg_total pg = 0 then 0 else (pg_total pg + pg_per_page pg - 1) div pg_per_page pg)"

section \<open>Lead KPIs\<close>

text \<open>
  \<open>calculate_leads_kpis(query, start_dt, end_dt)\<close>: \<open>query.count()\<close> runs,
  then the status query names \<open>LeadProfile\<close>, which the module never imports;
  nothing after that line is reached.
\<close>

definition calculate_leads_kpis :: "'r list \<Rightarrow> stamp \<Rightarrow> stamp \<Rightarrow> py_error + (string \<times> int) list" where
  "calculate_leads_kpis rows start_dt end_dt =
     (let total_users = int (length rows) in Inl NameError)"

text \<open>\<open>User.query.filter_by(role='closer').all()\<close>: the closer picker of the page.\<close>

definition stat_closers :: "user list \<Rightarrow> user list" where
  "stat_closers us = filter (\<lambda>u. role u = ''closer'') us"

section \<open>The dashboard\<close>

text \<open>
  \<open>admin_required\<close>: \<open>login_required\<close> runs first (an anonymous visitor is sent
  to the login page), then a non-admin is flashed and redirected to
  \<open>main.index\<close>; otherwise the view runs.
\<close>

datatype 'a guarded = LoginRequired | NoPermission | Allowed 'a

definition admin_required :: "user option \<Rightarrow> 'a \<Rightarrow> 'a guarded" where
  "admin_required cu v = (case cu of None \<Rightarrow> LoginRequired | Some u \<Rightarrow> if role u \<noteq> ''admin'' then NoPermission else Allowed v)"

text \<open>A tile of \<open>tiles_config.json\<close>: its title and its SQL text.\<close>

record tile =
  tile_title :: string
  tile_query :: string

text \<open>\<open>str(date)\<close>: \<open>date.isoformat()\<close>, the year padded to four digits.\<close>

definition pad4 :: "int \<Rightarrow> string" where
  "pad4 n = [char_of (48 + nat n div 1000 mod 10), char_of (48 + nat n div 100 mod 10),
             char_of (48 + nat n div 10 mod 10), char_of (48 + nat n mod 10)]"

definition date_str :: "date \<Rightarrow> string" where
  "date_str dt = (case dt of (y, m, d) \<Rightarrow> pad4 y @ ''-'' @ pad2 m @ ''-'' @ pad2 d)"

text \<open>The placeholder the tile queries carry: \<open>DATE('now', 'start of month')\<close>.\<close>

definition month_placeholder :: string where
  "month_placeholder = ''DATE('' @ [CHR 0x27] @ ''now'' @ [CHR 0x27] @ '', '' @ [CHR 0x27] @
                       ''start of month'' @ [CHR 0x27] @ '')''"

text \<open>
  The tile loop: each query with the placeholder replaced by the quoted
  start date, executed in order (\<open>db.engine.execute(...).fetchone()[0]\<close>,
  the library parameter \<open>ex\<close>; an error aborts the request).
\<close>

fun tiles_loop :: "(string \<Rightarrow> py_error + 'v) \<Rightarrow> date \<Rightarrow> tile list \<Rightarrow> py_error + (string \<times> 'v) list" where
  "tiles_loop ex sd [] = Inr []"
| "tiles_loop ex sd (t # ts) =
     (case ex (py_replace month_placeholder ([CHR 0x27] @ date_str sd @ [CHR 0x27]) (tile_query t)) of
        Inl e \<Rightarrow> Inl e
      | Inr v \<Rightarrow> (case tiles_loop ex sd ts of Inl e \<Rightarrow> Inl e | Inr r \<Rightarrow> Inr ((tile_title t, v) # r)))"

text \<open>
  \<open>dashboard\<close>: the logged-in user, the loaded tile configuration, the
  query executor, the request arguments and \<open>date.today()\<close>. The window's
  end and \<open>start_dt\<close>/\<open>end_dt\<close> are computed and never used.
\<close>

definition dashboard_view ::
  "user option \<Rightarrow> tile list \<Rightarrow> (string \<Rightarrow> py_error + 'v) \<Rightarrow> string option \<Rightarrow> string option \<Rightarrow> string option \<Rightarrow>
   date \<Rightarrow> (py_error + (string \<times> 'v) list) guarded" where
  "dashboard_view cu tiles ex period_arg s_arg e_arg today =
     admin_required cu
       (case dashboard_window period_arg s_arg e_arg today of (start_date, end_date, period) \<Rightarrow>
          tiles_loop ex start_date tiles)"

section \<open>Lemmas on the date filters\<close>

lemma apply_date_filters_no_end:
  assumes "\<not> truthy_str e"
  shows "apply_date_filters field s e rows =
           (if \<not> truthy_str s then Inr rows
            else case parse_iso (the s) of
                   None \<Rightarrow> Inl ValueError
                 | Some sd \<Rightarrow> Inr (filter (\<lambda>r. stamp_le (sd, 0) (field r)) rows))"
  using assms by (simp add: apply_date_filters_def split: option.split)

lemma apply_date_filters_end:
  assumes "truthy_str e"
  shows "apply_date_filters field s e rows =
           (if truthy_str s \<and> parse_iso (the s) = None then Inl ValueError
            else if parse_iso (the e) = None then Inl ValueError else Inl NameError)"
  using assms by (auto simp add: apply_date_filters_def split: option.split)

lemma apply_date_filters_start_sound:
  "apply_date_filters field s e rows = Inr rs \<Longrightarrow> truthy_str s \<Longrightarrow> parse_iso (the s) = Some sd \<Longrightarrow>
   set rs \<subseteq> set rows \<and> (\<forall>r\<in>set rs. stamp_le (sd, 0) (field r))"
  by (cases "truthy_str e") (auto simp: apply_date_filters_end apply_date_filters_no_end split: if_splits)

section \<open>Lemmas on the rollback wrapper\<close>

lemma safe_db_operation_ok:
  "fst (op t) = Inr v \<Longrightarrow> safe_db_operation op t = (Some v, snd (op t), [])"
  by (cases "op t") (simp add: safe_db_operation_def)

lemma safe_db_operation_error:
  "fst (op t) = Inl e \<Longrightarrow>
   safe_db_operation op t = (None, (snd (op t))\<lparr>tx_pending := tx_committed (snd (op t))\<rparr>, [OperationError])"
  by (cases "op t") (simp add: safe_db_operation_def)

section \<open>Lemmas on pagination\<close>

lemma concat_take_drop_pages:
  "concat (map (\<lambda>i. take k (drop (i * k) xs)) [0..<n]) = take (n * k) xs"
proof (induction n)
  case (Suc n)
  have "take (Suc n * k) xs = take (n * k) xs @ take k (drop (n * k) xs)"
    using take_add [of "n * k" k xs] by (simp add: add.commute)
  then show ?case using Suc.IH by simp
qed simp

lemma ceil_div_cover: "0 < (k::int) \<Longrightarrow> L \<le> ((L + k - 1) div k) * k"
proof -
  assume k: "0 < k"
  have "(L + k - 1) div k * k + (L + k - 1) mod k = L + k - 1" by (rule div_mult_mod_eq)
  moreover have "(L + k - 1) mod k < k" using k by (rule pos_mod_bound)
  ultimately show ?thesis by linarith
qed

lemma pages_cover:
  assumes "0 < pp"
  shows "length xs \<le> nat (pg_pages \<lparr>pg_items = is, pg_page = p, pg_per_page = pp, pg_total = int (length xs)\<rparr>) * nat pp"
proof (cases "length xs = 0")
  case False
  let ?q = "(int (length xs) + pp - 1) div pp"
  have c: "int (length xs) \<le> ?q * pp" using ceil_div_cover [OF assms] .
  have q0: "0 \<le> ?q" using assms False by (simp add: pos_imp_zdiv_nonneg_iff)
  have "int (nat ?q * nat pp) = ?q * pp" using q0 assms by simp
  then have "int (length xs) \<le> int (nat ?q * nat pp)" using c by simp
  then show ?thesis using False by (simp add: pg_pages_def del: of_nat_mult)
qed (simp add: pg_pages_def)

lemma paginate_items:
  "1 \<le> p \<Longrightarrow> pg_items (paginate_query xs (int p) pp) =
     take (nat (if pp < 1 then 20 else pp)) (drop ((p - 1) * nat (if pp < 1 then 20 else pp)) xs)"
proof -
  assume "1 \<le> p"
  then have "nat (int p - 1) = p - 1" by linarith
  then show ?thesis by (simp add: paginate_query_def Let_def nat_mult_distrib)
qed

lemma paginate_items_Suc:
  "pg_items (paginate_query xs (1 + int i) pp) =
     take (nat (if pp < 1 then 20 else pp)) (drop (i * nat (if pp < 1 then 20 else pp)) xs)"
  using paginate_items [of "Suc i" xs pp] by simp

section \<open>Properties of the admin utilities\<close>

text \<open>
  C33: an end date never filters: \<open>apply_date_filters\<close> with an end date
  raises on every input, and when both dates are well formed it is the
  missing \<open>timedelta\<close> import (\<open>NameError\<close>), so no upper bound can ever be
  applied.
\<close>

theorem apply_date_filters_end_raises:
  assumes "truthy_str e"
  shows "(\<exists>err. apply_date_filters field s e rows = Inl err) \<and>
         (parse_iso (the e) \<noteq> None \<and> (\<not> truthy_str s \<or> parse_iso (the s) \<noteq> None) \<longrightarrow>
            apply_date_filters field s e rows = Inl NameError)"
  using assms by (simp add: apply_date_filters_end)

theorem apply_date_filters_end_raises_witness:
  "apply_date_filters (\<lambda>r. r) (Some ''2026-11-01'') (Some ''2026-11-30'') [((2026, 11, 5), 0)] = Inl NameError"
proof -
  have "parse_iso ''2026-11-30'' \<noteq> None" "parse_iso ''2026-11-01'' \<noteq> None"
    by (simp_all add: parse_iso_def num_field_def is_digit_def digits_val_def digit_val_def month_days_def leap_def)
  then show ?thesis
    using apply_date_filters_end_raises [of "Some ''2026-11-30''" "\<lambda>r. r" "Some ''2026-11-01''" "[((2026, 11, 5), 0)]"]
    by (simp add: truthy_str_def)
qed

text \<open>
  Pagination partitions the result: the items of pages 1 to \<open>pages\<close>,
  concatenated in order, are exactly the query's rows, and no page holds more
  than its \<open>per_page\<close> rows, whatever page and size are requested.
\<close>

theorem paginate_pages_partition:
  "concat (map (\<lambda>p. pg_items (paginate_query xs (int p) pp))
                [1..<Suc (nat (pg_pages (paginate_query xs 1 pp)))]) = xs \<and>
   length (pg_items (paginate_query xs page pp)) \<le> nat (pg_per_page (paginate_query xs page pp))"
proof
  let ?pp = "if pp < 1 then 20 else pp"
  let ?k = "nat ?pp"
  let ?n = "nat (pg_pages (paginate_query xs 1 pp))"
  have pages: "pg_pages (paginate_query xs 1 pp) =
               pg_pages \<lparr>pg_items = take ?k xs, pg_page = 1, pg_per_page = ?pp, pg_total = int (length xs)\<rparr>"
    by (simp add: paginate_query_def pg_pages_def Let_def)
  have pos: "0 < ?pp" by simp
  have "length xs \<le> nat (pg_pages \<lparr>pg_items = take ?k xs, pg_page = 1, pg_per_page = ?pp,
                                      pg_total = int (length xs)\<rparr>) * ?k"
    by (rule pages_cover [OF pos])
  then have cover: "length xs \<le> ?n * ?k" by (simp only: pages)
  have "map (\<lambda>p. pg_items (paginate_query xs (int p) pp)) [1..<Suc ?n] =
        map (\<lambda>i. take ?k (drop (i * ?k) xs)) [0..<?n]"
    by (simp add: map_Suc_upt [symmetric] paginate_items_Suc del: upt_Suc)
  then show "concat (map (\<lambda>p. pg_items (paginate_query xs (int p) pp)) [1..<Suc ?n]) = xs"
    using concat_take_drop_pages [of ?k xs ?n] cover by simp
next
  show "length (pg_items (paginate_query xs page pp)) \<le> nat (pg_per_page (paginate_query xs page pp))"
    by (simp add: paginate_query_def Let_def)
qed

section \<open>Dashboard lemmas\<close>

lemma tiles_loop_titles:
  "tiles_loop ex sd ts = Inr r \<Longrightarrow> map fst r = map tile_title ts"
  by (induction ts arbitrary: r) (auto split: sum.splits)

lemma tiles_loop_values:
  "(\<And>q. ex q = Inr (f q)) \<Longrightarrow>
   tiles_loop ex sd ts = Inr (map (\<lambda>t. (tile_title t, f (py_replace month_placeholder ([CHR 0x27] @ date_str sd @ [CHR 0x27]) (tile_query t)))) ts)"
  by (induction ts) auto

lemma admin_required_allowed:
  "admin_required cu v = Allowed v' \<longleftrightarrow> (\<exists>u. cu = Some u \<and> role u = ''admin'') \<and> v' = v"
  by (auto simp: admin_required_def split: option.split)

lemma dashboard_view_start:
  "dashboard_view cu tiles ex p s e today = admin_required cu (tiles_loop ex (fst (dashboard_window p s e today)) tiles)"
  by (cases "dashboard_window p s e today") (simp add: dashboard_view_def)

text \<open>
  The dashboard's tiles depend only on the first day of the window:
  two requests whose windows start on the same day show the same tiles,
  whatever end date or period they ask for.
\<close>

theorem dashboard_ignores_end_date:
  assumes "fst (dashboard_window p1 s1 e1 today) = fst (dashboard_window p2 s2 e2 today)"
  shows "dashboard_view cu tiles ex p1 s1 e1 today = dashboard_view cu tiles ex p2 s2 e2 today"
  using assms by (simp only: dashboard_view_start)

theorem dashboard_ignores_end_date_witness:
  "dashboard_view cu tiles ex (Some ''custom'') (Some ''2026-11-01'') (Some ''2026-11-05'') (2026, 11, 9) =
   dashboard_view cu tiles ex (Some ''custom'') (Some ''2026-11-01'') (Some ''2026-12-31'') (2026, 11, 9)"
proof -
  have p: "parse_iso ''2026-11-01'' = Some (2026, 11, 1)" "parse_iso ''2026-11-05'' = Some (2026, 11, 5)"
          "parse_iso ''2026-12-31'' = Some (2026, 12, 31)"
    by (simp_all add: parse_iso_def num_field_def is_digit_def digits_val_def digit_val_def month_days_def leap_def)
  have "fst (dashboard_window (Some ''custom'') (Some ''2026-11-01'') (Some ''2026-11-05'') (2026, 11, 9)) =
        fst (dashboard_window (Some ''custom'') (Some ''2026-11-01'') (Some ''2026-12-31'') (2026, 11, 9))"
    by (simp add: dashboard_window_def p truthy_str_def Let_def)
  then show ?thesis by (rule dashboard_ignores_end_date)
qed

end
