(* ===== verification/Google.thy ===== *)
theory Google
  imports Import
begin

text \<open>
  The Google Calendar connection of \<open>src/app/google_auth\<close> and the
  \<open>calendar_connected\<close> flag of \<open>src/app/closer/__init__.py\<close>. The OAuth flow,
  \<open>json\<close> and the Google client are a library parameter \<open>glib\<close>: whatever
  they return, including an exception (\<open>None\<close>), the handlers' own logic is
  what the definitions below translate. The state is the token table, the
  session's OAuth state and the process environment's
  \<open>OAUTHLIB_INSECURE_TRANSPORT\<close> flag.
\<close>

text \<open>The fields of the stored credentials dictionary (\<open>creds_data\<close>).\<close>

record creds =
  c_token :: "string option"
  c_refresh_token :: "string option"
  c_token_uri :: "string option"
  c_client_id :: "string option"
  c_client_secret :: "string option"
  c_scopes :: "string list option"

record glib =
  authorization_url :: "string \<Rightarrow> string \<times> string"
    \<comment> \<open>\<open>flow.authorization_url(...)\<close> for a redirect URI: the URL and the state\<close>
  fetch_token :: "string option \<Rightarrow> string \<Rightarrow> string \<Rightarrow> creds option"
    \<comment> \<open>\<open>flow.fetch_token\<close> for a state, redirect URI and response URL; \<open>None\<close> raises\<close>
  json_dumps :: "creds \<Rightarrow> string"
  json_loads :: "string \<Rightarrow> creds option"
  cred_valid :: "creds \<Rightarrow> bool"
  cred_expired :: "creds \<Rightarrow> bool"
  cred_refresh :: "creds \<Rightarrow> creds option"
  build_ok :: "creds \<Rightarrow> bool"
    \<comment> \<open>\<open>build('calendar', 'v3', ...)\<close> succeeds\<close>
  calendar_items :: "creds \<Rightarrow> string list option"
    \<comment> \<open>\<open>calendarList().list().execute()['items']\<close>; \<open>None\<close> raises\<close>

text \<open>A \<open>GoogleCalendarToken\<close> row.\<close>

record token_row =
  tk_user :: uid
  tk_json :: string
  tk_calendar :: "string option"

datatype gflash = AuthError | Connected | ConnectFirst | CalendarUpdated | CalendarListError

record gstate =
  tokens :: "token_row list"
  oauth_state :: "string option"
  insecure_transport :: bool
  gflashes :: "gflash list"

datatype gtarget = AuthUrl string | AdminDashboard | CloserDashboard | Authorize

datatype gresponse = GRedirect gtarget | GRender "string list" "string option"

text \<open>
  \<open>SCOPES\<close> and \<open>get_client_config()\<close>: the constants handed to
  \<open>Flow.from_client_config\<close>; the client id and secret come from the process
  environment (\<open>os.environ.get\<close>, \<open>None\<close> when unset).
\<close>

definition scopes :: "string list" where
  "scopes = [''https://www.googleapis.com/auth/calendar.events'',
             ''https://www.googleapis.com/auth/calendar.readonly'']"

record client_config =
  cc_client_id :: "string option"
  cc_project_id :: string
  cc_auth_uri :: string
  cc_token_uri :: string
  cc_cert_url :: string
  cc_client_secret :: "string option"
  cc_redirect_uris :: "string list"

definition get_client_config :: "(string \<Rightarrow> string option) \<Rightarrow> client_config" where
  "get_client_config env =
     \<lparr>cc_client_id = env ''CLIENT_ID'', cc_project_id = ''neuropops-calendar'',
      cc_auth_uri = ''https://accounts.google.com/o/oauth2/auth'', cc_token_uri = ''https://oauth2.googleapis.com/token'',
      cc_cert_url = ''https://www.googleapis.com/oauth2/v1/certs'', cc_client_secret = env ''CLIENT_SECRET'',
      cc_redirect_uris = []\<rparr>"

section \<open>Redirect URI\<close>

definition py_startswith :: "string \<Rightarrow> string \<Rightarrow> bool" where
  "py_startswith s p \<longleftrightarrow> take (length p) s = p"

definition is_local :: "string \<Rightarrow> bool" where
  "is_local u \<longleftrightarrow> py_contains ''localhost'' u \<or> py_contains ''127.0.0.1'' u"

text \<open>
  Force HTTPS outside local environments: \<open>redirect_uri.replace('http:',
  'https:')\<close> unless the URI mentions \<open>localhost\<close> or \<open>127.0.0.1\<close> or already
  starts with \<open>https\<close>.
\<close>

definition fix_redirect :: "string \<Rightarrow> string" where
  "fix_redirect u =
     (if \<not> py_contains ''localhost'' u \<and> \<not> py_contains ''127.0.0.1'' u \<and> \<not> py_startswith u ''https''
      then py_replace ''http:'' ''https:'' u else u)"

text \<open>\<open>os.environ['OAUTHLIB_INSECURE_TRANSPORT'] = '1'\<close> for a local URI.\<close>

definition mark_insecure :: "string \<Rightarrow> gstate \<Rightarrow> gstate" where
  "mark_insecure u st = (if is_local u then st\<lparr>insecure_transport := True\<rparr> else st)"

section \<open>Handlers\<close>

text \<open>\<open>authorize\<close>: the callback URL Flask builds is the argument.\<close>

definition authorize :: "glib \<Rightarrow> string \<Rightarrow> gstate \<Rightarrow> gresponse \<times> gstate" where
  "authorize lib url st =
     (let redirect_uri = fix_redirect url;
          st1 = mark_insecure redirect_uri st;
          (auth_url, state) = authorization_url lib redirect_uri
      in (GRedirect (AuthUrl auth_url), st1\<lparr>oauth_state := Some state\<rparr>))"

text \<open>The token row of a user: the first one, updated in place, or a new one.\<close>

definition token_of :: "gstate \<Rightarrow> uid \<Rightarrow> token_row option" where
  "token_of st u = List.find (\<lambda>t. tk_user t = u) (tokens st)"

fun update_first :: "('a \<Rightarrow> bool) \<Rightarrow> ('a \<Rightarrow> 'a) \<Rightarrow> 'a list \<Rightarrow> 'a list" where
  "update_first P f [] = []"
| "update_first P f (x # xs) = (if P x then f x # xs else x # update_first P f xs)"

definition store_json :: "uid \<Rightarrow> string \<Rightarrow> gstate \<Rightarrow> gstate" where
  "store_json u j st =
     (case token_of st u of
        None \<Rightarrow> st\<lparr>tokens := tokens st @ [\<lparr>tk_user = u, tk_json = j, tk_calendar = None\<rparr>]\<rparr>
      | Some _ \<Rightarrow> st\<lparr>tokens := update_first (\<lambda>t. tk_user t = u) (\<lambda>t. t\<lparr>tk_json := j\<rparr>) (tokens st)\<rparr>)"

text \<open>
  \<open>callback\<close>: the callback URL, the request URL and scheme, and the logged-in
  user. A failed token exchange flashes the error and falls back to the admin
  dashboard.
\<close>

definition callback :: "glib \<Rightarrow> string \<Rightarrow> string \<Rightarrow> string \<Rightarrow> uid \<Rightarrow> gstate \<Rightarrow> gresponse \<times> gstate" where
  "callback lib url req_url scheme u st =
     (let state = oauth_state st;
          redirect_uri = fix_redirect url;
          st1 = mark_insecure redirect_uri st;
          auth_resp = (if scheme = ''http'' \<and> py_contains ''https'' redirect_uri
                       then py_replace ''http:'' ''https:'' req_url else req_url)
      in case fetch_token lib state redirect_uri auth_resp of
           None \<Rightarrow> (GRedirect AdminDashboard, st1\<lparr>gflashes := gflashes st1 @ [AuthError]\<rparr>)
         | Some c \<Rightarrow>
             (let st2 = store_json u (json_dumps lib c) st1
              in (GRedirect CloserDashboard, st2\<lparr>gflashes := gflashes st2 @ [Connected]\<rparr>)))"

text \<open>
  \<open>get_calendar_service\<close>: the credentials the service is built with, or
  \<open>None\<close>. An expired token with a refresh token is refreshed and the new
  token written back before the service is built.
\<close>

definition get_calendar_service :: "glib \<Rightarrow> uid \<Rightarrow> gstate \<Rightarrow> creds option \<times> gstate" where
  "get_calendar_service lib u st =
     (case token_of st u of
        None \<Rightarrow> (None, st)
      | Some te \<Rightarrow>
          (case json_loads lib (tk_json te) of
             None \<Rightarrow> (None, st)
           | Some cd \<Rightarrow>
               if cred_valid lib cd then (if build_ok lib cd then Some cd else None, st)
               else if cred_expired lib cd \<and> truthy_str (c_refresh_token cd) then
                 (case cred_refresh lib cd of
                    None \<Rightarrow> (None, st)
                  | Some c' \<Rightarrow>
                      (let cd' = cd\<lparr>c_token := c_token c',
                                    c_refresh_token := (if truthy_str (c_refresh_token c') then c_refresh_token c'
                                                        else c_refresh_token cd)\<rparr>;
                           st' = store_json u (json_dumps lib cd') st
                       in (if build_ok lib c' then Some c' else None, st')))
               else (None, st)))"

text \<open>\<open>select_calendar\<close>: the request method (POST is \<open>True\<close>) and the form's \<open>calendar_id\<close>.\<close>

definition select_calendar :: "glib \<Rightarrow> uid \<Rightarrow> bool \<Rightarrow> string option \<Rightarrow> gstate \<Rightarrow> gresponse \<times> gstate" where
  "select_calendar lib u post selected st =
     (case get_calendar_service lib u st of
        (None, st1) \<Rightarrow> (GRedirect Authorize, st1\<lparr>gflashes := gflashes st1 @ [ConnectFirst]\<rparr>)
      | (Some svc, st1) \<Rightarrow>
          (let tok = token_of st1 u in
           if post \<and> truthy_str selected then
             (GRedirect CloserDashboard,
              st1\<lparr>tokens := update_first (\<lambda>t. tk_user t = u) (\<lambda>t. t\<lparr>tk_calendar := selected\<rparr>) (tokens st1),
                  gflashes := gflashes st1 @ [CalendarUpdated]\<rparr>)
           else (case calendar_items lib svc of
                   None \<Rightarrow> (GRedirect CloserDashboard, st1\<lparr>gflashes := gflashes st1 @ [CalendarListError]\<rparr>)
                 | Some items \<Rightarrow> (GRender items (tk_calendar (the tok)), st1))))"

text \<open>\<open>inject_calendar_status\<close>: whether the logged-in user has a token row.\<close>

definition calendar_connected :: "gstate \<Rightarrow> uid option \<Rightarrow> bool" where
  "calendar_connected st u = (case u of None \<Rightarrow> False | Some i \<Rightarrow> token_of st i \<noteq> None)"

text \<open>The token table is well formed: one row per user, and every stored JSON decodes.\<close>

definition tokens_wf :: "glib \<Rightarrow> gstate \<Rightarrow> bool" where
  "tokens_wf lib st \<longleftrightarrow> distinct (map tk_user (tokens st)) \<and> list_all (\<lambda>j. json_loads lib j \<noteq> None) (map tk_json (tokens st))"

text \<open>The library law the invariant assumes of \<open>json\<close>: what \<open>json.dumps\<close> writes, \<open>json.loads\<close> reads.\<close>

definition json_decodable :: "glib \<Rightarrow> bool" where
  "json_decodable lib \<longleftrightarrow> (\<forall>c. json_loads lib (json_dumps lib c) \<noteq> None)"

text \<open>
  Fixtures for the witnesses: a library whose stored token \<open>old\<close> is expired
  and refreshes to a new access token, and a state with one connected user
  (id 3).
\<close>

definition cd_old :: creds where
  "cd_old = \<lparr>c_token = Some ''a1'', c_refresh_token = Some ''r1'', c_token_uri = Some ''uri'',
             c_client_id = Some ''id'', c_client_secret = Some ''sec'', c_scopes = Some [''cal'']\<rparr>"

definition demo_glib :: glib where
  "demo_glib = \<lparr>authorization_url = (\<lambda>u. (''https://accounts.google.com/o/oauth2/auth'', ''st1'')),
     fetch_token = (\<lambda>s r a. Some cd_old),
     json_dumps = (\<lambda>c. if c = cd_old then ''old'' else ''new''),
     json_loads = (\<lambda>s. if s = ''old'' then Some cd_old else Some (cd_old\<lparr>c_token := Some ''a2''\<rparr>)),
     cred_valid = (\<lambda>c. c_token c = Some ''a2''),
     cred_expired = (\<lambda>c. c_token c \<noteq> Some ''a2''),
     cred_refresh = (\<lambda>c. Some (c\<lparr>c_token := Some ''a2'', c_refresh_token := None\<rparr>)),
     build_ok = (\<lambda>c. True),
     calendar_items = (\<lambda>c. Some [''primary''])\<rparr>"

definition demo_gstate :: gstate where
  "demo_gstate = \<lparr>tokens = [\<lparr>tk_user = 3, tk_json = ''old'', tk_calendar = None\<rparr>], oauth_state = None,
                   insecure_transport = False, gflashes = []\<rparr>"

section \<open>The token table\<close>

lemma update_first_map: "map g (update_first P f xs) = map g xs" if "\<And>x. g (f x) = g x"
  using that by (induction xs) auto

lemma find_update_first:
  assumes "List.find P xs = Some x" and "\<And>y. P (f y) = P y"
  shows "List.find P (update_first P f xs) = Some (f x)"
  using assms by (induction xs) (auto split: if_splits)

lemma store_json_users:
  "map tk_user (tokens (store_json u j st)) =
     (if token_of st u = None then map tk_user (tokens st) @ [u] else map tk_user (tokens st))"
  by (auto simp: store_json_def update_first_map split: option.split)

lemma store_json_distinct:
  "distinct (map tk_user (tokens st)) \<Longrightarrow> distinct (map tk_user (tokens (store_json u j st)))"
  by (auto simp: store_json_users token_of_def find_None_iff)

lemma update_first_json:
  "set (map tk_json (update_first P (\<lambda>t. t\<lparr>tk_json := j\<rparr>) xs)) \<subseteq> set (map tk_json xs) \<union> {j}"
  by (induction xs) auto

lemma store_json_jsons:
  "set (map tk_json (tokens (store_json u j st))) \<subseteq> set (map tk_json (tokens st)) \<union> {j}"
  using update_first_json [of "\<lambda>t. tk_user t = u" j "tokens st"]
  by (auto simp: store_json_def split: option.split)

lemma store_json_lookup:
  "token_of (store_json u j st) u = Some r \<Longrightarrow> tk_json r = j"
proof (cases "token_of st u")
  case None
  assume "token_of (store_json u j st) u = Some r"
  then show ?thesis using None by (auto simp: store_json_def token_of_def)
next
  case (Some t)
  assume r: "token_of (store_json u j st) u = Some r"
  have "List.find (\<lambda>t. tk_user t = u) (update_first (\<lambda>t. tk_user t = u) (\<lambda>t. t\<lparr>tk_json := j\<rparr>) (tokens st)) =
        Some (t\<lparr>tk_json := j\<rparr>)"
    using Some by (intro find_update_first) (simp_all add: token_of_def)
  then show ?thesis using r Some by (auto simp: store_json_def token_of_def)
qed

lemma store_json_wf:
  assumes "json_loads lib j \<noteq> None" and "tokens_wf lib st"
  shows "tokens_wf lib (store_json u j st)"
proof -
  have "\<forall>x\<in>set (map tk_json (tokens (store_json u j st))). json_loads lib x \<noteq> None"
    using store_json_jsons [of u j st] assms unfolding tokens_wf_def list_all_iff by blast
  then show ?thesis
    using store_json_distinct assms(2) unfolding tokens_wf_def list_all_iff by blast
qed

lemma tokens_wf_fields [simp]:
  "tokens_wf lib (st\<lparr>gflashes := fl\<rparr>) = tokens_wf lib st"
  "tokens_wf lib (st\<lparr>oauth_state := s\<rparr>) = tokens_wf lib st"
  "tokens_wf lib (st\<lparr>insecure_transport := b\<rparr>) = tokens_wf lib st"
  by (simp_all add: tokens_wf_def)

lemma mark_insecure_wf [simp]: "tokens_wf lib (mark_insecure u st) = tokens_wf lib st"
  by (simp add: mark_insecure_def)

lemma get_calendar_service_wf:
  assumes "json_decodable lib" and "tokens_wf lib st"
  shows "tokens_wf lib (snd (get_calendar_service lib u st))"
  using assms store_json_wf [of lib] unfolding json_decodable_def
  by (auto simp: get_calendar_service_def Let_def split: option.split)

lemma select_calendar_wf:
  assumes "json_decodable lib" and "tokens_wf lib st"
  shows "tokens_wf lib (snd (select_calendar lib u post sel st))"
proof -
  obtain r st1 where g: "get_calendar_service lib u st = (r, st1)" by fastforce
  have w: "tokens_wf lib st1" using get_calendar_service_wf [OF assms, of u] g by simp
  have "tokens_wf lib (st1\<lparr>tokens := update_first (\<lambda>t. tk_user t = u) (\<lambda>t. t\<lparr>tk_calendar := sel\<rparr>) (tokens st1)\<rparr>)"
  proof -
    have "map tk_user (update_first (\<lambda>t. tk_user t = u) (\<lambda>t. t\<lparr>tk_calendar := sel\<rparr>) (tokens st1)) =
          map tk_user (tokens st1)"
      by (rule update_first_map) simp
    moreover have "map tk_json (update_first (\<lambda>t. tk_user t = u) (\<lambda>t. t\<lparr>tk_calendar := sel\<rparr>) (tokens st1)) =
          map tk_json (tokens st1)"
      by (rule update_first_map) simp
    ultimately show ?thesis using w unfolding tokens_wf_def by simp
  qed
  then show ?thesis using w g
    by (auto simp: select_calendar_def Let_def split: option.split prod.split)
qed


lemma find_snoc: "List.find P xs = None \<Longrightarrow> List.find P (xs @ [y]) = (if P y then Some y else None)"
  by (induction xs) (auto split: if_splits)

lemma store_json_present: "token_of (store_json u j st) u \<noteq> None"
proof (cases "token_of st u")
  case None
  then have "List.find (\<lambda>t. tk_user t = u) (tokens st) = None" by (simp add: token_of_def)
  then show ?thesis by (simp add: store_json_def token_of_def find_snoc)
next
  case (Some t)
  then have "List.find (\<lambda>t. tk_user t = u) (update_first (\<lambda>t. tk_user t = u) (\<lambda>t. t\<lparr>tk_json := j\<rparr>) (tokens st)) =
             Some (t\<lparr>tk_json := j\<rparr>)"
    by (intro find_update_first) (simp_all add: token_of_def)
  then show ?thesis using Some by (simp add: store_json_def token_of_def)
qed

lemma authorize_wf [simp]: "tokens_wf lib (snd (authorize lib url st)) = tokens_wf lib st"
  by (simp add: authorize_def Let_def split: prod.split)

lemma callback_wf:
  assumes "json_decodable lib" and "tokens_wf lib st"
  shows "tokens_wf lib (snd (callback lib url req scheme u st))"
  using assms store_json_wf [of lib] unfolding json_decodable_def
  by (auto simp: callback_def Let_def split: option.split)

lemma replace_https_prefix:
  "py_replace ''http:'' ''https:'' (''http://'' @ rest) = ''https://'' @ py_replace ''http:'' ''https:'' rest"
  by simp

text \<open>
  The stored dictionary has no \<open>expiry\<close>: for credentials rebuilt from it the
  library reports \<open>expired = False\<close>, and then \<open>get_calendar_service\<close>
  never writes the token table (the refresh branch is dead).
\<close>

lemma get_calendar_service_no_expiry:
  "(\<forall>c. \<not> cred_expired lib c) \<Longrightarrow> snd (get_calendar_service lib u st) = st"
  by (auto simp: get_calendar_service_def split: option.split)

section \<open>Properties of the Google connection\<close>

text \<open>
  C30: the token table stays well formed (one row per user, every stored
  JSON decodable) under every handler of the Google connection, whatever the
  OAuth server and the client library return, as long as \<open>json.loads\<close> reads
  what \<open>json.dumps\<close> writes.
\<close>

theorem google_handlers_keep_tokens_wf:
  assumes "json_decodable lib" and "tokens_wf lib st"
  shows "tokens_wf lib (snd (authorize lib url st)) \<and>
         tokens_wf lib (snd (callback lib url req scheme u st)) \<and>
         tokens_wf lib (snd (get_calendar_service lib u st)) \<and>
         tokens_wf lib (snd (select_calendar lib u post sel st))"
  using assms callback_wf get_calendar_service_wf select_calendar_wf by simp

theorem google_handlers_keep_tokens_wf_witness:
  "tokens_wf demo_glib (snd (callback demo_glib ''http://crm.example.com/cb'' ''http://crm.example.com/cb?code=x'' ''http'' 5 demo_gstate)) \<and>
   tokens_wf demo_glib (snd (get_calendar_service demo_glib 3 demo_gstate))"
proof -
  have "json_decodable demo_glib" "tokens_wf demo_glib demo_gstate"
    by (simp_all add: json_decodable_def demo_glib_def tokens_wf_def demo_gstate_def)
  then show ?thesis using google_handlers_keep_tokens_wf by blast
qed

text \<open>
  Refreshing an expired token writes it back: after
  \<open>get_calendar_service\<close> refreshes, the user's row holds the dump of the
  stored dictionary with the new access token, and the refresh token is kept
  when Google does not send a new one. This holds for a library that reports
  the stored credentials expired; \<open>google-auth\<close> never does for the stored
  dictionary, which has no expiry (\<open>get_calendar_service_no_expiry\<close>).
\<close>

theorem refresh_persists_token:
  assumes "token_of st u = Some te" and "json_loads lib (tk_json te) = Some cd"
    and "\<not> cred_valid lib cd" and "cred_expired lib cd" and "truthy_str (c_refresh_token cd)"
    and "cred_refresh lib cd = Some c'"
    and "cd' = cd\<lparr>c_token := c_token c',
                  c_refresh_token := (if truthy_str (c_refresh_token c') then c_refresh_token c' else c_refresh_token cd)\<rparr>"
    and "json_loads lib (json_dumps lib cd') = Some cd'"
  shows "\<exists>r. token_of (snd (get_calendar_service lib u st)) u = Some r \<and>
             json_loads lib (tk_json r) = Some cd' \<and> c_token cd' = c_token c' \<and> truthy_str (c_refresh_token cd')"
proof -
  have st: "snd (get_calendar_service lib u st) = store_json u (json_dumps lib cd') st"
    using assms(1-7) by (simp add: get_calendar_service_def Let_def)
  obtain r where r: "token_of (store_json u (json_dumps lib cd') st) u = Some r"
    using store_json_present by blast
  have "tk_json r = json_dumps lib cd'" using store_json_lookup [OF r] .
  then show ?thesis using r st assms(5,7,8) by auto
qed

theorem refresh_persists_token_witness:
  "\<exists>r. token_of (snd (get_calendar_service demo_glib 3 demo_gstate)) 3 = Some r \<and>
       json_loads demo_glib (tk_json r) = Some (cd_old\<lparr>c_token := Some ''a2''\<rparr>)"
proof -
  have h: "token_of demo_gstate 3 = Some \<lparr>tk_user = 3, tk_json = ''old'', tk_calendar = None\<rparr>"
    by (simp add: token_of_def demo_gstate_def)
  have "cd_old\<lparr>c_token := Some ''a2''\<rparr> \<noteq> cd_old" by (simp add: cd_old_def)
  then have "json_loads demo_glib (json_dumps demo_glib (cd_old\<lparr>c_token := Some ''a2''\<rparr>)) = Some (cd_old\<lparr>c_token := Some ''a2''\<rparr>)"
    by (simp add: demo_glib_def)
  moreover have "cd_old\<lparr>c_token := Some ''a2''\<rparr> =
     cd_old\<lparr>c_token := c_token (cd_old\<lparr>c_token := Some ''a2'', c_refresh_token := None\<rparr>),
            c_refresh_token := (if truthy_str (c_refresh_token (cd_old\<lparr>c_token := Some ''a2'', c_refresh_token := None\<rparr>))
                                then c_refresh_token (cd_old\<lparr>c_token := Some ''a2'', c_refresh_token := None\<rparr>)
                                else c_refresh_token cd_old)\<rparr>"
    by (simp add: truthy_str_def)
  ultimately show ?thesis
    using refresh_persists_token [OF h, of demo_glib cd_old "cd_old\<lparr>c_token := Some ''a2'', c_refresh_token := None\<rparr>"
                                          "cd_old\<lparr>c_token := Some ''a2''\<rparr>"]
    by (simp add: demo_glib_def cd_old_def truthy_str_def)
qed

text \<open>
  C31: outside a local environment the redirect URI handed to Google is
  forced to HTTPS, and the insecure-transport switch is set exactly when the
  URI mentions \<open>localhost\<close> or \<open>127.0.0.1\<close> anywhere, and is never reset: it
  is process-wide state that survives every later request.
\<close>

theorem authorize_redirect_transport:
  "(py_startswith url ''http://'' \<and> \<not> is_local url \<longrightarrow> py_startswith (fix_redirect url) ''https://'') \<and>
   insecure_transport (snd (authorize lib url st)) = (insecure_transport st \<or> is_local (fix_redirect url))"
proof (intro conjI impI)
  assume a: "py_startswith url ''http://'' \<and> \<not> is_local url"
  then obtain rest where u: "url = ''http://'' @ rest"
    unfolding py_startswith_def by (metis append_take_drop_id)
  then show "py_startswith (fix_redirect url) ''https://''"
    using a by (simp add: fix_redirect_def is_local_def py_startswith_def del: py_replace.simps)
      (simp add: replace_https_prefix)
next
  show "insecure_transport (snd (authorize lib url st)) = (insecure_transport st \<or> is_local (fix_redirect url))"
    by (simp add: authorize_def mark_insecure_def Let_def split: prod.split)
qed

theorem authorize_redirect_transport_witness:
  "py_startswith (fix_redirect ''http://crm.example.com/cb'') ''https://'' \<and>
   insecure_transport (snd (authorize demo_glib ''http://crm.example.com/cb?next=localhost'' demo_gstate))"
  using authorize_redirect_transport [of "''http://crm.example.com/cb''" demo_glib demo_gstate]
        authorize_redirect_transport [of "''http://crm.example.com/cb?next=localhost''" demo_glib demo_gstate]
  by (simp add: py_startswith_def is_local_def fix_redirect_def)

end
