(* ===== verification/Scripts.thy ===== *)
theory Scripts
  imports Store
begin

text \<open>
  The database maintenance scripts: \<open>src/seed_questions.py\<close> (insert the
  daily-report questions that are missing, by text) and \<open>reset_db\<close> of
  \<open>src/scripts/reset_local_db.py\<close> (drop and recreate the schema, insert the
  default administrator). The \<open>DailyReportQuestion\<close> table is a list of rows
  in insertion order with its autoincrement counter; the script's output
  lines are a log.
\<close>

record drq =
  dq_id :: uid
  dq_text :: string
  dq_order :: int
  dq_type :: string

record qtable =
  dq_rows :: "drq list"
  dq_next :: uid

datatype seed_msg = Added string | Skipped string

text \<open>The script's question list (text, order, type), the texts in UTF-8.\<close>

definition seed_data :: "(string \<times> int \<times> string) list" where
  "seed_data =
     [(''Win del d'' @ [CHR 0xC3, CHR 0xAD] @ ''a'', 1, ''text''),
      ([CHR 0xC3, CHR 0x81] @ ''rea de mejora / Obst'' @ [CHR 0xC3, CHR 0xA1] @ ''culo'', 2, ''text''),
      ([CHR 0xC2, CHR 0xBF] @ ''Completaste el formulario de objeciones?'', 3, ''boolean''),
      ([CHR 0xC2, CHR 0xBF] @ ''Actualizaste Notion?'', 4, ''boolean'')]"

text \<open>
  One iteration of the loop: \<open>filter_by(text=...).first()\<close>; a missing text
  is added (autoflush makes it visible to the next query of the loop).
\<close>

fun seed_one :: "string \<times> int \<times> string \<Rightarrow> qtable \<times> seed_msg list \<Rightarrow> qtable \<times> seed_msg list" where
  "seed_one (tx, ord, ty) (t, msgs) =
     (if List.find (\<lambda>q. dq_text q = tx) (dq_rows t) = None
      then (t\<lparr>dq_rows := dq_rows t @ [\<lparr>dq_id = dq_next t, dq_text = tx, dq_order = ord, dq_type = ty\<rparr>],
              dq_next := dq_next t + 1\<rparr>, msgs @ [Added tx])
      else (t, msgs @ [Skipped tx]))"

definition seed_from :: "(string \<times> int \<times> string) list \<Rightarrow> qtable \<Rightarrow> qtable \<times> seed_msg list" where
  "seed_from qs t = foldl (\<lambda>acc q. seed_one q acc) (t, []) qs"

definition seed_questions :: "qtable \<Rightarrow> qtable \<times> seed_msg list" where
  "seed_questions t = seed_from seed_data t"

text \<open>
  \<open>reset_db\<close>: \<open>drop_all\<close> and \<open>create_all\<close> leave empty tables with fresh
  counters (the schema, with or without the unique slot index, is what the
  models declare: the argument); then the administrator is inserted with
  \<open>set_password\<close>.
\<close>

definition reset_db :: "bool \<Rightarrow> db" where
  "reset_db idx =
     \<lparr>users = [\<lparr>u_id = 1, username = ''Admin'', email = ''admin@neurops.com'', role = ''admin'',
               timezone = None, password_set = True\<rparr>],
      profiles = [], appointments = [], answers = [], questions = [], events = [], availabilities = [],
      next_user = 2, next_appt = 1, next_answer = 1, unique_slot_index = idx\<rparr>"

section \<open>Seeding\<close>

lemma seed_one_fst: "fst (seed_one q (t, m)) = fst (seed_one q (t, m'))"
  by (cases q) auto

lemma seed_one_texts:
  "set (map dq_text (dq_rows t)) \<union> {fst q} \<subseteq> set (map dq_text (dq_rows (fst (seed_one q (t, m)))))"
  by (cases q) (auto simp: find_None_iff)

lemma seed_one_present:
  "fst q \<in> set (map dq_text (dq_rows t)) \<Longrightarrow> fst (seed_one q (t, m)) = t"
  by (cases q) (auto simp: find_None_iff)

lemma seed_one_append:
  "\<exists>new. dq_rows (fst (seed_one q (t, m))) = dq_rows t @ new"
  by (cases q) auto

lemma seed_one_distinct:
  "distinct (map dq_text (dq_rows t)) \<Longrightarrow> distinct (map dq_text (dq_rows (fst (seed_one q (t, m)))))"
  by (cases q) (auto simp: find_None_iff)

lemmas seed_one_facts = seed_one_texts seed_one_present seed_one_append seed_one_distinct

lemma seed_fold_texts:
  "set (map dq_text (dq_rows (fst acc))) \<union> fst ` set qs \<subseteq>
     set (map dq_text (dq_rows (fst (foldl (\<lambda>acc q. seed_one q acc) acc qs))))"
proof (induction qs arbitrary: acc)
  case (Cons q qs)
  have "set (map dq_text (dq_rows (fst acc))) \<union> {fst q} \<subseteq> set (map dq_text (dq_rows (fst (seed_one q acc))))"
    using seed_one_texts [of "fst acc" q "snd acc"] by simp
  then show ?case using Cons.IH [of "seed_one q acc"] by auto
qed simp

lemma seed_fold_noop:
  "fst ` set qs \<subseteq> set (map dq_text (dq_rows (fst acc))) \<Longrightarrow>
   fst (foldl (\<lambda>acc q. seed_one q acc) acc qs) = fst acc"
proof (induction qs arbitrary: acc)
  case (Cons q qs)
  have s: "fst (seed_one q acc) = fst acc"
    using seed_one_present [of q "fst acc" "snd acc"] Cons.prems by simp
  then show ?case using Cons.IH [of "seed_one q acc"] Cons.prems by simp
qed simp

lemma seed_fold_append:
  "\<exists>new. dq_rows (fst (foldl (\<lambda>acc q. seed_one q acc) acc qs)) = dq_rows (fst acc) @ new"
proof (induction qs arbitrary: acc)
  case (Cons q qs)
  obtain n1 where "dq_rows (fst (seed_one q acc)) = dq_rows (fst acc) @ n1"
    using seed_one_append [of q "fst acc" "snd acc"] by auto
  moreover obtain n2 where "dq_rows (fst (foldl (\<lambda>acc q. seed_one q acc) (seed_one q acc) qs)) =
                            dq_rows (fst (seed_one q acc)) @ n2"
    using Cons.IH by blast
  ultimately show ?case by auto
qed simp

lemma seed_fold_distinct:
  "distinct (map dq_text (dq_rows (fst acc))) \<Longrightarrow>
   distinct (map dq_text (dq_rows (fst (foldl (\<lambda>acc q. seed_one q acc) acc qs))))"
proof (induction qs arbitrary: acc)
  case (Cons q qs)
  then show ?case using seed_one_distinct [of "fst acc" q "snd acc"] by simp
qed simp

lemma seed_from_fst: "fst (seed_from qs (fst (seed_from qs t))) = fst (seed_from qs t)"
  using seed_fold_noop [of qs "(fst (seed_from qs t), [])"] seed_fold_texts [of "(t, [])" qs]
  unfolding seed_from_def by simp

lemma reset_db_fresh:
  "no_double_booking (reset_db idx) \<and> user_by_email (reset_db idx) ''admin@neurops.com'' = Some (hd (users (reset_db idx))) \<and>
   role (hd (users (reset_db idx))) = ''admin'' \<and> next_user (reset_db idx) = 2"
  by (simp add: reset_db_def no_double_booking_def user_by_email_def)

section \<open>Properties of the scripts\<close>

text \<open>
  C32: seeding is idempotent and only appends: a second run leaves the
  question table unchanged (every text is skipped), after one run every
  seeded text is present, and the rows that were there are kept, in order.
\<close>

theorem seed_questions_idempotent:
  "fst (seed_questions (fst (seed_questions t))) = fst (seed_questions t) \<and>
   fst ` set seed_data \<subseteq> set (map dq_text (dq_rows (fst (seed_questions t)))) \<and>
   take (length (dq_rows t)) (dq_rows (fst (seed_questions t))) = dq_rows t"
  using seed_from_fst [of seed_data t] seed_fold_texts [of "(t, [])" seed_data]
        seed_fold_append [of "(t, [])" seed_data]
  unfolding seed_questions_def seed_from_def by auto

end
