(* ===== verification/StatusTest.thy ===== *)
theory StatusTest
  imports Complex_Main Prelude
begin

text \<open>
  The simulation test \<open>src/tests/test_status_logic_sim.py\<close>: one user goes
  through enrollments and payments while \<open>User.update_status_based_on_debt\<close>
  (in \<open>app/models.py\<close>, not among the sources) recomputes the lead status
  after each change. The status rule is a parameter \<open>f\<close> from the user's
  enrollments and payments to the status; the test's store is the user's
  enrollments, payments, profile status and the next enrollment id. A failed
  \<open>assert\<close> is \<open>Inl AssertionError\<close>.
\<close>

record enrollment =
  en_id :: nat
  en_total :: rat
  en_status :: string

record tpayment =
  tp_enrollment :: nat
  tp_amount :: rat
  tp_status :: string
  tp_type :: string

record tstate =
  t_enrollments :: "enrollment list"
  t_payments :: "tpayment list"
  t_status :: string
  t_next :: nat

type_synonym status_rule = "enrollment list \<Rightarrow> tpayment list \<Rightarrow> string"

text \<open>\<open>user.update_status_based_on_debt()\<close>.\<close>

definition recompute_t :: "status_rule \<Rightarrow> tstate \<Rightarrow> tstate" where
  "recompute_t f st = st\<lparr>t_status := f (t_enrollments st) (t_payments st)\<rparr>"

text \<open>
  The route's orphan clean-up, which the test performs itself:
  \<open>if enrollment.payments.count() == 0: db.session.delete(enrollment)\<close>.
\<close>

definition drop_orphan :: "enrollment \<Rightarrow> tstate \<Rightarrow> tstate" where
  "drop_orphan e st =
     (if filter (\<lambda>q. tp_enrollment q = en_id e) (t_payments st) = []
      then st\<lparr>t_enrollments := remove1 e (t_enrollments st)\<rparr> else st)"

text \<open>
  \<open>test_status_logic()\<close>: a fresh lead with profile status \<open>new\<close> (and no
  enrollment), then the four scenarios of the test in order. The program row
  only supplies an id and is not modelled.
\<close>

definition test_status_logic :: "status_rule \<Rightarrow> py_error + unit" where
  "test_status_logic f =
     (let s1 = recompute_t f \<lparr>t_enrollments = [], t_payments = [], t_status = ''new'', t_next = 1\<rparr>
      in if t_status s1 \<noteq> ''new'' then Inl AssertionError else
      let e = \<lparr>en_id = t_next s1, en_total = 100, en_status = ''active''\<rparr>;
          p = \<lparr>tp_enrollment = en_id e, tp_amount = 100, tp_status = ''completed'', tp_type = ''full''\<rparr>;
          s2 = recompute_t f (s1\<lparr>t_enrollments := t_enrollments s1 @ [e], t_payments := t_payments s1 @ [p],
                                 t_next := t_next s1 + 1\<rparr>)
      in if t_status s2 \<noteq> ''completed'' then Inl AssertionError else
      let s3 = recompute_t f (drop_orphan e (s2\<lparr>t_payments := remove1 p (t_payments s2)\<rparr>))
      in if t_status s3 \<noteq> ''new'' then Inl AssertionError else
      let e2 = \<lparr>en_id = t_next s3, en_total = 100, en_status = ''active''\<rparr>;
          s4 = recompute_t f (s3\<lparr>t_enrollments := t_enrollments s3 @ [e2], t_next := t_next s3 + 1\<rparr>)
      in if t_status s4 \<noteq> ''pending'' then Inl AssertionError else
      let s5 = recompute_t f (s4\<lparr>t_enrollments := remove1 e2 (t_enrollments s4)\<rparr>)
      in if t_status s5 \<noteq> ''new'' then Inl AssertionError else Inr ())"

text \<open>
  A reference status rule consistent with the test (not code): no enrollment
  is \<open>new\<close>; an enrollment whose completed payments cover its agreed total is
  \<open>completed\<close>; otherwise \<open>pending\<close>.
\<close>

definition debt_rule :: status_rule where
  "debt_rule es ps =
     (if es = [] then ''new''
      else if (\<Sum>e\<leftarrow>es. en_total e) \<le> (\<Sum>p\<leftarrow>filter (\<lambda>p. tp_status p = ''completed'') ps. tp_amount p)
      then ''completed'' else ''pending'')"

section \<open>What the test checks\<close>

text \<open>
  The simulation test checks exactly three values of the status rule:
  it passes if and only if the rule gives \<open>new\<close> without enrollments,
  \<open>completed\<close> for the enrollment of 100 paid in full, and \<open>pending\<close> for the
  unpaid enrollment of 100. The orphan clean-up it performs itself never
  reaches the route's code.
\<close>

theorem test_status_logic_passes_iff:
  "test_status_logic f = Inr () \<longleftrightarrow>
     f [] [] = ''new'' \<and>
     f [\<lparr>en_id = 1, en_total = 100, en_status = ''active''\<rparr>]
       [\<lparr>tp_enrollment = 1, tp_amount = 100, tp_status = ''completed'', tp_type = ''full''\<rparr>] = ''completed'' \<and>
     f [\<lparr>en_id = 2, en_total = 100, en_status = ''active''\<rparr>] [] = ''pending''"
  by (auto simp: test_status_logic_def recompute_t_def drop_orphan_def Let_def numeral_2_eq_2)

theorem test_status_logic_passes_iff_witness: "test_status_logic debt_rule = Inr ()"
  unfolding test_status_logic_passes_iff by (simp add: debt_rule_def)

end
