(* ===== verification/Spec2Isabelle.thy ===== *)
theory Spec2Isabelle
  imports Concurrency Identity Survey AdminUtils Google Scripts StatusTest
begin

text \<open>
  \<^bold>\<open>A verification development for the NeurOPS booking funnel.\<close>

  The program is a Flask CRM. Its core is the booking blueprint
  \<open>src/app/booking/routes.py\<close>: a session-backed funnel
  (identify, contact details, survey, calendar) that resolves a visitor to a
  lead, computes the bookable appointment slots of the closers from their
  local-time availability, and claims one slot against double booking. The
  handlers share two pieces of state: the relational store (SQLAlchemy rows
  of \<open>app/models.py\<close>, which is not among the sources and is modelled from
  the specification's data model) and the per-visitor Flask session. Every
  handler is modelled as a function from a \<^emph>\<open>world\<close> (store, session, log of
  external calls) to a response and a new world; raises are values
  \<open>Inl e\<close> of a \<open>py_error + _\<close> result, a request that never returns is
  \<open>None\<close>.

  \<^bold>\<open>Theories and what they model.\<close>
  \<^item> \<open>Prelude\<close>: Python built-ins the handlers rely on (\<open>str.strip\<close>,
    \<open>str.replace\<close>, \<open>int()\<close>, truthiness of optional strings and ids, negative
    list indexing), the error type, and the library parameter \<open>pylib\<close>: the
    behaviour of \<open>pytz\<close> and \<open>datetime\<close> (zone lookup, the server's local
    zone, \<open>isoformat\<close>, \<open>fromisoformat\<close>) is a record of functions, so every
    theorem holds for every time zone database.
  \<^item> \<open>Store\<close>: the rows (\<open>user\<close>, \<open>lead_profile\<close>, \<open>appointment\<close>, ...), the
    store \<open>db\<close> as insertion-ordered tables with id counters, the queries of
    the blueprint as \<open>List.find\<close>/\<open>filter\<close> (\<open>first()\<close> is the first row in
    table order), the appointment insert with the specification's unique
    index on (closer, instant) as a schema flag, and the invariant
    \<open>no_double_booking\<close>.
  \<^item> \<open>Session\<close>: the session keys as a record, the staging area
    \<open>booking_data\<close>, flashes, the logged effects (calendar webhook, lead
    status recomputation) and the world.
  \<^item> \<open>Claim\<close>: \<open>_flush_session_data\<close> (\<open>flush_slot\<close>, \<open>flush_answers\<close>,
    \<open>flush_session_data\<close>) and \<open>select_slot\<close>, with the invariant that a claim
    never double-books (C1), the anonymous-claim orphan (C2) and the
    idempotence of the flush (C11).
  \<^item> \<open>Concurrency\<close>: cross-visitor contention. The conflict query and the
    insert of \<open>select_slot\<close> are separate steps (\<open>claim_check\<close>,
    \<open>claim_commit\<close>) of an inductive interleaving relation \<open>conc_step\<close>, with
    cancellations by the external status workflow; \<open>conc_reach\<close> is
    reachability. Rule induction shows the index keeps the invariant under
    every interleaving (\<open>concurrent_claims_no_double_booking\<close>); a
    four-step schedule shows the pre-check alone does not
    (\<open>race_without_index_double_books\<close>). Both rest on the unique index,
    which comes from the specification's data model, not from the sources.
  \<^item> \<open>Resolver\<close>: \<open>calendar_view\<close>'s slot computation as the code runs it
    (\<open>avail_query\<close>, \<open>booked_query\<close>, the loop \<open>slot_loop\<close> over
    \<open>slot_step\<close>, the de-duplication \<open>merge_slot\<close>, the final sort by
    \<open>timestamp()\<close>) and an abstract specification \<open>spec_slots\<close> (candidates
    \<open>cands\<close>; the first closer seen per instant, overridden by the preferred
    closer). The loop refines the specification (C10), and the slots are
    never past (C3), never booked inside the appointment window (C4), offered
    beyond it whatever is booked there (C5), honour the preferred closer (C6),
    are ordered on a constant-offset server (C7) and out of UTC order whenever
    the server zone's reading reverses two instants, as across a DST change
    (C8), and are complete (C9). The theory also proves that they are distinct, sound
    and that an unknown zone never raises while the fallback zone exists
    (\<open>resolve_slots_distinct_instants\<close>, \<open>resolve_slots_sound\<close>,
    \<open>resolve_slots_total\<close>).
  \<^item> \<open>Funnel\<close>: \<open>start_booking\<close>, \<open>handle_flow\<close> (the router's chain of
    self-redirects past unknown step names is a recursion with the measure
    \<open>steps_left\<close>), \<open>next_step\<close>, \<open>thank_you\<close> and the \<open>calendar_view\<close> handler.
    Routing is idempotent (C12) and the order is the canonical one (C13);
    routing only moves the index and the entry resets exactly the booking
    keys (\<open>handle_flow_frame\<close>, \<open>start_booking_selective_reset\<close>).
  \<^item> \<open>Identity\<close>: \<open>identify_view\<close> and \<open>contact_details_view\<close>, its POST
    branches and the GET pre-fill (\<open>contact_details_get\<close>, with
    \<open>prefill_phone\<close>/\<open>split_phone\<close>). The username loop \<open>pick_username\<close>
    consumes an input list of \<open>random.randint\<close> draws; exhausting the list
    before a free name is found is \<open>None\<close>, the request not returning. A new
    lead is provisioned with a free username (C14, C16); an existing profile
    is never blanked nor its UTM overwritten (C15); a returning lead who
    submits another user's username shares it with that user (C17); the loop
    diverges for long names whose truncations are taken, for every draw
    sequence (C18), and returns as soon as a draw is free (C19); a missing
    country code is stored as the text \<open>None\<close> (C20); the pre-fill splits a
    stored phone back into its code and number, and shows the code \<open>None\<close>
    for a phone stored without one (C34). Identification
    writes nothing, a missing identity is the session error and identifiers
    stay fresh (\<open>identify_post_defers_creation\<close>,
    \<open>contact_details_missing_identity\<close>, \<open>contact_details_preserves_ids_fresh\<close>).
  \<^item> \<open>Survey\<close>: \<open>survey_view\<close>'s question query and POST handler: upserts
    keep one answer per lead and question (C21) with the lookup round trip
    (\<open>upsert_answer_lookup\<close>); a stale event id raises (C22); staged
    answers are appended, so two anonymous submissions leave two answer rows
    for a question after the flush \<open>select_slot\<close> runs with no user (C23). The theory also proves that anonymous answers are staged without
    touching the store and which questions are shown, in which order.
  \<^item> \<open>Import\<close>: \<open>src/scripts/prepare_import_data.py\<close>. The sales loop
    (\<open>process_sale\<close> per CSV row, \<open>process_sales\<close> over the file) with the
    parsers \<open>parse_date\<close> (\<open>strptime('%d/%m/%Y')\<close> with calendar validation),
    \<open>fmt_iso\<close>/\<open>parse_iso\<close> (the \<open>strftime\<close>/\<open>strptime\<close> round trip),
    \<open>clean_amount\<close> over a decimal \<open>float()\<close>, the payment classification, and
    the user, program and payment dictionaries as association lists. The
    invariant \<open>istate_inv\<close> (every payment has its user; the paid flag
    matches the payments; the price table matches the reference
    \<open>price_spec\<close>) holds after every row. The written role is \<open>student\<close>
    exactly for users with a non-deposit payment (C24); the price table equals
    the largest full payment per program (C25); the date round trip holds
    from year 1000 and fails below, aborting the script (C26); a row raises
    only in those two cases (C27). The agenda pre-pass (\<open>agenda_pass\<close>:
    stable newest-first sort, the first 1000 entries, the first entry per
    email) keeps, for each email, its newest entry among those 1000
    (\<open>agenda_pass_newest\<close>); \<open>process_csv\<close> composes it with the sales loop,
    and \<open>process_csv_files\<close> adds the four written files as rows of cells.
    Because the agenda file is written before the sales file is read, an
    aborted run leaves only that file written (C35).
  \<^item> \<open>Admin\<close>: \<open>calculate_commission\<close>, the totals and rates of
    \<open>closer_stats\<close> and the reporting window of \<open>dashboard\<close>, with
    \<open>timedelta\<close> as steps of the Gregorian successor and predecessor. The
    default window is exactly the current month (C28); the show rate is a
    percentage whenever no day records more completed than scheduled calls
    (C29).
  \<^item> \<open>AdminUtils\<close>: the rest of \<open>src/app/admin/utils.py\<close> and the parts of
    \<open>src/app/admin/routes.py\<close> that read the store. \<open>apply_date_filters\<close>
    raises on every end date, \<open>NameError\<close> from the unimported
    \<open>timedelta\<close> when the dates are well formed (C33);
    \<open>calculate_leads_kpis\<close> always raises \<open>NameError\<close> (\<open>LeadProfile\<close> is not
    imported); \<open>safe_db_operation\<close> rolls the open transaction back on an
    exception (\<open>safe_db_operation_error\<close>); \<open>paginate_query\<close>, with
    Flask-SQLAlchemy 3's clamping of page and size (library behaviour, not
    repository code), partitions the result into its pages
    (\<open>paginate_pages_partition\<close>). \<open>dashboard_view\<close> composes \<open>admin_required\<close>, the
    window and the tile loop \<open>tiles_loop\<close>, whose queries receive only the
    window's start (\<open>dashboard_ignores_end_date\<close>).
  \<^item> \<open>Google\<close>: the Google Calendar connection of
    \<open>src/app/google_auth/routes.py\<close> (\<open>authorize\<close>, \<open>callback\<close>,
    \<open>select_calendar\<close>), \<open>src/app/google_auth/utils.py\<close>
    (\<open>get_calendar_service\<close>) and \<open>inject_calendar_status\<close> of
    \<open>src/app/closer/__init__.py\<close> (\<open>calendar_connected\<close>). The state
    \<open>gstate\<close> is the \<open>GoogleCalendarToken\<close> table, the session's OAuth
    state, the process-wide \<open>OAUTHLIB_INSECURE_TRANSPORT\<close> switch and the
    flashes; the OAuth flow, \<open>Credentials\<close>, \<open>json\<close> and the Google client
    form the library parameter \<open>glib\<close>, an exception being \<open>None\<close>. The
    token table keeps one decodable row per user under every handler, for
    every library whose \<open>json.loads\<close> reads what \<open>json.dumps\<close> writes
    (C30); non-local redirect URIs are forced to HTTPS and the insecure
    switch, set by a substring test, is never reset (C31). Because the stored
    dictionary has no expiry, \<open>google-auth\<close> never reports it expired and the
    refresh branch is dead (\<open>get_calendar_service_no_expiry\<close>); for a
    library that did, the refreshed token would be written back
    (\<open>refresh_persists_token\<close>).
  \<^item> \<open>Scripts\<close>: \<open>src/seed_questions.py\<close> as a fold of \<open>seed_one\<close>
    (insert a question unless a row has its text) over \<open>seed_data\<close>, and
    \<open>reset_db\<close> of \<open>src/scripts/reset_local_db.py\<close>. Seeding is idempotent,
    covers every seeded text and only appends (C32); the reset store holds
    only the administrator and no appointment (\<open>reset_db_fresh\<close>).
  \<^item> \<open>StatusTest\<close>: the simulation test
    \<open>src/tests/test_status_logic_sim.py\<close> as a sequence of store steps with
    \<open>update_status_based_on_debt\<close> (in \<open>app/models.py\<close>) as a parameter: the
    test passes exactly when the rule gives three particular values
    (\<open>test_status_logic_passes_iff\<close>), which the reference \<open>debt_rule\<close>
    does.

  In the import script amounts are exact rationals (the comparisons with 100
  and with the running maximum are exact for the decimal amounts of a CSV);
  \<open>float()\<close> forms outside decimal literals (\<open>inf\<close>, \<open>nan\<close>, digit
  underscores) are outside the model; strings are UTF-8 byte lists and
  \<open>str.lower\<close> covers ASCII and the two-byte Latin-1 capitals.

  \<^bold>\<open>Not modelled.\<close> Template rendering (display only); the meaning of
  the SQL text of the admin tiles, run by a library parameter; the OAuth
  protocol inside the Google libraries (what they return is arbitrary);
  what the library does with \<open>get_client_config\<close> and \<open>SCOPES\<close>;
  \<open>src/create_integrations_table.py\<close> (only \<open>db.create_all()\<close>); the
  printing of the scripts and tests; file opening, the \<open>DictReader\<close> header
  strip and CSV quoting of the import script;
  \<open>User.update_status_based_on_debt\<close> and the webhook sender, which live
  outside the sources and appear as logged effects or parameters.
\<close>

end
